theory Spec2Isabelle
  imports Complex_Main
begin

section \<open>JavaScript values used by the drawing tool handler\<close>

text \<open>
  Three revisions of the handler module are embedded side by side:
  \<^item> \<open>src/custom/drawing_tool_handler.ts\<close>: definitions with the suffix \<open>_ts\<close>;
  \<^item> \<open>unnamed/part_000\<close>: suffix \<open>_p0\<close>;
  \<^item> \<open>unnamed/part_001\<close>: suffix \<open>_p1\<close>.
  A definition without a suffix is a function whose text is the same in all three files
  (or in every file that has it).

  A JavaScript \<open>number\<close> is modelled by the real it denotes, the two infinities and
  \<open>NaN\<close>; \<open>Undefined\<close> stands for the value \<open>undefined\<close> that reading an array past
  its end yields. Rounding and the sign of zero are not modelled.
\<close>

datatype jsnum = Fin real | PosInf | NegInf | NaN | Undefined

text \<open>The global \<open>isFinite\<close>, which first converts its argument to a number.\<close>

fun isFinite :: "jsnum \<Rightarrow> bool" where
  "isFinite (Fin r) = True"
| "isFinite PosInf = False"
| "isFinite NegInf = False"
| "isFinite NaN = False"
| "isFinite Undefined = False"

text \<open>Truthiness of a number: \<open>0\<close>, \<open>NaN\<close> and \<open>undefined\<close> are falsy.\<close>

fun truthy :: "jsnum \<Rightarrow> bool" where
  "truthy (Fin r) = (r \<noteq> 0)"
| "truthy PosInf = True"
| "truthy NegInf = True"
| "truthy NaN = False"
| "truthy Undefined = False"

text \<open>Strict equality \<open>===\<close>; \<open>a !== b\<close> is its negation. \<open>NaN\<close> equals nothing.\<close>

fun strict_eq :: "jsnum \<Rightarrow> jsnum \<Rightarrow> bool" where
  "strict_eq (Fin a) (Fin b) = (a = b)"
| "strict_eq PosInf PosInf = True"
| "strict_eq NegInf NegInf = True"
| "strict_eq Undefined Undefined = True"
| "strict_eq _ _ = False"

text \<open>\<open>ToNumber\<close>: \<open>undefined\<close> becomes \<open>NaN\<close> in arithmetic and in comparisons.\<close>

fun toNumber :: "jsnum \<Rightarrow> jsnum" where
  "toNumber Undefined = NaN"
| "toNumber x = x"

text \<open>The relational operators \<open><\<close> and \<open>>=\<close>; both are false when an operand is \<open>NaN\<close>.\<close>

fun js_less :: "jsnum \<Rightarrow> jsnum \<Rightarrow> bool" where
  "js_less (Fin a) (Fin b) = (a < b)"
| "js_less (Fin a) PosInf = True"
| "js_less NegInf (Fin b) = True"
| "js_less NegInf PosInf = True"
| "js_less _ _ = False"

fun js_ge :: "jsnum \<Rightarrow> jsnum \<Rightarrow> bool" where
  "js_ge (Fin a) (Fin b) = (a \<ge> b)"
| "js_ge PosInf (Fin b) = True"
| "js_ge (Fin a) NegInf = True"
| "js_ge PosInf NegInf = True"
| "js_ge PosInf PosInf = True"
| "js_ge NegInf NegInf = True"
| "js_ge _ _ = False"

text \<open>Arithmetic, exact on finite operands, with the IEEE rules for the special values.\<close>

fun js_neg :: "jsnum \<Rightarrow> jsnum" where
  "js_neg (Fin a) = Fin (- a)"
| "js_neg PosInf = NegInf"
| "js_neg NegInf = PosInf"
| "js_neg _ = NaN"

fun js_add :: "jsnum \<Rightarrow> jsnum \<Rightarrow> jsnum" where
  "js_add (Fin a) (Fin b) = Fin (a + b)"
| "js_add (Fin a) PosInf = PosInf"
| "js_add (Fin a) NegInf = NegInf"
| "js_add PosInf (Fin b) = PosInf"
| "js_add NegInf (Fin b) = NegInf"
| "js_add PosInf PosInf = PosInf"
| "js_add NegInf NegInf = NegInf"
| "js_add _ _ = NaN"

definition js_sub :: "jsnum \<Rightarrow> jsnum \<Rightarrow> jsnum" where
  "js_sub a b = js_add a (js_neg b)"

text \<open>The sign of a non-\<open>NaN\<close> number: \<open>-1\<close>, \<open>0\<close> or \<open>1\<close>.\<close>

fun js_sign :: "jsnum \<Rightarrow> int" where
  "js_sign (Fin a) = (if a < 0 then - 1 else if a = 0 then 0 else 1)"
| "js_sign PosInf = 1"
| "js_sign NegInf = - 1"
| "js_sign _ = 0"

definition signed_inf :: "int \<Rightarrow> jsnum" where
  "signed_inf sg = (if sg < 0 then NegInf else PosInf)"

fun js_mul :: "jsnum \<Rightarrow> jsnum \<Rightarrow> jsnum" where
  "js_mul (Fin a) (Fin b) = Fin (a * b)"
| "js_mul NaN _ = NaN"
| "js_mul Undefined _ = NaN"
| "js_mul _ NaN = NaN"
| "js_mul _ Undefined = NaN"
| "js_mul a b =
     (if js_sign a = 0 \<or> js_sign b = 0 then NaN else signed_inf (js_sign a * js_sign b))"

fun js_div :: "jsnum \<Rightarrow> jsnum \<Rightarrow> jsnum" where
  "js_div NaN _ = NaN"
| "js_div Undefined _ = NaN"
| "js_div _ NaN = NaN"
| "js_div _ Undefined = NaN"
| "js_div (Fin a) (Fin b) =
     (if b \<noteq> 0 then Fin (a / b)
      else if a = 0 then NaN
      else signed_inf (js_sign (Fin a)))"
| "js_div (Fin a) _ = Fin 0"
| "js_div a (Fin b) = signed_inf (js_sign a * (if b < 0 then - 1 else 1))"
| "js_div _ _ = NaN"

text \<open>\<open>Math.max\<close> and \<open>Math.min\<close> of two arguments, and \<open>Math.round\<close>.\<close>

definition math_max :: "jsnum \<Rightarrow> jsnum \<Rightarrow> jsnum" where
  "math_max a b =
     (let x = toNumber a; y = toNumber b
      in if x = NaN \<or> y = NaN then NaN else if js_less x y then y else x)"

definition math_min :: "jsnum \<Rightarrow> jsnum \<Rightarrow> jsnum" where
  "math_min a b =
     (let x = toNumber a; y = toNumber b
      in if x = NaN \<or> y = NaN then NaN else if js_less y x then y else x)"

text \<open>\<open>Math.min(...xs)\<close>: \<open>Infinity\<close> for no argument.\<close>

definition math_min_list :: "jsnum list \<Rightarrow> jsnum" where
  "math_min_list xs = foldl math_min PosInf xs"

fun math_round :: "jsnum \<Rightarrow> jsnum" where
  "math_round (Fin a) = Fin (of_int \<lfloor>a + 1 / 2\<rfloor>)"
| "math_round PosInf = PosInf"
| "math_round NegInf = NegInf"
| "math_round _ = NaN"

text \<open>Reading \<open>xs[i]\<close>: \<open>undefined\<close> past the end of the array.\<close>

definition js_nth :: "jsnum list \<Rightarrow> nat \<Rightarrow> jsnum" where
  "js_nth xs i = (if i < length xs then xs ! i else Undefined)"

text \<open>A string that may be \<open>null\<close> or \<open>undefined\<close>; the empty string is falsy too.\<close>

fun truthy_str :: "string option \<Rightarrow> bool" where
  "truthy_str None = False"
| "truthy_str (Some s) = (s \<noteq> [])"

text \<open>\<open>Array.prototype.indexOf\<close>: the first index holding the value, if any.\<close>

fun indexOf :: "string list \<Rightarrow> string \<Rightarrow> nat option" where
  "indexOf [] a = None"
| "indexOf (b # bs) a = (if b = a then Some 0 else map_option Suc (indexOf bs a))"

text \<open>\<open>String.prototype.toLowerCase\<close>, on the letters A to Z.\<close>

definition lower_char :: "char \<Rightarrow> char" where
  "lower_char c =
     (case map_of (zip ''ABCDEFGHIJKLMNOPQRSTUVWXYZ'' ''abcdefghijklmnopqrstuvwxyz'') c of
        Some d \<Rightarrow> d
      | None \<Rightarrow> c)"

definition toLowerCase :: "string \<Rightarrow> string" where
  "toLowerCase s = map lower_char s"

section \<open>Stroke points\<close>

record StrokePoint =
  px :: jsnum
  py :: jsnum
  pz :: jsnum

definition isValidPoint :: "StrokePoint \<Rightarrow> bool" where
  "isValidPoint p = (isFinite (px p) \<and> isFinite (py p) \<and> isFinite (pz p))"

text \<open>
  \<open>pushUniquePoint\<close> of part_000 and part_001. \<open>arr[arr.length - 1]\<close> is \<open>undefined\<close>
  exactly for the empty array, and a point object is never falsy.
\<close>

definition pushUniquePoint :: "StrokePoint list \<Rightarrow> StrokePoint \<Rightarrow> StrokePoint list" where
  "pushUniquePoint arr p =
     (case arr of
        [] \<Rightarrow> arr @ [p]
      | _ # _ \<Rightarrow>
          (let l = last arr
           in if \<not> strict_eq (px l) (px p) \<or> \<not> strict_eq (py l) (py p)
                 \<or> \<not> strict_eq (pz l) (pz p)
              then arr @ [p] else arr))"

text \<open>Two points that \<open>===\<close> finds equal in all of x, y and z.\<close>

definition same_point :: "StrokePoint \<Rightarrow> StrokePoint \<Rightarrow> bool" where
  "same_point a b =
     (strict_eq (px a) (px b) \<and> strict_eq (py a) (py b) \<and> strict_eq (pz a) (pz b))"

text \<open>No two consecutive points of the list are equal in all of x, y and z.\<close>

fun adjacent_free :: "StrokePoint list \<Rightarrow> bool" where
  "adjacent_free [] = True"
| "adjacent_free [a] = True"
| "adjacent_free (a # b # r) = (\<not> same_point a b \<and> adjacent_free (b # r))"

section \<open>Unit conversion\<close>

text \<open>
  \<open>ALLOWED_UNITS\<close> is imported from \<open>#src/widget/scale_bar.js\<close>, which is not among the
  sources; the functions below take the table as their first argument.
\<close>

record unit_entry =
  unit :: string
  lengthInNanometers :: jsnum

datatype jserror = UnsupportedUnitConversion string string | TypeError

text \<open>\<open>Array.prototype.find\<close> with the predicate \<open>u => u.unit === name\<close>.\<close>

definition find_unit :: "unit_entry list \<Rightarrow> string \<Rightarrow> unit_entry option" where
  "find_unit ALLOWED_UNITS name = find (\<lambda>u. unit u = name) ALLOWED_UNITS"

definition convertLength ::
  "unit_entry list \<Rightarrow> jsnum \<Rightarrow> string \<Rightarrow> string \<Rightarrow> jserror + jsnum" where
  "convertLength ALLOWED_UNITS v fromUnit toUnit =
     (let from = find_unit ALLOWED_UNITS fromUnit;
          to = find_unit ALLOWED_UNITS toUnit
      in case (from, to) of
           (Some f, Some t) \<Rightarrow>
             Inr (js_mul v (js_div (lengthInNanometers f) (lengthInNanometers t)))
         | _ \<Rightarrow> Inl (UnsupportedUnitConversion fromUnit toUnit))"

text \<open>The string \<open>"\<mu>m"\<close>, as the two bytes of U+00B5 in UTF-8 followed by \<open>m\<close>.\<close>

definition micrometre :: string where
  "micrometre = [CHR 0xC2, CHR 0xB5, CHR ''m'']"


section \<open>The viewer, as the handler reads it\<close>

text \<open>
  The host viewer is not part of the sources. Each event carries a snapshot of the parts
  of the \<open>viewer\<close> object that the handler reads while it runs; the navigation state,
  which the handler also writes, is kept in the handler state below.
\<close>

record scale_dimensions =
  physicalSizePerPixel :: jsnum
  physicalLength :: jsnum
  physicalUnit :: "string option"
  physicalBaseUnit :: "string option"

record render_info =
  displayDimensionScales :: "jsnum list option"
  displayDimensionUnits :: "string list option"

text \<open>
  A managed layer of a slice view: \<open>userLayerType\<close> is \<open>managed?.userLayer?.type\<close>;
  \<open>visibleEntry\<close> is \<open>None\<close> when \<open>sv.visibleLayers.get(managed)\<close> is \<open>undefined\<close>, and
  otherwise holds the entry's \<open>displayDimensionRenderInfo\<close>, if it has one.
\<close>

record managed_layer =
  userLayerType :: "string option"
  visibleEntry :: "render_info option option"

text \<open>
  A panel of \<open>viewer.display.panels\<close>: \<open>scaleBars\<close> is \<open>panel?.scaleBars?.scaleBars\<close>, each
  scale bar given by its \<open>dimensions\<close> if it has them; \<open>sliceView\<close> is the visible layer list
  of \<open>panel.sliceView\<close>, if the panel has a slice view; \<open>element\<close> says whether
  \<open>panel.element\<close> is set.
\<close>

record panel =
  scaleBars :: "scale_dimensions option list option"
  sliceView :: "managed_layer list option"
  element :: bool

record bounding_box =
  lowerBounds :: "jsnum list"
  upperBounds :: "jsnum list"

record coordinate_space =
  names :: "string list option"
  bounds :: "bounding_box option"

record viewer =
  mousePosition :: "jsnum list option"
  coordinateSpace :: "coordinate_space option"
  panels :: "panel list option"
  containerLeft :: jsnum
  containerTop :: jsnum

text \<open>
  \<open>viewer.navigationState\<close>: \<open>position\<close> is \<open>None\<close> without a position object, \<open>Some None\<close>
  when the object's \<open>value\<close> is missing; \<open>zoomFactor\<close> is \<open>None\<close> without a zoom factor object
  and otherwise its \<open>value\<close>, which may be \<open>Undefined\<close>. Assigning to \<open>value\<close> is taken to
  store what is assigned.
\<close>

record navigation_state =
  position :: "jsnum list option option"
  zoomFactor :: "jsnum option"

text \<open>
  A mouse event. \<open>targetInDataPanel\<close> says whether
  \<open>e.target.closest(".neuroglancer-rendered-data-panel")\<close> finds an element;
  \<open>targetPanels\<close> lists the indices of the panels of \<open>viewer.display.panels\<close> whose element
  contains or is the target; \<open>now\<close> is what \<open>new Date().toISOString()\<close> returns while the
  event is handled.
\<close>

record mouse_event =
  button :: int
  clientX :: jsnum
  clientY :: jsnum
  targetInDataPanel :: bool
  targetPanels :: "nat list"
  now :: string
  defaultPrevented :: bool
  propagationStopped :: bool

record key_event =
  key :: string
  ctrlKey :: bool
  metaKey :: bool
  altKey :: bool
  shiftKey :: bool
  keyTargetInDataPanel :: bool
  keyDefaultPrevented :: bool
  keyPropagationStopped :: bool
  keyImmediatePropagationStopped :: bool

definition isOnDataPanel :: "mouse_event \<Rightarrow> bool" where
  "isOnDataPanel e = targetInDataPanel e"

definition isInDataBounds :: "viewer \<Rightarrow> bool" where
  "isInDataBounds v =
     (case (mousePosition v, Option.bind (coordinateSpace v) bounds) of
        (Some pos, Some b) \<Rightarrow>
          if length pos < 3 then False
          else list_all
                 (\<lambda>i. isFinite (js_nth pos i)
                      \<and> \<not> (js_less (js_nth pos i) (js_nth (lowerBounds b) i)
                           \<or> js_ge (js_nth pos i) (js_nth (upperBounds b) i)))
                 [0 ..< 3]
      | _ \<Rightarrow> False)"

definition nanPoint :: StrokePoint where
  "nanPoint = \<lparr>px = NaN, py = NaN, pz = NaN\<rparr>"

definition firstThree :: "jsnum list \<Rightarrow> StrokePoint" where
  "firstThree p = \<lparr>px = js_nth p 0, py = js_nth p 1, pz = js_nth p 2\<rparr>"

definition voxelPoint_ts :: "viewer \<Rightarrow> StrokePoint" where
  "voxelPoint_ts v =
     (case mousePosition v of
        None \<Rightarrow> nanPoint
      | Some p \<Rightarrow> if length p < 3 then nanPoint else firstThree p)"

definition voxelPoint_p0 :: "viewer \<Rightarrow> StrokePoint" where
  "voxelPoint_p0 v =
     (case mousePosition v of
        None \<Rightarrow> nanPoint
      | Some p \<Rightarrow> if length p < 3 then nanPoint else firstThree p)"

definition voxelPoint_p1 :: "viewer \<Rightarrow> StrokePoint" where
  "voxelPoint_p1 v =
     (case mousePosition v of
        None \<Rightarrow> nanPoint
      | Some p \<Rightarrow>
          if length p < 3 then nanPoint
          else (case Option.bind (coordinateSpace v) names of
                  None \<Rightarrow> firstThree p
                | Some ns \<Rightarrow>
                    if length ns \<ge> 3 then
                      (case (indexOf ns ''x'', indexOf ns ''y'', indexOf ns ''z'') of
                         (Some idx_x, Some idx_y, Some idx_z) \<Rightarrow>
                           \<lparr>px = js_nth p idx_x, py = js_nth p idx_y, pz = js_nth p idx_z\<rparr>
                       | _ \<Rightarrow> firstThree p)
                    else firstThree p))"

definition containerCoords :: "mouse_event \<Rightarrow> viewer \<Rightarrow> jsnum \<times> jsnum" where
  "containerCoords e v =
     (js_sub (clientX e) (containerLeft v), js_sub (clientY e) (containerTop v))"

subsection \<open>Physical sizes\<close>

text \<open>
  The scale bar dimensions in the order in which the two nested loops visit them; a panel
  without scale bars and a scale bar without dimensions are skipped.
\<close>

definition all_dimensions :: "viewer \<Rightarrow> scale_dimensions list" where
  "all_dimensions v =
     (case panels v of
        None \<Rightarrow> []
      | Some ps \<Rightarrow>
          concat (map (\<lambda>p. case scaleBars p of None \<Rightarrow> [] | Some bs \<Rightarrow> List.map_filter id bs) ps))"

definition nullish_or :: "'a option \<Rightarrow> 'a \<Rightarrow> 'a" where
  "nullish_or a d = (case a of None \<Rightarrow> d | Some x \<Rightarrow> x)"

definition calculatePhysicalSizePerPixel_ts ::
  "unit_entry list \<Rightarrow> viewer \<Rightarrow> jserror + jsnum option" where
  "calculatePhysicalSizePerPixel_ts ALLOWED_UNITS v =
     (case find (\<lambda>d. truthy (physicalSizePerPixel d)) (all_dimensions v) of
        None \<Rightarrow> Inr None
      | Some d \<Rightarrow>
          (case convertLength ALLOWED_UNITS (physicalSizePerPixel d)
                  (nullish_or (physicalUnit d) micrometre) micrometre of
             Inl err \<Rightarrow> Inl err
           | Inr x \<Rightarrow> Inr (Some (js_mul x (Fin 1000000)))))"

text \<open>The same function in part_000 and part_001.\<close>

definition calculatePhysicalSizePerPixel_p1 ::
  "unit_entry list \<Rightarrow> viewer \<Rightarrow> jserror + jsnum option" where
  "calculatePhysicalSizePerPixel_p1 ALLOWED_UNITS v =
     (case find (\<lambda>d. truthy (physicalSizePerPixel d)) (all_dimensions v) of
        None \<Rightarrow> Inr None
      | Some d \<Rightarrow>
          (case convertLength ALLOWED_UNITS (physicalSizePerPixel d)
                  (nullish_or (physicalBaseUnit d) ''m'') micrometre of
             Inl err \<Rightarrow> Inl err
           | Inr x \<Rightarrow> Inr (Some x)))"

definition getScaleBarPhysicalLength ::
  "unit_entry list \<Rightarrow> viewer \<Rightarrow> jserror + jsnum option" where
  "getScaleBarPhysicalLength ALLOWED_UNITS v =
     (case find (\<lambda>d. truthy (physicalLength d)) (all_dimensions v) of
        None \<Rightarrow> Inr None
      | Some d \<Rightarrow>
          (case convertLength ALLOWED_UNITS (physicalLength d)
                  (nullish_or (physicalUnit d) micrometre) micrometre of
             Inl err \<Rightarrow> Inl err
           | Inr x \<Rightarrow> Inr (Some x)))"

text \<open>
  \<open>Array.from(scales).map((v, i) => convertLength(v, units[i] ?? "m", "\<mu>m"))\<close>: the first
  conversion that throws ends the map.
\<close>

fun convertScales :: "unit_entry list \<Rightarrow> jsnum list \<Rightarrow> string list \<Rightarrow> jserror + jsnum list" where
  "convertScales ALLOWED_UNITS [] us = Inr []"
| "convertScales ALLOWED_UNITS (x # xs) us =
     (case convertLength ALLOWED_UNITS x (case us of [] \<Rightarrow> ''m'' | u # _ \<Rightarrow> u) micrometre of
        Inl err \<Rightarrow> Inl err
      | Inr y \<Rightarrow>
          (case convertScales ALLOWED_UNITS xs (tl us) of
             Inl err \<Rightarrow> Inl err
           | Inr ys \<Rightarrow> Inr (y # ys)))"

text \<open>The managed layers in the order in which the panel and layer loops visit them.\<close>

definition all_layers :: "viewer \<Rightarrow> managed_layer list" where
  "all_layers v =
     (case panels v of
        None \<Rightarrow> []
      | Some ps \<Rightarrow> concat (map (\<lambda>p. case sliceView p of None \<Rightarrow> [] | Some ls \<Rightarrow> ls) ps))"

text \<open>
  The layer loop of drawing_tool_handler.ts: only image layers count, and
  \<open>sv.visibleLayers?.get?.(managed).displayDimensionRenderInfo\<close> throws a TypeError when
  the map has no entry for the layer.
\<close>

fun scanLayers_ts :: "unit_entry list \<Rightarrow> managed_layer list \<Rightarrow> jserror + jsnum list option" where
  "scanLayers_ts ALLOWED_UNITS [] = Inr None"
| "scanLayers_ts ALLOWED_UNITS (l # ls) =
     (if userLayerType l \<noteq> Some ''image'' then scanLayers_ts ALLOWED_UNITS ls
      else case visibleEntry l of
             None \<Rightarrow> Inl TypeError
           | Some info \<Rightarrow>
               (case (Option.bind info displayDimensionScales,
                      Option.bind info displayDimensionUnits) of
                  (Some sc, Some us) \<Rightarrow>
                    (case convertScales ALLOWED_UNITS sc us of
                       Inl err \<Rightarrow> Inl err
                     | Inr r \<Rightarrow> Inr (Some r))
                | _ \<Rightarrow> scanLayers_ts ALLOWED_UNITS ls))"

definition calculatePhysicalSizePerVoxel_ts ::
  "unit_entry list \<Rightarrow> viewer \<Rightarrow> jserror + jsnum list option" where
  "calculatePhysicalSizePerVoxel_ts ALLOWED_UNITS v = scanLayers_ts ALLOWED_UNITS (all_layers v)"

text \<open>
  The layer loop of part_000 and part_001 for one \<open>filterType\<close> (\<open>None\<close> for \<open>null\<close>);
  a missing entry is skipped.
\<close>

fun scanLayers_p1 ::
  "unit_entry list \<Rightarrow> string option \<Rightarrow> managed_layer list \<Rightarrow> jserror + jsnum list option" where
  "scanLayers_p1 ALLOWED_UNITS filterType [] = Inr None"
| "scanLayers_p1 ALLOWED_UNITS filterType (l # ls) =
     (if truthy_str filterType \<and> userLayerType l \<noteq> filterType
      then scanLayers_p1 ALLOWED_UNITS filterType ls
      else case (Option.bind (Option.bind (visibleEntry l) id) displayDimensionScales,
                 Option.bind (Option.bind (visibleEntry l) id) displayDimensionUnits) of
             (Some sc, Some us) \<Rightarrow>
               (case convertScales ALLOWED_UNITS sc us of
                  Inl err \<Rightarrow> Inl err
                | Inr r \<Rightarrow> Inr (Some r))
           | _ \<Rightarrow> scanLayers_p1 ALLOWED_UNITS filterType ls)"

definition calculatePhysicalSizePerVoxel_p1 ::
  "unit_entry list \<Rightarrow> viewer \<Rightarrow> jserror + jsnum list option" where
  "calculatePhysicalSizePerVoxel_p1 ALLOWED_UNITS v =
     (case scanLayers_p1 ALLOWED_UNITS (Some ''image'') (all_layers v) of
        Inl err \<Rightarrow> Inl err
      | Inr (Some r) \<Rightarrow> Inr (Some r)
      | Inr None \<Rightarrow> scanLayers_p1 ALLOWED_UNITS None (all_layers v))"


section \<open>Handler state\<close>

record Stroke =
  mode :: string
  color :: string
  physicalSize :: jsnum
  voxelSizes :: "jsnum list option"
  timestamp :: string
  points :: "StrokePoint list"

text \<open>A prompt, tagged by its \<open>mode\<close>; the last argument is the polarity.\<close>

datatype Prompt =
    PromptPoint StrokePoint string
  | PromptBBox StrokePoint StrokePoint string
  | PromptScribble "StrokePoint list" string
  | PromptLasso "StrokePoint list" string

record LockedBBox =
  x_start :: jsnum
  x_end :: jsnum
  y_start :: jsnum
  y_end :: jsnum
  z_start :: jsnum
  z_end :: jsnum

text \<open>
  What is painted on the overlay canvas since it was last cleared, oldest first. A paint
  keeps the kind of drawing call, its colour and line width where it has them, and its
  coordinates; the composite operation, the current path and the other attributes of the
  2D context are not modelled.
\<close>

datatype paint =
    StrokeTo string jsnum jsnum jsnum
  | EraseTo jsnum jsnum jsnum
  | StartPath jsnum jsnum
  | Dot string jsnum jsnum
  | Rect string jsnum jsnum jsnum jsnum
  | PanelBorder nat
  | Badge

text \<open>The payload of a message posted to the parent window, after its \<open>type\<close>.\<close>

datatype payload =
    NoPayload
  | ScaleBarLength jsnum
  | VoxelSizes "jsnum list"
  | CompletedStroke Stroke bool
  | Prompts "Prompt list"
  | AnnotationState nat bool bool
  | SnapshotCreated "paint list" "Stroke list"
  | ViewerState
  | ViewState
  | Action string
  | Shortcut string string

type_synonym posted = "string \<times> payload"

text \<open>
  The \<open>DrawingTool\<close> object. part_001 reads and writes \<open>drawingTool.isEraser.value\<close>; neither
  \<open>DrawingTool\<close> class among the sources declares \<open>isEraser\<close>. The field is \<open>None\<close> when the
  object has no such property, as with those two classes, and then \<open>drawingTool.isEraser.value\<close>
  throws a TypeError; it is \<open>Some b\<close> for an object that has the property with value \<open>b\<close>.
\<close>

record drawing_tool =
  activeMode :: "string option"
  promptMode :: "string option"
  promptPolarity :: string
  brushPhysicalSize :: jsnum
  brushPixelSize :: jsnum
  strokeColor :: string
  isEraser :: "bool option"
  isDrawing :: bool
  startX :: jsnum
  startY :: jsnum
  snapshot :: "paint list option"

text \<open>
  The module-level variables, the \<open>DrawingTool\<close> object, the overlay canvas, the viewer's
  navigation state, the closure variables of the keyboard handler, the number of
  \<open>onMove\<close>/\<open>onUp\<close> listener pairs registered on the window, and the messages posted to the
  parent window so far. \<open>rafId\<close> is \<open>True\<close> while an animation frame is requested.

  Strokes and prompts are kept by value. One object can be both in \<open>strokeData\<close> and current
  only in part_001, when \<open>commitStroke\<close> throws after \<open>strokeData.push(currentStroke)\<close>;
  \<open>sharedStrokes\<close> counts the entries at the end of \<open>strokeData\<close> that are the very object
  \<open>currentStroke\<close> refers to, so that a later push to its points reaches them as well.
\<close>

record state =
  strokeData :: "Stroke list"
  promptData :: "Prompt list"
  currentStroke :: "Stroke option"
  currentPrompt :: "Prompt option"
  isCapturing :: bool
  rafId :: bool
  pendingXY :: "(jsnum \<times> jsnum) option"
  lastScaleBarLength :: "jsnum option"
  lastScreen :: "jsnum \<times> jsnum"
  lockedBBox :: "LockedBBox option"
  lockedPosition :: "jsnum list option"
  lockedZoomFactor :: "jsnum option"
  drawingTool :: drawing_tool
  canvas :: "paint list"
  navigationState :: "navigation_state option"
  activePluginId :: "string option"
  activePluginKeys :: "string set"
  listeners :: nat
  sharedStrokes :: nat
  outbox :: "posted list"

text \<open>A handler either returns or throws; a throw keeps the assignments made before it.\<close>

datatype 'a outcome = Done 'a | Thrown jserror 'a

fun final :: "'a outcome \<Rightarrow> 'a" where
  "final (Done a) = a"
| "final (Thrown err a) = a"

definition postMessage :: "posted \<Rightarrow> state \<Rightarrow> state" where
  "postMessage m s = s\<lparr>outbox := outbox s @ [m]\<rparr>"

text \<open>
  The state when the module is loaded and the \<open>DrawingTool\<close> is constructed by one of the
  two classes among the sources.
\<close>

definition init_tool :: drawing_tool where
  "init_tool =
     \<lparr>activeMode = None, promptMode = None, promptPolarity = ''positive'',
      brushPhysicalSize = Fin 8, brushPixelSize = Fin 20, strokeColor = ''#ff0000'',
      isEraser = None, isDrawing = False, startX = Fin 0, startY = Fin 0,
      snapshot = None\<rparr>"

definition init_state :: "navigation_state option \<Rightarrow> state" where
  "init_state nav =
     \<lparr>strokeData = [], promptData = [], currentStroke = None, currentPrompt = None,
      isCapturing = False, rafId = False, pendingXY = None, lastScaleBarLength = None,
      lastScreen = (NaN, NaN), lockedBBox = None, lockedPosition = None,
      lockedZoomFactor = None, drawingTool = init_tool, canvas = [],
      navigationState = nav, activePluginId = None, activePluginKeys = {},
      listeners = 0, sharedStrokes = 0, outbox = []\<rparr>"

definition sendScaleBarUpdate :: "unit_entry list \<Rightarrow> viewer \<Rightarrow> state \<Rightarrow> state outcome" where
  "sendScaleBarUpdate ALLOWED_UNITS v s =
     (case getScaleBarPhysicalLength ALLOWED_UNITS v of
        Inl err \<Rightarrow> Thrown err s
      | Inr None \<Rightarrow> Done s
      | Inr (Some scaleBarLength) \<Rightarrow>
          if (case lastScaleBarLength s of
                None \<Rightarrow> True
              | Some l \<Rightarrow> \<not> strict_eq scaleBarLength l)
          then Done (postMessage (''scale_bar_update'', ScaleBarLength scaleBarLength)
                       (s\<lparr>lastScaleBarLength := Some scaleBarLength\<rparr>))
          else Done s)"

definition sendAnnotationStateUpdate :: "state \<Rightarrow> state" where
  "sendAnnotationStateUpdate s =
     postMessage (''annotation_state_update'',
                  AnnotationState (length (strokeData s)) (length (strokeData s) > 0) False) s"

text \<open>\<open>ctx.clearRect(0, 0, canvas.width, canvas.height)\<close>.\<close>

definition clearCanvas :: "state \<Rightarrow> state" where
  "clearCanvas s = s\<lparr>canvas := []\<rparr>"

text \<open>The indices of the panels that have a slice view and an element.\<close>

definition getSliceViewPanels :: "viewer \<Rightarrow> nat list" where
  "getSliceViewPanels v =
     (case panels v of
        None \<Rightarrow> []
      | Some ps \<Rightarrow> filter (\<lambda>i. sliceView (ps ! i) \<noteq> None \<and> element (ps ! i)) [0 ..< length ps])"

text \<open>
  \<open>drawLockedRegionIndicator\<close>: the canvas is cleared; with a bounding box and at least
  one slice view panel, a border is drawn around each such panel and then the badge.
  The display container exists, since setting up the handler has already used it.
\<close>

definition drawLockedRegionIndicator :: "viewer \<Rightarrow> LockedBBox option \<Rightarrow> state \<Rightarrow> state" where
  "drawLockedRegionIndicator v bbox s =
     (let s1 = clearCanvas s
      in case bbox of
           None \<Rightarrow> s1
         | Some b \<Rightarrow>
             (let slicePanels = getSliceViewPanels v
              in if length slicePanels = 0 then s1
                 else s1\<lparr>canvas := canvas s1 @ map PanelBorder slicePanels @ [Badge]\<rparr>))"

text \<open>
  \<open>pushUniquePoint\<close> on the points of the last \<open>k\<close> strokes of the list, which are one
  object.
\<close>

definition pushShared :: "nat \<Rightarrow> StrokePoint \<Rightarrow> Stroke list \<Rightarrow> Stroke list" where
  "pushShared k p sd =
     take (length sd - k) sd
     @ map (\<lambda>st. st\<lparr>points := pushUniquePoint (points st) p\<rparr>) (drop (length sd - k) sd)"

text \<open>\<open>enqueueDraw\<close>, with \<open>minPixelStep = 0.75\<close>.\<close>

definition minPixelStep :: jsnum where
  "minPixelStep = Fin (3 / 4)"

definition enqueueDraw :: "jsnum \<Rightarrow> jsnum \<Rightarrow> state \<Rightarrow> state" where
  "enqueueDraw x y s =
     (let dx = js_sub x (fst (lastScreen s));
          dy = js_sub y (snd (lastScreen s))
      in if isFinite (fst (lastScreen s))
            \<and> js_less (js_add (js_mul dx dx) (js_mul dy dy)) (js_mul minPixelStep minPixelStep)
         then s
         else s\<lparr>pendingXY := Some (x, y), rafId := True\<rparr>)"


section \<open>The handler of part_001\<close>

definition getPixelSize_p1 :: "unit_entry list \<Rightarrow> viewer \<Rightarrow> state \<Rightarrow> jserror + jsnum" where
  "getPixelSize_p1 ALLOWED_UNITS v s =
     (case calculatePhysicalSizePerPixel_p1 ALLOWED_UNITS v of
        Inl err \<Rightarrow> Inl err
      | Inr ppp \<Rightarrow>
          Inr (if truthy (nullish_or ppp Undefined)
               then js_div (brushPhysicalSize (drawingTool s)) (nullish_or ppp Undefined)
               else brushPixelSize (drawingTool s)))"

text \<open>
  \<open>drawStep\<close>, the animation frame callback. A paint records whether the path was
  continued (\<open>StrokeTo\<close>) or restarted (\<open>StartPath\<close>) before \<open>ctx.stroke()\<close>.
  \<open>getPixelSize\<close>, \<open>drawStep\<close> and \<open>finishCapture\<close> have the same text in part_000.
\<close>

definition drawStep_p1 :: "unit_entry list \<Rightarrow> viewer \<Rightarrow> state \<Rightarrow> state outcome" where
  "drawStep_p1 ALLOWED_UNITS v s0 =
     (let s = s0\<lparr>rafId := False\<rparr>
      in if \<not> isCapturing s \<or> pendingXY s = None then Done s
         else if currentStroke s = None \<and> currentPrompt s = None then Done s
         else
           (let (x, y) = the (pendingXY s);
                s1 = s\<lparr>pendingXY := None\<rparr>;
                dt = drawingTool s1;
                path = (\<lambda>c w. if isFinite (fst (lastScreen s1)) then StrokeTo c w x y
                               else StartPath x y)
            in if activeMode dt = Some ''brush'' then
                 (case getPixelSize_p1 ALLOWED_UNITS v s1 of
                    Inl err \<Rightarrow> Thrown err s1
                  | Inr pixelSize \<Rightarrow>
                      Done (s1\<lparr>canvas := canvas s1 @ [path (strokeColor dt) (math_max (Fin 1) pixelSize)],
                               lastScreen := (x, y)\<rparr>))
               else if promptMode dt = Some ''bbox'' then
                 Done (s1\<lparr>canvas := nullish_or (snapshot dt) (canvas s1)
                                     @ [Rect (strokeColor dt)
                                          (js_add (startX dt) (Fin (1 / 2)))
                                          (js_add (startY dt) (Fin (1 / 2)))
                                          (js_sub x (startX dt)) (js_sub y (startY dt))],
                          lastScreen := (x, y)\<rparr>)
               else if promptMode dt = Some ''scribble'' \<or> promptMode dt = Some ''lasso'' then
                 Done (s1\<lparr>canvas := canvas s1
                                     @ [path (strokeColor dt)
                                          (if promptMode dt = Some ''scribble'' then Fin 4 else Fin 2)],
                          lastScreen := (x, y)\<rparr>)
               else Done (s1\<lparr>lastScreen := (x, y)\<rparr>)))"

text \<open>\<open>finishCapture\<close>; \<open>applyMode\<close> only restyles the cursor, which is not modelled.\<close>

definition finishCapture :: "state \<Rightarrow> state" where
  "finishCapture s =
     s\<lparr>isCapturing := False,
       drawingTool := (drawingTool s)\<lparr>isDrawing := False, snapshot := None\<rparr>,
       rafId := False\<rparr>"

definition onMouseDown_p1 ::
  "unit_entry list \<Rightarrow> mouse_event \<Rightarrow> viewer \<Rightarrow> state \<Rightarrow> (mouse_event \<times> state) outcome" where
  "onMouseDown_p1 ALLOWED_UNITS e v s =
     (let mode = activeMode (drawingTool s);
          promptMode = promptMode (drawingTool s);
          promptPolarity = promptPolarity (drawingTool s)
      in if (\<not> truthy_str mode \<and> \<not> truthy_str promptMode) \<or> button e \<noteq> 0 then Done (e, s)
         else if \<not> isOnDataPanel e then Done (e, s)
         else if \<not> isInDataBounds v then Done (e, s)
         else
           (let pt = voxelPoint_p1 v;
                e1 = e\<lparr>defaultPrevented := True, propagationStopped := True\<rparr>;
                (cx, cy) = containerCoords e v;
                s1 = s\<lparr>isCapturing := True, lastScreen := (NaN, NaN),
                       drawingTool := (drawingTool s)\<lparr>startX := cx, startY := cy, isDrawing := True\<rparr>\<rparr>
            in case calculatePhysicalSizePerVoxel_p1 ALLOWED_UNITS v of
                 Inl err \<Rightarrow> Thrown err (e1, s1)
               | Inr physicalSizePerVoxel \<Rightarrow>
                   (case sendScaleBarUpdate ALLOWED_UNITS v s1 of
                      Thrown err s2 \<Rightarrow> Thrown err (e1, s2)
                    | Done s2 \<Rightarrow>
                        (let s3 = (case physicalSizePerVoxel of
                                     None \<Rightarrow> s2
                                   | Some vs \<Rightarrow> postMessage (''voxel_sizes_update'', VoxelSizes vs) s2)
                         in if mode = Some ''brush'' \<or> mode = Some ''eraser'' then
                              Done (e1, s3\<lparr>currentStroke :=
                                             Some \<lparr>mode = ''brush'',
                                                   color = strokeColor (drawingTool s3),
                                                   physicalSize = brushPhysicalSize (drawingTool s3),
                                                   voxelSizes = physicalSizePerVoxel,
                                                   timestamp = now e,
                                                   points = (if isValidPoint pt then [pt] else [])\<rparr>,
                                           sharedStrokes := 0,
                                           listeners := listeners s3 + 1\<rparr>)
                            else if promptMode = Some ''point'' then
                              (if isValidPoint pt
                               then Done (e1, s3\<lparr>currentPrompt := Some (PromptPoint pt promptPolarity),
                                                canvas := canvas s3 @ [Dot (strokeColor (drawingTool s3)) cx cy]\<rparr>)
                               else Done (e1, s3))
                            else if promptMode = Some ''bbox'' then
                              Done (e1, s3\<lparr>currentPrompt := Some (PromptBBox pt pt promptPolarity),
                                           drawingTool := (drawingTool s3)\<lparr>snapshot := Some (canvas s3)\<rparr>,
                                           listeners := listeners s3 + 1\<rparr>)
                            else if promptMode = Some ''scribble'' then
                              Done (e1, s3\<lparr>currentPrompt :=
                                             Some (PromptScribble (if isValidPoint pt then [pt] else [])
                                                     promptPolarity),
                                           listeners := listeners s3 + 1\<rparr>)
                            else if promptMode = Some ''lasso'' then
                              Done (e1, s3\<lparr>currentPrompt :=
                                             Some (PromptLasso (if isValidPoint pt then [pt] else [])
                                                     promptPolarity),
                                           listeners := listeners s3 + 1\<rparr>)
                            else Done (e1, s3\<lparr>listeners := listeners s3 + 1\<rparr>)))))"

text \<open>
  \<open>commitStroke\<close>, which is all that \<open>onUp\<close> calls. \<open>cleanup\<close> removes the listener pair of
  this \<open>mousedown\<close>. In
  \<open>drawingTool.activeMode.value === "eraser" || drawingTool.isEraser.value\<close> the right operand
  is read only when the active mode is not the eraser.
\<close>

definition commitStroke_p1 :: "state \<Rightarrow> state outcome" where
  "commitStroke_p1 s0 =
     (let s = s0\<lparr>listeners := listeners s0 - 1\<rparr>;
          r1 = (case currentStroke s of
                  None \<Rightarrow> Done s
                | Some st \<Rightarrow>
                    (let a = s\<lparr>strokeData := strokeData s @ [st]\<rparr>
                     in case (if activeMode (drawingTool a) = Some ''eraser'' then Some True
                              else isEraser (drawingTool a)) of
                          None \<Rightarrow> Thrown TypeError (a\<lparr>sharedStrokes := sharedStrokes a + 1\<rparr>)
                        | Some isEraserMode \<Rightarrow>
                            (let b = postMessage (''drawing_stroke_complete'',
                                                  CompletedStroke st isEraserMode) a;
                                 c = sendAnnotationStateUpdate b
                             in Done (finishCapture (c\<lparr>currentStroke := None, sharedStrokes := 0\<rparr>)))))
      in case r1 of
           Thrown err s1 \<Rightarrow> Thrown err s1
         | Done s1 \<Rightarrow>
             (case currentPrompt s1 of
                None \<Rightarrow> Done s1
              | Some pr \<Rightarrow>
                  (let a = s1\<lparr>promptData := promptData s1 @ [pr]\<rparr>;
                       b = finishCapture (a\<lparr>currentPrompt := None\<rparr>)
                   in Done (postMessage (''prompt_complete'', Prompts (promptData b)) b))))"

definition onUp_p1 :: "state \<Rightarrow> state outcome" where
  "onUp_p1 s = commitStroke_p1 s"

definition onMove_p1 :: "mouse_event \<Rightarrow> viewer \<Rightarrow> state \<Rightarrow> state" where
  "onMove_p1 ev v s =
     (if \<not> isCapturing s then s
      else if currentStroke s = None \<and> currentPrompt s = None then s
      else if \<not> isOnDataPanel ev \<or> \<not> isInDataBounds v then s\<lparr>rafId := False, pendingXY := None\<rparr>
      else
        (let p = voxelPoint_p1 v;
             s1 = (case currentStroke s of
                     Some st \<Rightarrow>
                       s\<lparr>currentStroke := Some (st\<lparr>points := pushUniquePoint (points st) p\<rparr>),
                         strokeData := pushShared (sharedStrokes s) p (strokeData s)\<rparr>
                   | None \<Rightarrow>
                       (case currentPrompt s of
                          Some (PromptBBox a b pol) \<Rightarrow> s\<lparr>currentPrompt := Some (PromptBBox a p pol)\<rparr>
                        | Some (PromptScribble ps pol) \<Rightarrow>
                            s\<lparr>currentPrompt := Some (PromptScribble (pushUniquePoint ps p) pol)\<rparr>
                        | Some (PromptLasso ps pol) \<Rightarrow>
                            s\<lparr>currentPrompt := Some (PromptLasso (pushUniquePoint ps p) pol)\<rparr>
                        | _ \<Rightarrow> s));
             (x, y) = containerCoords ev v
         in enqueueDraw x y s1))"

subsection \<open>Navigation lock\<close>

definition isOnSliceViewPanel :: "mouse_event \<Rightarrow> viewer \<Rightarrow> bool" where
  "isOnSliceViewPanel e v =
     (if \<not> targetInDataPanel e then False
      else list_ex (\<lambda>i. i \<in> set (targetPanels e)) (getSliceViewPanels v))"

text \<open>The second capture-phase \<open>mousedown\<close> listener of the container.\<close>

definition mouseDownBlocker_p1 :: "mouse_event \<Rightarrow> viewer \<Rightarrow> state \<Rightarrow> mouse_event" where
  "mouseDownBlocker_p1 e v s =
     (if lockedBBox s = None then e
      else if \<not> isOnSliceViewPanel e v then e
      else if \<not> truthy_str (activeMode (drawingTool s)) \<and> \<not> truthy_str (promptMode (drawingTool s))
      then e\<lparr>defaultPrevented := True, propagationStopped := True\<rparr>
      else if button e = 1 \<or> button e = 2
      then e\<lparr>defaultPrevented := True, propagationStopped := True\<rparr>
      else e)"

text \<open>The capture-phase \<open>keydown\<close> listener of the container.\<close>

definition keyDownBlocker_p1 :: "key_event \<Rightarrow> state \<Rightarrow> key_event" where
  "keyDownBlocker_p1 e s =
     (if lockedBBox s = None then e
      else if key e \<notin> set [''ArrowUp'', ''ArrowDown'', ''ArrowLeft'', ''ArrowRight'', ''PageUp'', ''PageDown'']
      then e
      else if keyTargetInDataPanel e
      then e\<lparr>keyDefaultPrevented := True, keyPropagationStopped := True\<rparr>
      else e)"

text \<open>
  The listeners of the container run in the order in which they were added: the drawing
  handler first, then the blocker. \<open>stopPropagation\<close> does not keep the second from
  running.
\<close>

definition mouseDown_p1 ::
  "unit_entry list \<Rightarrow> mouse_event \<Rightarrow> viewer \<Rightarrow> state \<Rightarrow> mouse_event \<times> state" where
  "mouseDown_p1 ALLOWED_UNITS e v s =
     (let (e1, s1) = final (onMouseDown_p1 ALLOWED_UNITS e v s)
      in (mouseDownBlocker_p1 e1 v s1, s1))"


subsection \<open>Messages from the parent window\<close>

text \<open>
  \<open>event.data\<close> of a message from the parent: its \<open>type\<close> and the fields that the handler
  reads (\<open>mode\<close> may be \<open>null\<close>; \<open>isEraser\<close>, \<open>bbox\<close>, \<open>pluginId\<close> and \<open>shortcuts\<close> may be
  missing). A message without a \<open>type\<close> behaves as one whose type no branch knows.
\<close>

record message =
  m_type :: string
  m_mode :: "string option"
  m_size :: jsnum
  m_color :: string
  m_polarity :: string
  m_isEraser :: "bool option"
  m_strokeCount :: jsnum
  m_bbox :: "LockedBBox option"
  m_pluginId :: "string option"
  m_shortcuts :: "string list option"

definition activatePluginBindings :: "string option \<Rightarrow> string list \<Rightarrow> state \<Rightarrow> state" where
  "activatePluginBindings pluginId shortcuts s =
     s\<lparr>activePluginId := pluginId, activePluginKeys := set (map toLowerCase shortcuts)\<rparr>"

definition deactivatePluginBindings :: "state \<Rightarrow> state" where
  "deactivatePluginBindings s = s\<lparr>activePluginId := None, activePluginKeys := {}\<rparr>"

text \<open>
  The pixel size that \<open>drawing_size_change\<close> stores when a physical size per pixel is known.
\<close>

definition sizeChangePixels :: "jsnum list option \<Rightarrow> jsnum \<Rightarrow> jsnum \<Rightarrow> jsnum" where
  "sizeChangePixels vsizes ppp sz =
     (let minPx = (case vsizes of
                     None \<Rightarrow> Fin 1
                   | Some vs \<Rightarrow> math_max (Fin 1) (math_round (js_div (math_min_list vs) ppp)))
      in math_max minPx (js_div sz ppp))"

text \<open>
  The \<open>message\<close> listener of the window. \<open>f32\<close> is the rounding that
  \<open>new Float32Array(...)\<close> applies to each element it copies. The branches
  \<open>screenshot\<close>, \<open>segment_hover\<close>, \<open>segment_recolor\<close> and \<open>invalidate_chunks\<close> call into host
  objects only; \<open>drawing_snapshot\<close> only starts \<open>canvas.toBlob\<close>, whose callback is
  \<open>snapshotLoaded_p1\<close>; of \<open>get_viewer_state\<close> and \<open>get_view_state\<close> the posted message is
  kept without its payload.
\<close>

definition onMessage_p1 ::
  "unit_entry list \<Rightarrow> (jsnum \<Rightarrow> jsnum) \<Rightarrow> message \<Rightarrow> viewer \<Rightarrow> state \<Rightarrow> state outcome" where
  "onMessage_p1 ALLOWED_UNITS f32 m v s =
     (let dt = drawingTool s
      in if m_type m = ''screenshot'' then Done s
         else if m_type m = ''drawing_mode_change'' then
           Done (s\<lparr>drawingTool := dt\<lparr>activeMode := m_mode m, promptMode := None\<rparr>\<rparr>)
         else if m_type m = ''prompt_mode_change'' then
           Done (s\<lparr>drawingTool := dt\<lparr>promptMode := m_mode m, promptPolarity := m_polarity m,
                                      activeMode := None\<rparr>\<rparr>)
         else if m_type m = ''drawing_size_change'' then
           (case calculatePhysicalSizePerPixel_p1 ALLOWED_UNITS v of
              Inl err \<Rightarrow> Thrown err s
            | Inr ppp \<Rightarrow>
                (let s1 = s\<lparr>drawingTool := dt\<lparr>brushPhysicalSize := m_size m\<rparr>\<rparr>
                 in if truthy (nullish_or ppp Undefined) then
                      (case calculatePhysicalSizePerVoxel_p1 ALLOWED_UNITS v of
                         Inl err \<Rightarrow> Thrown err s1
                       | Inr vsizes \<Rightarrow>
                           Done (s1\<lparr>drawingTool := (drawingTool s1)
                                      \<lparr>brushPixelSize :=
                                          sizeChangePixels vsizes (nullish_or ppp Undefined) (m_size m)\<rparr>\<rparr>))
                    else Done (s1\<lparr>drawingTool := (drawingTool s1)\<lparr>brushPixelSize := m_size m\<rparr>\<rparr>)))
         else if m_type m = ''drawing_color_change'' then
           Done (s\<lparr>drawingTool := dt\<lparr>strokeColor := m_color m\<rparr>\<rparr>)
         else if m_type m = ''eraser_mode_change'' then
           (case isEraser dt of
              None \<Rightarrow> Thrown TypeError s
            | Some old \<Rightarrow>
                Done (s\<lparr>drawingTool := dt\<lparr>isEraser := Some (nullish_or (m_isEraser m) False)\<rparr>\<rparr>))
         else if m_type m = ''annotation_undo'' \<or> m_type m = ''annotation_clear'' then
           (let s1 = (clearCanvas s)\<lparr>strokeData := []\<rparr>;
                s2 = (if lockedBBox s1 \<noteq> None then drawLockedRegionIndicator v (lockedBBox s1) s1 else s1)
            in Done (sendAnnotationStateUpdate s2))
         else if m_type m = ''annotation_redo'' then Done (sendAnnotationStateUpdate s)
         else if m_type m = ''annotation_state_sync'' then
           (let s1 = (if strict_eq (m_strokeCount m) (Fin 0) then (clearCanvas s)\<lparr>strokeData := []\<rparr> else s);
                s2 = (if lockedBBox s1 \<noteq> None then drawLockedRegionIndicator v (lockedBBox s1) s1 else s1)
            in Done (sendAnnotationStateUpdate s2))
         else if m_type m = ''drawing_clear'' then
           (let s1 = (clearCanvas s)\<lparr>strokeData := []\<rparr>
            in Done (if lockedBBox s1 \<noteq> None then drawLockedRegionIndicator v (lockedBBox s1) s1 else s1))
         else if m_type m = ''prompt_clear'' then
           (let s1 = (clearCanvas s)\<lparr>promptData := []\<rparr>
            in Done (if lockedBBox s1 \<noteq> None then drawLockedRegionIndicator v (lockedBBox s1) s1 else s1))
         else if m_type m = ''drawing_snapshot'' then Done s
         else if m_type m = ''segment_hover'' then Done s
         else if m_type m = ''segment_recolor'' then Done s
         else if m_type m = ''invalidate_chunks'' then Done s
         else if m_type m = ''get_viewer_state'' then Done (postMessage (''viewer_state'', ViewerState) s)
         else if m_type m = ''view_locked'' then
           (let s1 = s\<lparr>lockedBBox := m_bbox m\<rparr>;
                navState = navigationState s1;
                s2 = (case Option.bind (Option.bind navState position) id of
                        Some value \<Rightarrow> s1\<lparr>lockedPosition := Some (map f32 value)\<rparr>
                      | None \<Rightarrow> s1);
                s3 = (if nullish_or (Option.bind navState zoomFactor) Undefined \<noteq> Undefined
                      then s2\<lparr>lockedZoomFactor := Some (nullish_or (Option.bind navState zoomFactor) Undefined)\<rparr>
                      else s2)
            in Done (drawLockedRegionIndicator v (lockedBBox s3) s3))
         else if m_type m = ''view_unlocked'' then
           Done (clearCanvas (s\<lparr>lockedBBox := None, lockedPosition := None, lockedZoomFactor := None\<rparr>))
         else if m_type m = ''reset_to_locked_view'' then
           (let navState = navigationState s;
                navState1 = (case (lockedPosition s, Option.bind navState position) of
                               (Some lp, Some old) \<Rightarrow>
                                 map_option (\<lambda>n. n\<lparr>position := Some (Some (map f32 lp))\<rparr>) navState
                             | _ \<Rightarrow> navState);
                navState2 = (case (lockedZoomFactor s, Option.bind navState1 zoomFactor) of
                               (Some lz, Some old) \<Rightarrow>
                                 map_option (\<lambda>n. n\<lparr>zoomFactor := Some lz\<rparr>) navState1
                             | _ \<Rightarrow> navState1)
            in Done (s\<lparr>navigationState := navState2\<rparr>))
         else if m_type m = ''plugin_activated'' then
           Done (activatePluginBindings (m_pluginId m) (nullish_or (m_shortcuts m) []) s)
         else if m_type m = ''plugin_deactivated'' then Done (deactivatePluginBindings s)
         else if m_type m = ''get_view_state'' then Done (postMessage (''view_state'', ViewState) s)
         else Done s)"

text \<open>
  \<open>reader.onloadend\<close> of a \<open>drawing_snapshot\<close> request, run once the canvas blob has been
  read.
\<close>

definition snapshotLoaded_p1 :: "viewer \<Rightarrow> state \<Rightarrow> state" where
  "snapshotLoaded_p1 v s =
     (let s1 = postMessage (''drawing_snapshot_created'', SnapshotCreated (canvas s) (strokeData s)) s;
          s2 = (clearCanvas s1)\<lparr>strokeData := []\<rparr>
      in if lockedBBox s2 \<noteq> None then drawLockedRegionIndicator v (lockedBBox s2) s2 else s2)"

subsection \<open>Keyboard shortcuts\<close>

definition portalShortcuts :: "string \<Rightarrow> string option" where
  "portalShortcuts =
     map_of [(''s'', ''portal-save-scene''), (''d'', ''portal-download-roi''),
             (''k'', ''portal-show-cheatsheet'')]"

definition intercept :: "key_event \<Rightarrow> key_event" where
  "intercept e = e\<lparr>keyDefaultPrevented := True, keyImmediatePropagationStopped := True\<rparr>"

text \<open>The capture-phase \<open>keydown\<close> listener of the document.\<close>

definition onKeyDown_p1 :: "key_event \<Rightarrow> state \<Rightarrow> key_event \<times> state" where
  "onKeyDown_p1 e s =
     (let ctrlOrCmd = (ctrlKey e \<or> metaKey e);
          k = toLowerCase (key e)
      in if ctrlOrCmd \<and> truthy_str (portalShortcuts k) then
           (intercept e, postMessage (''portal_action'', Action (the (portalShortcuts k))) s)
         else if truthy_str (activePluginId s) \<and> ctrlOrCmd \<and> k = ''z'' then
           (let shortcutKey =
                  (if shiftKey e then (if metaKey e then ''cmd+shift+z'' else ''ctrl+shift+z'')
                   else (if metaKey e then ''cmd+z'' else ''ctrl+z''))
            in (intercept e,
                postMessage (''plugin_shortcut'', Shortcut shortcutKey (the (activePluginId s))) s))
         else if truthy_str (activePluginId s) \<and> \<not> ctrlOrCmd \<and> \<not> altKey e \<and> k \<in> activePluginKeys s then
           (intercept e, postMessage (''plugin_shortcut'', Shortcut k (the (activePluginId s))) s)
         else (e, s))"

text \<open>
  A \<open>keydown\<close> reaches the document's listener first; the container's listener runs
  afterwards unless the first stopped the propagation.
\<close>

definition keyDown_p1 :: "key_event \<Rightarrow> state \<Rightarrow> key_event \<times> state" where
  "keyDown_p1 e s =
     (let (e1, s1) = onKeyDown_p1 e s
      in if keyImmediatePropagationStopped e1 \<or> keyPropagationStopped e1 then (e1, s1)
         else (keyDownBlocker_p1 e1 s1, s1))"

subsection \<open>Runs\<close>

text \<open>
  What can happen to the handler: mouse and keyboard events, messages from the parent
  window, an animation frame, the end of a snapshot read, and the viewer changing its own
  navigation state. A \<open>mousemove\<close> or \<open>mouseup\<close> runs every listener pair that is
  registered when it is dispatched; a listener that throws does not keep the others from
  running.
\<close>

datatype event =
    MouseDown mouse_event viewer
  | MouseMove mouse_event viewer
  | MouseUp
  | KeyDown key_event
  | Message message viewer
  | AnimationFrame viewer
  | SnapshotLoaded viewer
  | Navigate "navigation_state option"

fun step_p1 :: "unit_entry list \<Rightarrow> (jsnum \<Rightarrow> jsnum) \<Rightarrow> state \<Rightarrow> event \<Rightarrow> state" where
  "step_p1 U f32 s (MouseDown e v) = snd (mouseDown_p1 U e v s)"
| "step_p1 U f32 s (MouseMove e v) = ((onMove_p1 e v) ^^ listeners s) s"
| "step_p1 U f32 s MouseUp = ((final \<circ> onUp_p1) ^^ listeners s) s"
| "step_p1 U f32 s (KeyDown e) = snd (keyDown_p1 e s)"
| "step_p1 U f32 s (Message m v) = final (onMessage_p1 U f32 m v s)"
| "step_p1 U f32 s (AnimationFrame v) = (if rafId s then final (drawStep_p1 U v s) else s)"
| "step_p1 U f32 s (SnapshotLoaded v) = snapshotLoaded_p1 v s"
| "step_p1 U f32 s (Navigate nav) = s\<lparr>navigationState := nav\<rparr>"

definition run_p1 :: "unit_entry list \<Rightarrow> (jsnum \<Rightarrow> jsnum) \<Rightarrow> state \<Rightarrow> event list \<Rightarrow> state" where
  "run_p1 U f32 s es = foldl (step_p1 U f32) s es"


section \<open>The handler of part_000\<close>

definition onMouseDown_p0 ::
  "unit_entry list \<Rightarrow> mouse_event \<Rightarrow> viewer \<Rightarrow> state \<Rightarrow> (mouse_event \<times> state) outcome" where
  "onMouseDown_p0 ALLOWED_UNITS e v s =
     (let mode = activeMode (drawingTool s);
          promptMode = promptMode (drawingTool s);
          promptPolarity = promptPolarity (drawingTool s)
      in if (\<not> truthy_str mode \<and> \<not> truthy_str promptMode) \<or> button e \<noteq> 0 then Done (e, s)
         else if \<not> isOnDataPanel e then Done (e, s)
         else if \<not> isInDataBounds v then Done (e, s)
         else
           (let pt = voxelPoint_p0 v;
                e1 = e\<lparr>defaultPrevented := True, propagationStopped := True\<rparr>;
                (cx, cy) = containerCoords e v;
                s1 = s\<lparr>isCapturing := True, lastScreen := (NaN, NaN),
                       drawingTool := (drawingTool s)\<lparr>startX := cx, startY := cy, isDrawing := True\<rparr>\<rparr>
            in case calculatePhysicalSizePerVoxel_p1 ALLOWED_UNITS v of
                 Inl err \<Rightarrow> Thrown err (e1, s1)
               | Inr physicalSizePerVoxel \<Rightarrow>
                   (case sendScaleBarUpdate ALLOWED_UNITS v s1 of
                      Thrown err s3 \<Rightarrow> Thrown err (e1, s3)
                    | Done s3 \<Rightarrow>
                        (if mode = Some ''brush'' then
                           Done (e1, s3\<lparr>currentStroke :=
                                          Some \<lparr>mode = ''brush'',
                                                color = strokeColor (drawingTool s3),
                                                physicalSize = brushPhysicalSize (drawingTool s3),
                                                voxelSizes = physicalSizePerVoxel,
                                                timestamp = now e,
                                                points = (if isValidPoint pt then [pt] else [])\<rparr>,
                                        listeners := listeners s3 + 1\<rparr>)
                         else if promptMode = Some ''point'' then
                           (if isValidPoint pt
                            then Done (e1, s3\<lparr>currentPrompt := Some (PromptPoint pt promptPolarity),
                                             canvas := canvas s3 @ [Dot (strokeColor (drawingTool s3)) cx cy]\<rparr>)
                            else Done (e1, s3))
                         else if promptMode = Some ''bbox'' then
                           Done (e1, s3\<lparr>currentPrompt := Some (PromptBBox pt pt promptPolarity),
                                        drawingTool := (drawingTool s3)\<lparr>snapshot := Some (canvas s3)\<rparr>,
                                        listeners := listeners s3 + 1\<rparr>)
                         else if promptMode = Some ''scribble'' then
                           Done (e1, s3\<lparr>currentPrompt :=
                                          Some (PromptScribble (if isValidPoint pt then [pt] else [])
                                                  promptPolarity),
                                        listeners := listeners s3 + 1\<rparr>)
                         else if promptMode = Some ''lasso'' then
                           Done (e1, s3\<lparr>currentPrompt :=
                                          Some (PromptLasso (if isValidPoint pt then [pt] else [])
                                                  promptPolarity),
                                        listeners := listeners s3 + 1\<rparr>)
                         else Done (e1, s3\<lparr>listeners := listeners s3 + 1\<rparr>)))))"

definition commitStroke_p0 :: "state \<Rightarrow> state" where
  "commitStroke_p0 s0 =
     (let s = s0\<lparr>listeners := listeners s0 - 1\<rparr>;
          s1 = (case currentStroke s of
                  None \<Rightarrow> s
                | Some st \<Rightarrow>
                    (let a = s\<lparr>strokeData := strokeData s @ [st]\<rparr>;
                         b = finishCapture (a\<lparr>currentStroke := None\<rparr>)
                     in postMessage (''drawing_stroke_complete'', NoPayload) b))
      in case currentPrompt s1 of
           None \<Rightarrow> s1
         | Some pr \<Rightarrow>
             (let a = s1\<lparr>promptData := promptData s1 @ [pr]\<rparr>;
                  b = finishCapture (a\<lparr>currentPrompt := None\<rparr>)
              in postMessage (''prompt_complete'', Prompts (promptData b)) b))"

definition onUp_p0 :: "state \<Rightarrow> state" where
  "onUp_p0 s = commitStroke_p0 s"

definition onMove_p0 :: "mouse_event \<Rightarrow> viewer \<Rightarrow> state \<Rightarrow> state" where
  "onMove_p0 ev v s =
     (if \<not> isCapturing s then s
      else if currentStroke s = None \<and> currentPrompt s = None then s
      else if \<not> isOnDataPanel ev \<or> \<not> isInDataBounds v then s\<lparr>rafId := False, pendingXY := None\<rparr>
      else
        (let p = voxelPoint_p0 v;
             s1 = (case currentStroke s of
                     Some st \<Rightarrow> s\<lparr>currentStroke := Some (st\<lparr>points := pushUniquePoint (points st) p\<rparr>)\<rparr>
                   | None \<Rightarrow>
                       (case currentPrompt s of
                          Some (PromptBBox a b pol) \<Rightarrow> s\<lparr>currentPrompt := Some (PromptBBox a p pol)\<rparr>
                        | Some (PromptScribble ps pol) \<Rightarrow>
                            s\<lparr>currentPrompt := Some (PromptScribble (pushUniquePoint ps p) pol)\<rparr>
                        | Some (PromptLasso ps pol) \<Rightarrow>
                            s\<lparr>currentPrompt := Some (PromptLasso (pushUniquePoint ps p) pol)\<rparr>
                        | _ \<Rightarrow> s));
             (x, y) = containerCoords ev v
         in enqueueDraw x y s1))"

text \<open>
  The \<open>message\<close> listener of part_000; host-only branches and posted payloads are treated
  as in \<open>onMessage_p1\<close>.
\<close>

definition onMessage_p0 :: "unit_entry list \<Rightarrow> message \<Rightarrow> viewer \<Rightarrow> state \<Rightarrow> state outcome" where
  "onMessage_p0 ALLOWED_UNITS m v s =
     (let dt = drawingTool s
      in if m_type m = ''screenshot'' then Done s
         else if m_type m = ''drawing_mode_change'' then
           Done (s\<lparr>drawingTool := dt\<lparr>activeMode := m_mode m, promptMode := None\<rparr>\<rparr>)
         else if m_type m = ''prompt_mode_change'' then
           Done (s\<lparr>drawingTool := dt\<lparr>promptMode := m_mode m, promptPolarity := m_polarity m,
                                      activeMode := None\<rparr>\<rparr>)
         else if m_type m = ''drawing_size_change'' then
           (case calculatePhysicalSizePerPixel_p1 ALLOWED_UNITS v of
              Inl err \<Rightarrow> Thrown err s
            | Inr ppp \<Rightarrow>
                (let s1 = s\<lparr>drawingTool := dt\<lparr>brushPhysicalSize := m_size m\<rparr>\<rparr>
                 in if truthy (nullish_or ppp Undefined) then
                      (case calculatePhysicalSizePerVoxel_p1 ALLOWED_UNITS v of
                         Inl err \<Rightarrow> Thrown err s1
                       | Inr vsizes \<Rightarrow>
                           Done (s1\<lparr>drawingTool := (drawingTool s1)
                                      \<lparr>brushPixelSize :=
                                          sizeChangePixels vsizes (nullish_or ppp Undefined) (m_size m)\<rparr>\<rparr>))
                    else Done (s1\<lparr>drawingTool := (drawingTool s1)\<lparr>brushPixelSize := m_size m\<rparr>\<rparr>)))
         else if m_type m = ''drawing_color_change'' then
           Done (s\<lparr>drawingTool := dt\<lparr>strokeColor := m_color m\<rparr>\<rparr>)
         else if m_type m = ''drawing_clear'' then Done ((clearCanvas s)\<lparr>strokeData := []\<rparr>)
         else if m_type m = ''prompt_clear'' then Done ((clearCanvas s)\<lparr>promptData := []\<rparr>)
         else if m_type m = ''drawing_snapshot'' then Done s
         else if m_type m = ''segment_hover'' then Done s
         else if m_type m = ''segment_recolor'' then Done s
         else if m_type m = ''invalidate_chunks'' then Done s
         else if m_type m = ''get_viewer_state'' then Done (postMessage (''viewer_state'', ViewerState) s)
         else if m_type m = ''plugin_activated'' then
           Done (activatePluginBindings (m_pluginId m) (nullish_or (m_shortcuts m) []) s)
         else if m_type m = ''plugin_deactivated'' then Done (deactivatePluginBindings s)
         else Done s)"

text \<open>\<open>reader.onloadend\<close> of a \<open>drawing_snapshot\<close> request; the same in drawing_tool_handler.ts.\<close>

definition snapshotLoaded_p0 :: "state \<Rightarrow> state" where
  "snapshotLoaded_p0 s =
     (let s1 = postMessage (''drawing_snapshot_created'', SnapshotCreated (canvas s) (strokeData s)) s
      in (clearCanvas s1)\<lparr>strokeData := []\<rparr>)"

definition onKeyDown_p0 :: "key_event \<Rightarrow> state \<Rightarrow> key_event \<times> state" where
  "onKeyDown_p0 e s =
     (let ctrlOrCmd = (ctrlKey e \<or> metaKey e);
          k = toLowerCase (key e)
      in if ctrlOrCmd \<and> truthy_str (portalShortcuts k) then
           (intercept e, postMessage (''portal_action'', Action (the (portalShortcuts k))) s)
         else if truthy_str (activePluginId s) \<and> \<not> ctrlOrCmd \<and> \<not> altKey e \<and> k \<in> activePluginKeys s then
           (intercept e, postMessage (''plugin_shortcut'', Shortcut k (the (activePluginId s))) s)
         else (e, s))"

fun step_p0 :: "unit_entry list \<Rightarrow> state \<Rightarrow> event \<Rightarrow> state" where
  "step_p0 U s (MouseDown e v) = snd (final (onMouseDown_p0 U e v s))"
| "step_p0 U s (MouseMove e v) = ((onMove_p0 e v) ^^ listeners s) s"
| "step_p0 U s MouseUp = (onUp_p0 ^^ listeners s) s"
| "step_p0 U s (KeyDown e) = snd (onKeyDown_p0 e s)"
| "step_p0 U s (Message m v) = final (onMessage_p0 U m v s)"
| "step_p0 U s (AnimationFrame v) = (if rafId s then final (drawStep_p1 U v s) else s)"
| "step_p0 U s (SnapshotLoaded v) = snapshotLoaded_p0 s"
| "step_p0 U s (Navigate nav) = s\<lparr>navigationState := nav\<rparr>"

definition run_p0 :: "unit_entry list \<Rightarrow> state \<Rightarrow> event list \<Rightarrow> state" where
  "run_p0 U s es = foldl (step_p0 U) s es"

section \<open>The handler of drawing_tool_handler.ts\<close>

definition drawStep_ts :: "unit_entry list \<Rightarrow> viewer \<Rightarrow> state \<Rightarrow> state outcome" where
  "drawStep_ts ALLOWED_UNITS v s0 =
     (let s = s0\<lparr>rafId := False\<rparr>
      in if \<not> isCapturing s \<or> pendingXY s = None then Done s
         else if currentStroke s = None \<and> currentPrompt s = None then Done s
         else
           (let (x, y) = the (pendingXY s);
                s1 = s\<lparr>pendingXY := None\<rparr>;
                dt = drawingTool s1;
                path = (\<lambda>c w. if isFinite (fst (lastScreen s1)) then StrokeTo c w x y
                               else StartPath x y);
                erase = (\<lambda>w. if isFinite (fst (lastScreen s1)) then EraseTo w x y
                              else StartPath x y)
            in case calculatePhysicalSizePerPixel_ts ALLOWED_UNITS v of
                 Inl err \<Rightarrow> Thrown err s1
               | Inr ppp \<Rightarrow>
                   (let pixelSize =
                          (if truthy (nullish_or ppp Undefined)
                           then js_div (brushPhysicalSize dt) (nullish_or ppp Undefined)
                           else brushPixelSize dt)
                    in if activeMode dt = Some ''brush'' then
                         Done (s1\<lparr>canvas := canvas s1 @ [path (strokeColor dt) (math_max (Fin 1) pixelSize)],
                                  lastScreen := (x, y)\<rparr>)
                       else if activeMode dt = Some ''eraser'' then
                         Done (s1\<lparr>canvas := canvas s1 @ [erase (math_max (Fin 1) pixelSize)],
                                  lastScreen := (x, y)\<rparr>)
                       else if promptMode dt = Some ''bbox'' then
                         Done (s1\<lparr>canvas := nullish_or (snapshot dt) (canvas s1)
                                             @ [Rect (strokeColor dt)
                                                  (js_add (startX dt) (Fin (1 / 2)))
                                                  (js_add (startY dt) (Fin (1 / 2)))
                                                  (js_sub x (startX dt)) (js_sub y (startY dt))],
                                  lastScreen := (x, y)\<rparr>)
                       else if promptMode dt = Some ''scribble'' then
                         Done (s1\<lparr>canvas := canvas s1 @ [path (strokeColor dt) (Fin 4)],
                                  lastScreen := (x, y)\<rparr>)
                       else if promptMode dt = Some ''lasso'' then
                         Done (s1\<lparr>canvas := canvas s1 @ [path (strokeColor dt) (Fin 2)],
                                  lastScreen := (x, y)\<rparr>)
                       else Done (s1\<lparr>lastScreen := (x, y)\<rparr>))))"

definition onMouseDown_ts ::
  "unit_entry list \<Rightarrow> mouse_event \<Rightarrow> viewer \<Rightarrow> state \<Rightarrow> (mouse_event \<times> state) outcome" where
  "onMouseDown_ts ALLOWED_UNITS e v s =
     (let mode = activeMode (drawingTool s);
          promptMode = promptMode (drawingTool s);
          promptPolarity = promptPolarity (drawingTool s)
      in if (\<not> truthy_str mode \<and> \<not> truthy_str promptMode) \<or> button e \<noteq> 0 then Done (e, s)
         else
           (let e1 = e\<lparr>defaultPrevented := True, propagationStopped := True\<rparr>;
                pt = voxelPoint_ts v;
                (cx, cy) = containerCoords e v;
                s1 = s\<lparr>isCapturing := True, lastScreen := (NaN, NaN),
                       drawingTool := (drawingTool s)\<lparr>startX := cx, startY := cy, isDrawing := True\<rparr>\<rparr>
            in case calculatePhysicalSizePerVoxel_ts ALLOWED_UNITS v of
                 Inl err \<Rightarrow> Thrown err (e1, s1)
               | Inr physicalSizePerVoxel \<Rightarrow>
                   (case sendScaleBarUpdate ALLOWED_UNITS v s1 of
                      Thrown err s3 \<Rightarrow> Thrown err (e1, s3)
                    | Done s3 \<Rightarrow>
                        (if mode = Some ''brush'' \<or> mode = Some ''eraser'' then
                           Done (e1, s3\<lparr>currentStroke :=
                                          Some \<lparr>mode = the mode,
                                                color = strokeColor (drawingTool s3),
                                                physicalSize = brushPhysicalSize (drawingTool s3),
                                                voxelSizes = physicalSizePerVoxel,
                                                timestamp = now e,
                                                points = (if isFinite (px pt) \<and> isFinite (py pt) \<and> isFinite (pz pt)
                                                          then [pt] else [])\<rparr>,
                                        listeners := listeners s3 + 1\<rparr>)
                         else if promptMode = Some ''point'' then
                           (if isFinite (px pt) \<and> isFinite (py pt) \<and> isFinite (pz pt)
                            then Done (e1, s3\<lparr>currentPrompt := Some (PromptPoint pt promptPolarity),
                                             canvas := canvas s3 @ [Dot (strokeColor (drawingTool s3)) cx cy]\<rparr>)
                            else Done (e1, s3))
                         else if promptMode = Some ''bbox'' then
                           Done (e1, s3\<lparr>currentPrompt := Some (PromptBBox pt pt promptPolarity),
                                        drawingTool := (drawingTool s3)\<lparr>snapshot := Some (canvas s3)\<rparr>,
                                        listeners := listeners s3 + 1\<rparr>)
                         else if promptMode = Some ''scribble'' then
                           Done (e1, s3\<lparr>currentPrompt :=
                                          Some (PromptScribble
                                                  (if isFinite (px pt) \<and> isFinite (py pt) \<and> isFinite (pz pt)
                                                   then [pt] else [])
                                                  promptPolarity),
                                        listeners := listeners s3 + 1\<rparr>)
                         else if promptMode = Some ''lasso'' then
                           Done (e1, s3\<lparr>currentPrompt :=
                                          Some (PromptLasso
                                                  (if isFinite (px pt) \<and> isFinite (py pt) \<and> isFinite (pz pt)
                                                   then [pt] else [])
                                                  promptPolarity),
                                        listeners := listeners s3 + 1\<rparr>)
                         else Done (e1, s3\<lparr>listeners := listeners s3 + 1\<rparr>)))))"

text \<open>The inline test of \<open>onMove\<close> before \<open>arr.push(p)\<close>.\<close>

definition pushIfNew :: "StrokePoint list \<Rightarrow> StrokePoint \<Rightarrow> StrokePoint list" where
  "pushIfNew arr p =
     (if arr = [] \<or> \<not> strict_eq (px (last arr)) (px p) \<or> \<not> strict_eq (py (last arr)) (py p)
         \<or> \<not> strict_eq (pz (last arr)) (pz p)
      then arr @ [p] else arr)"

definition onMove_ts :: "mouse_event \<Rightarrow> viewer \<Rightarrow> state \<Rightarrow> state" where
  "onMove_ts ev v s =
     (if \<not> isCapturing s then s
      else if currentStroke s = None \<and> currentPrompt s = None then s
      else
        (let p = voxelPoint_ts v;
             s1 = (if isFinite (px p) \<and> isFinite (py p) \<and> isFinite (pz p) then
                     (case currentStroke s of
                        Some st \<Rightarrow>
                          if mode st = ''brush'' \<or> mode st = ''eraser''
                          then s\<lparr>currentStroke := Some (st\<lparr>points := pushIfNew (points st) p\<rparr>)\<rparr>
                          else s
                      | None \<Rightarrow>
                          (case currentPrompt s of
                             Some (PromptBBox a b pol) \<Rightarrow> s\<lparr>currentPrompt := Some (PromptBBox a p pol)\<rparr>
                           | Some (PromptScribble ps pol) \<Rightarrow>
                               s\<lparr>currentPrompt := Some (PromptScribble (pushIfNew ps p) pol)\<rparr>
                           | Some (PromptLasso ps pol) \<Rightarrow>
                               s\<lparr>currentPrompt := Some (PromptLasso (pushIfNew ps p) pol)\<rparr>
                           | _ \<Rightarrow> s))
                   else s);
             (x, y) = containerCoords ev v
         in enqueueDraw x y s1))"

definition onUp_ts :: "state \<Rightarrow> state" where
  "onUp_ts s =
     (let s1 = (case currentStroke s of
                  None \<Rightarrow> s
                | Some st \<Rightarrow>
                    postMessage (''drawing_stroke_complete'', NoPayload)
                      (s\<lparr>isCapturing := False, strokeData := strokeData s @ [st], currentStroke := None,
                         drawingTool := (drawingTool s)\<lparr>isDrawing := False, snapshot := None\<rparr>\<rparr>));
          s2 = (case currentPrompt s1 of
                  None \<Rightarrow> s1
                | Some pr \<Rightarrow>
                    postMessage (''prompt_complete'', Prompts (promptData s1 @ [pr]))
                      (s1\<lparr>isCapturing := False, promptData := promptData s1 @ [pr], currentPrompt := None,
                          drawingTool := (drawingTool s1)\<lparr>isDrawing := False, snapshot := None\<rparr>\<rparr>))
      in s2\<lparr>listeners := listeners s2 - 1, rafId := False\<rparr>)"

definition onMessage_ts :: "unit_entry list \<Rightarrow> message \<Rightarrow> viewer \<Rightarrow> state \<Rightarrow> state outcome" where
  "onMessage_ts ALLOWED_UNITS m v s =
     (let dt = drawingTool s
      in if m_type m = ''screenshot'' then Done s
         else if m_type m = ''drawing_mode_change'' then
           Done (s\<lparr>drawingTool := dt\<lparr>activeMode := m_mode m, promptMode := None\<rparr>\<rparr>)
         else if m_type m = ''prompt_mode_change'' then
           Done (s\<lparr>drawingTool := dt\<lparr>promptMode := m_mode m, promptPolarity := m_polarity m,
                                      activeMode := None\<rparr>\<rparr>)
         else if m_type m = ''drawing_size_change'' then
           (case calculatePhysicalSizePerPixel_ts ALLOWED_UNITS v of
              Inl err \<Rightarrow> Thrown err s
            | Inr ppp \<Rightarrow>
                Done (s\<lparr>drawingTool := dt
                        \<lparr>brushPhysicalSize := m_size m,
                         brushPixelSize :=
                           (if truthy (nullish_or ppp Undefined)
                            then js_div (m_size m) (nullish_or ppp Undefined)
                            else m_size m)\<rparr>\<rparr>))
         else if m_type m = ''drawing_color_change'' then
           Done (s\<lparr>drawingTool := dt\<lparr>strokeColor := m_color m\<rparr>\<rparr>)
         else if m_type m = ''drawing_clear'' then Done ((clearCanvas s)\<lparr>strokeData := []\<rparr>)
         else if m_type m = ''prompt_clear'' then Done ((clearCanvas s)\<lparr>promptData := []\<rparr>)
         else if m_type m = ''drawing_snapshot'' then Done s
         else if m_type m = ''invalidate_chunks'' then Done s
         else Done s)"

fun step_ts :: "unit_entry list \<Rightarrow> state \<Rightarrow> event \<Rightarrow> state" where
  "step_ts U s (MouseDown e v) = snd (final (onMouseDown_ts U e v s))"
| "step_ts U s (MouseMove e v) = ((onMove_ts e v) ^^ listeners s) s"
| "step_ts U s MouseUp = (onUp_ts ^^ listeners s) s"
| "step_ts U s (KeyDown e) = s"
| "step_ts U s (Message m v) = final (onMessage_ts U m v s)"
| "step_ts U s (AnimationFrame v) = (if rafId s then final (drawStep_ts U v s) else s)"
| "step_ts U s (SnapshotLoaded v) = snapshotLoaded_p0 s"
| "step_ts U s (Navigate nav) = s\<lparr>navigationState := nav\<rparr>"

definition run_ts :: "unit_entry list \<Rightarrow> state \<Rightarrow> event list \<Rightarrow> state" where
  "run_ts U s es = foldl (step_ts U) s es"


section \<open>Notions used to state the properties\<close>

text \<open>The messages posted to the parent window between two states.\<close>

definition newly_posted :: "state \<Rightarrow> state \<Rightarrow> posted list" where
  "newly_posted s s' = drop (length (outbox s)) (outbox s')"

text \<open>Two states with the same capture data and the same posted messages.\<close>

definition same_capture :: "state \<Rightarrow> state \<Rightarrow> bool" where
  "same_capture s s' =
     (strokeData s' = strokeData s \<and> promptData s' = promptData s
      \<and> currentStroke s' = currentStroke s \<and> currentPrompt s' = currentPrompt s
      \<and> isCapturing s' = isCapturing s \<and> outbox s' = outbox s)"

text \<open>
  \<open>commitStroke\<close> of part_001 can read whether the stroke is an eraser stroke: the active
  mode is the eraser, or the \<open>DrawingTool\<close> object has an \<open>isEraser\<close> property.
\<close>

definition eraserReadable :: "state \<Rightarrow> bool" where
  "eraserReadable s =
     (activeMode (drawingTool s) = Some ''eraser'' \<or> isEraser (drawingTool s) \<noteq> None)"

text \<open>What \<open>drawLockedRegionIndicator\<close> leaves on the canvas.\<close>

definition lockIndicator :: "viewer \<Rightarrow> LockedBBox option \<Rightarrow> paint list" where
  "lockIndicator v bbox =
     (if bbox = None \<or> getSliceViewPanels v = [] then []
      else map PanelBorder (getSliceViewPanels v) @ [Badge])"

text \<open>The two modes and the locked view are the same in both states.\<close>

definition settings_kept :: "state \<Rightarrow> state \<Rightarrow> bool" where
  "settings_kept s s' =
     (activeMode (drawingTool s') = activeMode (drawingTool s)
      \<and> promptMode (drawingTool s') = promptMode (drawingTool s)
      \<and> lockedBBox s' = lockedBBox s
      \<and> lockedPosition s' = lockedPosition s
      \<and> lockedZoomFactor s' = lockedZoomFactor s)"

text \<open>At most one of \<open>activeMode\<close> and \<open>promptMode\<close> is not \<open>null\<close>.\<close>

definition modes_exclusive :: "state \<Rightarrow> bool" where
  "modes_exclusive s = (activeMode (drawingTool s) = None \<or> promptMode (drawingTool s) = None)"

text \<open>No event of the list is a message of one of the given types.\<close>

definition no_message_of :: "string list \<Rightarrow> event list \<Rightarrow> bool" where
  "no_message_of ts es =
     list_all (\<lambda>ev. case ev of Message m v \<Rightarrow> m_type m \<notin> set ts | _ \<Rightarrow> True) es"

text \<open>The point list of a scribble or lasso prompt; other prompts have none.\<close>

fun prompt_points :: "Prompt \<Rightarrow> StrokePoint list" where
  "prompt_points (PromptScribble ps pol) = ps"
| "prompt_points (PromptLasso ps pol) = ps"
| "prompt_points _ = []"

text \<open>
  Every point list of the state is free of adjacent duplicates: those of the committed
  strokes and prompts and those of the stroke and the prompt in progress.
\<close>

definition points_ok :: "state \<Rightarrow> bool" where
  "points_ok s =
     (list_all (\<lambda>st. adjacent_free (points st)) (strokeData s)
      \<and> list_all (\<lambda>pr. adjacent_free (prompt_points pr)) (promptData s)
      \<and> (case currentStroke s of None \<Rightarrow> True | Some st \<Rightarrow> adjacent_free (points st))
      \<and> (case currentPrompt s of None \<Rightarrow> True | Some pr \<Rightarrow> adjacent_free (prompt_points pr)))"

text \<open>All points recorded in brush strokes, scribble prompts and lasso prompts.\<close>

definition recorded_points :: "state \<Rightarrow> StrokePoint list" where
  "recorded_points s =
     concat (map points (strokeData s)) @ concat (map prompt_points (promptData s))
     @ (case currentStroke s of None \<Rightarrow> [] | Some st \<Rightarrow> points st)
     @ (case currentPrompt s of None \<Rightarrow> [] | Some pr \<Rightarrow> prompt_points pr)"

text \<open>
  The point that a mouse event offers for recording: the voxel point \<open>vp v\<close> of the viewer
  it carries, if that viewer passes the test \<open>ok\<close>.
\<close>

fun accepted_points :: "(viewer \<Rightarrow> StrokePoint) \<Rightarrow> (viewer \<Rightarrow> bool) \<Rightarrow> event \<Rightarrow> StrokePoint list" where
  "accepted_points vp ok (MouseDown e v) = (if ok v then [vp v] else [])"
| "accepted_points vp ok (MouseMove e v) = (if ok v then [vp v] else [])"
| "accepted_points vp ok _ = []"

text \<open>
  From \<open>s\<close> to \<open>s'\<close> the point lists stay free of adjacent duplicates and no point other
  than those of \<open>ps\<close> is newly recorded.
\<close>

definition records :: "StrokePoint list \<Rightarrow> state \<Rightarrow> state \<Rightarrow> bool" where
  "records ps s s' =
     ((points_ok s \<longrightarrow> points_ok s')
      \<and> set (recorded_points s') \<subseteq> set (recorded_points s) \<union> set ps)"

text \<open>
  The dimension with the given name: the index of the first name of the list that is equal
  to it (the length of the list if there is none).
\<close>

definition dimension :: "string list \<Rightarrow> string \<Rightarrow> nat" where
  "dimension ns a = length (takeWhile (\<lambda>b. b \<noteq> a) ns)"

text \<open>
  The mouse position in voxel coordinates as a list of at least three components gives it
  without looking at the dimension names: its first three components.
\<close>

definition positional_point :: "viewer \<Rightarrow> StrokePoint" where
  "positional_point v =
     (case mousePosition v of
        None \<Rightarrow> nanPoint
      | Some p \<Rightarrow> if length p < 3 then nanPoint else firstThree p)"

text \<open>
  The mouse position in voxel coordinates by dimension names: the components at the
  dimensions named x, y and z when the coordinate space has all three names, the first
  three components otherwise, and (NaN, NaN, NaN) when the position is missing or has fewer
  than three components.
\<close>

definition named_point :: "viewer \<Rightarrow> StrokePoint" where
  "named_point v =
     (case mousePosition v of
        None \<Rightarrow> nanPoint
      | Some p \<Rightarrow>
          if length p < 3 then nanPoint
          else (case Option.bind (coordinateSpace v) names of
                  None \<Rightarrow> firstThree p
                | Some ns \<Rightarrow>
                    if ''x'' \<in> set ns \<and> ''y'' \<in> set ns \<and> ''z'' \<in> set ns
                    then \<lparr>px = js_nth p (dimension ns ''x''), py = js_nth p (dimension ns ''y''),
                          pz = js_nth p (dimension ns ''z'')\<rparr>
                    else firstThree p))"

text \<open>The mouse position is missing or has fewer than three components.\<close>

definition no_position :: "viewer \<Rightarrow> bool" where
  "no_position v = (case mousePosition v of None \<Rightarrow> True | Some p \<Rightarrow> length p < 3)"

section \<open>Example inputs\<close>

text \<open>A unit table of the shape of \<open>ALLOWED_UNITS\<close>.\<close>

definition units_example :: "unit_entry list" where
  "units_example =
     [\<lparr>unit = ''km'', lengthInNanometers = Fin 1000000000000\<rparr>,
      \<lparr>unit = ''m'', lengthInNanometers = Fin 1000000000\<rparr>,
      \<lparr>unit = ''mm'', lengthInNanometers = Fin 1000000\<rparr>,
      \<lparr>unit = micrometre, lengthInNanometers = Fin 1000\<rparr>,
      \<lparr>unit = ''nm'', lengthInNanometers = Fin 1\<rparr>]"

text \<open>A viewer with one slice view panel and the mouse at a given position.\<close>

definition viewer_at :: "string list \<Rightarrow> jsnum list option \<Rightarrow> viewer" where
  "viewer_at ns pos =
     \<lparr>mousePosition = pos,
      coordinateSpace =
        Some \<lparr>names = Some ns,
              bounds = Some \<lparr>lowerBounds = [Fin 0, Fin 0, Fin 0],
                             upperBounds = [Fin 100, Fin 100, Fin 100]\<rparr>\<rparr>,
      panels = Some [\<lparr>scaleBars = None, sliceView = Some [], element = True\<rparr>],
      containerLeft = Fin 0, containerTop = Fin 0\<rparr>"

definition viewer_inside :: viewer where
  "viewer_inside = viewer_at [''x'', ''y'', ''z''] (Some [Fin 10, Fin 20, Fin 30])"

definition viewer_outside :: viewer where
  "viewer_outside = viewer_at [''x'', ''y'', ''z''] (Some [Fin 500, Fin 20, Fin 30])"

definition viewer_zyx :: viewer where
  "viewer_zyx = viewer_at [''z'', ''y'', ''x''] (Some [Fin 1, Fin 2, Fin 3])"

definition viewer_nowhere :: viewer where
  "viewer_nowhere = viewer_at [''x'', ''y'', ''z''] None"

text \<open>A press of the given button at the window position (5, 6), on or off a data panel.\<close>

definition press :: "int \<Rightarrow> bool \<Rightarrow> mouse_event" where
  "press b onPanel =
     \<lparr>button = b, clientX = Fin 5, clientY = Fin 6, targetInDataPanel = onPanel,
      targetPanels = (if onPanel then [0] else []), now = ''2024-01-01T00:00:00.000Z'',
      defaultPrevented = False, propagationStopped = False\<rparr>"

definition key_press :: "string \<Rightarrow> bool \<Rightarrow> key_event" where
  "key_press k ctrl =
     \<lparr>key = k, ctrlKey = ctrl, metaKey = False, altKey = False, shiftKey = False,
      keyTargetInDataPanel = False, keyDefaultPrevented = False, keyPropagationStopped = False,
      keyImmediatePropagationStopped = False\<rparr>"

definition msg :: "string \<Rightarrow> message" where
  "msg t =
     \<lparr>m_type = t, m_mode = Some ''brush'', m_size = Fin 8, m_color = ''#00ff00'',
      m_polarity = ''positive'', m_isEraser = None, m_strokeCount = Fin 0, m_bbox = None,
      m_pluginId = Some ''plugin'', m_shortcuts = Some [''A'', ''b'']\<rparr>"

definition nav_example :: navigation_state where
  "nav_example = \<lparr>position = Some (Some [Fin 1, Fin 2, Fin 3]), zoomFactor = Some (Fin 4)\<rparr>"

definition nav_moved :: navigation_state where
  "nav_moved = \<lparr>position = Some (Some [Fin 7, Fin 8, Fin 9]), zoomFactor = Some (Fin 2)\<rparr>"

text \<open>The initial state after the parent has chosen the brush.\<close>

definition state_brush :: state where
  "state_brush =
     (init_state (Some nav_example))
       \<lparr>drawingTool := init_tool\<lparr>activeMode := Some ''brush''\<rparr>\<rparr>"

definition point_example :: StrokePoint where
  "point_example = \<lparr>px = Fin 10, py = Fin 20, pz = Fin 30\<rparr>"

definition stroke_example :: Stroke where
  "stroke_example =
     \<lparr>mode = ''brush'', color = ''#ff0000'', physicalSize = Fin 8, voxelSizes = None,
      timestamp = ''2024-01-01T00:00:00.000Z'', points = [point_example]\<rparr>"

text \<open>A state with a brush stroke and a scribble prompt in progress and one listener pair.\<close>

definition state_capturing :: state where
  "state_capturing =
     state_brush\<lparr>isCapturing := True, currentStroke := Some stroke_example,
                 currentPrompt := Some (PromptScribble [point_example] ''positive''),
                 listeners := 1\<rparr>"

definition bbox_example :: LockedBBox where
  "bbox_example =
     \<lparr>x_start = Fin 0, x_end = Fin 10, y_start = Fin 0, y_end = Fin 10,
      z_start = Fin 0, z_end = Fin 10\<rparr>"

definition state_locked :: state where
  "state_locked = state_brush\<lparr>lockedBBox := Some bbox_example\<rparr>"

text \<open>
  The parent chooses the point prompt, then the user clicks once inside the data: a press of
  the left button on a data panel and its release.
\<close>

definition point_mode_change :: message where
  "point_mode_change = (msg ''prompt_mode_change'')\<lparr>m_mode := Some ''point''\<rparr>"

definition point_click :: "event list" where
  "point_click =
     [Message point_mode_change viewer_inside, MouseDown (press 0 True) viewer_inside, MouseUp]"

text \<open>The parent chooses the brush, then the user clicks once inside the data.\<close>

definition brush_click :: "event list" where
  "brush_click =
     [Message (msg ''drawing_mode_change'') viewer_inside,
      MouseDown (press 0 True) viewer_inside, MouseUp]"

text \<open>The state after the press of \<open>point_click\<close>, which its release leaves as it is.\<close>

definition state_point_pending :: state where
  "state_point_pending =
     (init_state None)
       \<lparr>currentPrompt := Some (PromptPoint point_example ''positive''),
        isCapturing := True,
        drawingTool := init_tool\<lparr>promptMode := Some ''point'', startX := Fin 5, startY := Fin 6,
                                 isDrawing := True\<rparr>,
        canvas := [Dot ''#ff0000'' (Fin 5) (Fin 6)]\<rparr>"

text \<open>The state in which the release of \<open>brush_click\<close> leaves part_001.\<close>

definition state_brush_stuck :: state where
  "state_brush_stuck =
     (init_state None)
       \<lparr>strokeData := [stroke_example],
        sharedStrokes := 1,
        currentStroke := Some stroke_example,
        isCapturing := True,
        drawingTool := init_tool\<lparr>activeMode := Some ''brush'', startX := Fin 5, startY := Fin 6,
                                 isDrawing := True\<rparr>\<rparr>"

section \<open>Properties\<close>


subsection \<open>Unit conversion\<close>

lemma find_unit_None: "find_unit U n = None \<longleftrightarrow> n \<notin> unit ` set U"
  by (auto simp: find_unit_def find_None_iff)

lemma find_unit_Some: "find_unit U n = Some u \<Longrightarrow> u \<in> set U \<and> unit u = n"
  by (auto simp: find_unit_def find_Some_iff)

lemma js_div_self: "isFinite l \<Longrightarrow> truthy l \<Longrightarrow> js_div l l = Fin 1"
  by (cases l) auto

lemma js_mul_one: "x \<noteq> Undefined \<Longrightarrow> js_mul x (Fin 1) = x"
  by (cases x) (auto simp: signed_inf_def)

text \<open>
  Claim C10. \<open>convertLength\<close> throws exactly when the from-unit or the to-unit does not
  occur as a unit in the table. When both occur, it returns the value multiplied by the
  quotient of the length of the from-unit's entry by the length of the to-unit's entry.
  Converting a number from a unit of the table to the same unit returns the number, given
  that the lengths in the table are finite and not zero (\<open>ALLOWED_UNITS\<close> itself is not
  among the sources).
\<close>

theorem convertLength_spec:
  "((\<exists>err. convertLength U x f t = Inl err) \<longleftrightarrow> (f \<notin> unit ` set U \<or> t \<notin> unit ` set U))
   \<and> (f \<in> unit ` set U \<and> t \<in> unit ` set U \<longrightarrow>
        (\<exists>fe te. find_unit U f = Some fe \<and> find_unit U t = Some te
                 \<and> fe \<in> set U \<and> unit fe = f \<and> te \<in> set U \<and> unit te = t
                 \<and> convertLength U x f t
                     = Inr (js_mul x (js_div (lengthInNanometers fe) (lengthInNanometers te)))))
   \<and> (f \<in> unit ` set U
        \<and> (\<forall>u \<in> set U. isFinite (lengthInNanometers u) \<and> truthy (lengthInNanometers u))
        \<and> x \<noteq> Undefined
      \<longrightarrow> convertLength U x f f = Inr x)"
proof (intro conjI impI)
  show "(\<exists>err. convertLength U x f t = Inl err) \<longleftrightarrow> (f \<notin> unit ` set U \<or> t \<notin> unit ` set U)"
    by (cases "find_unit U f"; cases "find_unit U t")
       (auto simp: convertLength_def find_unit_None[symmetric] simp del: not_None_eq)
next
  assume "f \<in> unit ` set U \<and> t \<in> unit ` set U"
  then obtain fe te where fe: "find_unit U f = Some fe" and te: "find_unit U t = Some te"
    using find_unit_None[of U f] find_unit_None[of U t]
    by (cases "find_unit U f"; cases "find_unit U t") auto
  then show "\<exists>fe te. find_unit U f = Some fe \<and> find_unit U t = Some te
                 \<and> fe \<in> set U \<and> unit fe = f \<and> te \<in> set U \<and> unit te = t
                 \<and> convertLength U x f t
                     = Inr (js_mul x (js_div (lengthInNanometers fe) (lengthInNanometers te)))"
    using find_unit_Some[OF fe] find_unit_Some[OF te] by (simp add: convertLength_def)
next
  assume a: "f \<in> unit ` set U
        \<and> (\<forall>u \<in> set U. isFinite (lengthInNanometers u) \<and> truthy (lengthInNanometers u))
        \<and> x \<noteq> Undefined"
  then obtain fe where fe: "find_unit U f = Some fe"
    using find_unit_None[of U f] by (cases "find_unit U f") auto
  have "fe \<in> set U" using find_unit_Some[OF fe] by simp
  with a have "js_div (lengthInNanometers fe) (lengthInNanometers fe) = Fin 1"
    by (simp add: js_div_self)
  with a fe show "convertLength U x f f = Inr x"
    by (simp add: convertLength_def js_mul_one)
qed

theorem convertLength_spec_witness:
  "''nm'' \<in> unit ` set units_example
   \<and> list_all (\<lambda>u. isFinite (lengthInNanometers u) \<and> truthy (lengthInNanometers u)) units_example
   \<and> convertLength units_example (Fin 5) ''nm'' ''nm'' = Inr (Fin 5)
   \<and> \<not> (\<exists>err. convertLength units_example (Fin 2) ''m'' micrometre = Inl err)
   \<and> (\<exists>err. convertLength units_example (Fin 2) ''ft'' ''m'' = Inl err)"
proof -
  have h: "''nm'' \<in> unit ` set units_example
     \<and> (\<forall>u \<in> set units_example. isFinite (lengthInNanometers u) \<and> truthy (lengthInNanometers u))
     \<and> Fin 5 \<noteq> Undefined"
    by (simp add: units_example_def micrometre_def)
  have m: "''m'' \<in> unit ` set units_example" "micrometre \<in> unit ` set units_example"
     "''ft'' \<notin> unit ` set units_example"
    by (simp_all add: units_example_def micrometre_def)
  from h convertLength_spec[of units_example "Fin 5" "''nm''" "''nm''", THEN conjunct2, THEN conjunct2]
  have a: "convertLength units_example (Fin 5) ''nm'' ''nm'' = Inr (Fin 5)" by (rule rev_mp)
  from m convertLength_spec[of units_example "Fin 2" "''m''" micrometre, THEN conjunct1]
  have b: "\<not> (\<exists>err. convertLength units_example (Fin 2) ''m'' micrometre = Inl err)" by simp
  from m convertLength_spec[of units_example "Fin 2" "''ft''" "''m''", THEN conjunct1]
  have c: "\<exists>err. convertLength units_example (Fin 2) ''ft'' ''m'' = Inl err" by simp
  from h a b c show ?thesis by (simp add: list_all_iff)
qed

subsection \<open>Keyboard shortcuts\<close>

lemma portalShortcuts_simps:
  "portalShortcuts ''s'' = Some ''portal-save-scene''"
  "portalShortcuts ''d'' = Some ''portal-download-roi''"
  "portalShortcuts ''k'' = Some ''portal-show-cheatsheet''"
  by (simp_all add: portalShortcuts_def)

lemma portalShortcuts_truthy:
  "truthy_str (portalShortcuts k) \<longleftrightarrow> k = ''s'' \<or> k = ''d'' \<or> k = ''k''"
  by (auto simp: portalShortcuts_def)

text \<open>
  Claim C5. In part_000 and part_001 (drawing_tool_handler.ts has no keyboard listener):
  for a \<open>keydown\<close> with Ctrl or Meta held whose lower-cased key is \<open>s\<close>, \<open>d\<close> or \<open>k\<close>, the
  listener prevents the default, stops the immediate propagation and posts a
  \<open>portal_action\<close> message with the action \<open>portal-save-scene\<close>, \<open>portal-download-roi\<close> or
  \<open>portal-show-cheatsheet\<close>. For a key pressed without Ctrl, Meta and Alt, the listener
  intercepts the event and posts a \<open>plugin_shortcut\<close> message with the lower-cased key and
  the plugin id exactly when a plugin is active (\<open>activePluginId\<close> is truthy) and the
  lower-cased key is in the registered set; otherwise it changes neither the event nor the
  state.
\<close>

theorem keydown_shortcuts:
  "((ctrlKey e \<or> metaKey e) \<and> toLowerCase (key e) \<in> {''s'', ''d'', ''k''} \<longrightarrow>
      (\<forall>h \<in> {onKeyDown_p0, onKeyDown_p1}.
         keyDefaultPrevented (fst (h e s)) \<and> keyImmediatePropagationStopped (fst (h e s))
         \<and> outbox (snd (h e s))
             = outbox s @ [(''portal_action'',
                  Action (if toLowerCase (key e) = ''s'' then ''portal-save-scene''
                          else if toLowerCase (key e) = ''d'' then ''portal-download-roi''
                          else ''portal-show-cheatsheet''))]))
   \<and> (\<not> ctrlKey e \<and> \<not> metaKey e \<and> \<not> altKey e \<longrightarrow>
      (\<forall>h \<in> {onKeyDown_p0, onKeyDown_p1}.
         if truthy_str (activePluginId s) \<and> toLowerCase (key e) \<in> activePluginKeys s
         then fst (h e s) = e\<lparr>keyDefaultPrevented := True, keyImmediatePropagationStopped := True\<rparr>
              \<and> snd (h e s)
                  = s\<lparr>outbox := outbox s @ [(''plugin_shortcut'',
                         Shortcut (toLowerCase (key e)) (the (activePluginId s)))]\<rparr>
         else h e s = (e, s)))"
  by (auto simp: onKeyDown_p0_def onKeyDown_p1_def intercept_def postMessage_def
        portalShortcuts_simps portalShortcuts_truthy Let_def)

lemma toLowerCase_examples:
  "toLowerCase ''S'' = ''s''" "toLowerCase ''a'' = ''a''" "toLowerCase ''q'' = ''q''"
  by (simp_all add: toLowerCase_def lower_char_def)

lemma plugin_example:
  "activePluginId (final (onMessage_p1 U f32 (msg ''plugin_activated'') v s)) = Some ''plugin''"
  "activePluginKeys (final (onMessage_p1 U f32 (msg ''plugin_activated'') v s)) = {''a'', ''b''}"
  by (auto simp: onMessage_p1_def msg_def activatePluginBindings_def nullish_or_def
        toLowerCase_def lower_char_def)

theorem keydown_shortcuts_witness:
  "outbox (snd (onKeyDown_p1 (key_press ''S'' True) state_brush))
     = [(''portal_action'', Action ''portal-save-scene'')]
   \<and> keyDefaultPrevented (fst (onKeyDown_p1 (key_press ''S'' True) state_brush))
   \<and> keyImmediatePropagationStopped (fst (onKeyDown_p0 (key_press ''S'' True) state_brush))
   \<and> outbox (snd (onKeyDown_p1 (key_press ''a'' False)
                (final (onMessage_p1 units_example id (msg ''plugin_activated'') viewer_inside
                          state_brush))))
     = [(''plugin_shortcut'', Shortcut ''a'' ''plugin'')]
   \<and> onKeyDown_p1 (key_press ''q'' False)
        (final (onMessage_p1 units_example id (msg ''plugin_activated'') viewer_inside state_brush))
     = (key_press ''q'' False,
        final (onMessage_p1 units_example id (msg ''plugin_activated'') viewer_inside state_brush))"
proof -
  let ?s = "final (onMessage_p1 units_example id (msg ''plugin_activated'') viewer_inside state_brush)"
  have ob: "outbox ?s = []" "outbox state_brush = []"
    by (simp_all add: onMessage_p1_def msg_def activatePluginBindings_def state_brush_def
          init_state_def)
  have k: "key (key_press k c) = k" "ctrlKey (key_press k c) = c" "\<not> metaKey (key_press k c)"
    "\<not> altKey (key_press k c)" for k c
    by (simp_all add: key_press_def)
  from keydown_shortcuts[of "key_press ''S'' True" state_brush]
    keydown_shortcuts[of "key_press ''a'' False" ?s]
    keydown_shortcuts[of "key_press ''q'' False" ?s]
  show ?thesis
    by (simp add: k ob toLowerCase_examples plugin_example)
qed


subsection \<open>Evaluating the examples\<close>

lemmas example_defs =
  viewer_at_def viewer_inside_def viewer_outside_def viewer_zyx_def viewer_nowhere_def
  press_def key_press_def msg_def nav_example_def nav_moved_def state_brush_def
  point_example_def stroke_example_def state_capturing_def bbox_example_def state_locked_def
  init_state_def init_tool_def

lemma example_bounds:
  "isInDataBounds viewer_inside" "\<not> isInDataBounds viewer_outside"
  "\<not> isInDataBounds viewer_nowhere" "isInDataBounds viewer_zyx"
  by (simp_all add: isInDataBounds_def js_nth_def example_defs upt_rec)

lemma example_panels:
  "isOnDataPanel (press b True)" "\<not> isOnDataPanel (press b False)"
  "isOnSliceViewPanel (press b True) (viewer_at ns pos)"
  by (simp_all add: isOnDataPanel_def isOnSliceViewPanel_def getSliceViewPanels_def example_defs)

lemma example_sizes:
  "calculatePhysicalSizePerVoxel_ts U (viewer_at ns pos) = Inr None"
  "calculatePhysicalSizePerVoxel_p1 U (viewer_at ns pos) = Inr None"
  "sendScaleBarUpdate U (viewer_at ns pos) s = Done s"
  by (simp_all add: calculatePhysicalSizePerVoxel_ts_def calculatePhysicalSizePerVoxel_p1_def
        all_layers_def sendScaleBarUpdate_def getScaleBarPhysicalLength_def all_dimensions_def
        viewer_at_def)

lemma example_nowhere:
  "\<not> isInDataBounds (viewer_at ns None)"
  "voxelPoint_ts (viewer_at ns None) = nanPoint"
  "voxelPoint_p0 (viewer_at ns None) = nanPoint"
  "voxelPoint_p1 (viewer_at ns None) = nanPoint"
  by (simp_all add: isInDataBounds_def voxelPoint_ts_def voxelPoint_p0_def voxelPoint_p1_def
        viewer_at_def)

lemma example_coords: "containerCoords (press b p) (viewer_at ns pos) = (Fin 5, Fin 6)"
  by (simp add: containerCoords_def press_def viewer_at_def js_sub_def)

lemma press_button:
  "button (press b p) = b" "now (press b p) = ''2024-01-01T00:00:00.000Z''"
  by (simp_all add: press_def)

lemma example_voxelPoints:
  "voxelPoint_ts viewer_zyx = \<lparr>px = Fin 1, py = Fin 2, pz = Fin 3\<rparr>"
  "voxelPoint_p1 viewer_zyx = \<lparr>px = Fin 3, py = Fin 2, pz = Fin 1\<rparr>"
  "voxelPoint_p1 viewer_inside = point_example"
  "voxelPoint_ts viewer_nowhere = nanPoint"
  by (simp_all add: voxelPoint_ts_def voxelPoint_p1_def firstThree_def js_nth_def example_defs)

subsection \<open>Committing on mouseup\<close>

lemma onUp_ts_idle:
  "currentStroke s = None \<Longrightarrow> currentPrompt s = None \<Longrightarrow>
   onUp_ts s = s\<lparr>listeners := listeners s - 1, rafId := False\<rparr>"
  by (simp add: onUp_ts_def)

lemma onUp_p0_idle:
  "currentStroke s = None \<Longrightarrow> currentPrompt s = None \<Longrightarrow>
   onUp_p0 s = s\<lparr>listeners := listeners s - 1\<rparr>"
  by (simp add: onUp_p0_def commitStroke_p0_def)

lemma onUp_p1_idle:
  "currentStroke s = None \<Longrightarrow> currentPrompt s = None \<Longrightarrow>
   onUp_p1 s = Done (s\<lparr>listeners := listeners s - 1\<rparr>)"
  by (simp add: onUp_p1_def commitStroke_p1_def)

lemma funpow_idle:
  assumes "\<And>s. currentStroke s = None \<Longrightarrow> currentPrompt s = None \<Longrightarrow>
             same_capture s (f s)"
  shows "currentStroke s = None \<Longrightarrow> currentPrompt s = None \<Longrightarrow> same_capture s ((f ^^ n) s)"
proof (induction n)
  case 0
  then show ?case by (simp add: same_capture_def)
next
  case (Suc n)
  from Suc have a: "same_capture s ((f ^^ n) s)" by simp
  with Suc.prems have "currentStroke ((f ^^ n) s) = None" "currentPrompt ((f ^^ n) s) = None"
    by (simp_all add: same_capture_def)
  from assms[OF this] a show ?case by (simp add: same_capture_def)
qed

lemma onUp_ts_result:
  "strokeData (onUp_ts s) = strokeData s @ (case currentStroke s of None \<Rightarrow> [] | Some st \<Rightarrow> [st])"
  "promptData (onUp_ts s) = promptData s @ (case currentPrompt s of None \<Rightarrow> [] | Some pr \<Rightarrow> [pr])"
  "currentStroke (onUp_ts s) = None"
  "currentPrompt (onUp_ts s) = None"
  "outbox (onUp_ts s) = outbox s
     @ (case currentStroke s of None \<Rightarrow> [] | Some st \<Rightarrow> [(''drawing_stroke_complete'', NoPayload)])
     @ (case currentPrompt s of None \<Rightarrow> []
        | Some pr \<Rightarrow> [(''prompt_complete'', Prompts (promptData s @ [pr]))])"
  "currentStroke s \<noteq> None \<or> currentPrompt s \<noteq> None \<Longrightarrow> \<not> isCapturing (onUp_ts s)"
  by (auto simp: onUp_ts_def postMessage_def Let_def split: option.splits)

lemma onUp_p0_result:
  "strokeData (onUp_p0 s) = strokeData s @ (case currentStroke s of None \<Rightarrow> [] | Some st \<Rightarrow> [st])"
  "promptData (onUp_p0 s) = promptData s @ (case currentPrompt s of None \<Rightarrow> [] | Some pr \<Rightarrow> [pr])"
  "currentStroke (onUp_p0 s) = None"
  "currentPrompt (onUp_p0 s) = None"
  "outbox (onUp_p0 s) = outbox s
     @ (case currentStroke s of None \<Rightarrow> [] | Some st \<Rightarrow> [(''drawing_stroke_complete'', NoPayload)])
     @ (case currentPrompt s of None \<Rightarrow> []
        | Some pr \<Rightarrow> [(''prompt_complete'', Prompts (promptData s @ [pr]))])"
  "currentStroke s \<noteq> None \<or> currentPrompt s \<noteq> None \<Longrightarrow> \<not> isCapturing (onUp_p0 s)"
  by (auto simp: onUp_p0_def commitStroke_p0_def finishCapture_def postMessage_def Let_def
           split: option.splits)

lemma onUp_p1_result:
  assumes "eraserReadable s \<or> currentStroke s = None"
  shows "strokeData (final (onUp_p1 s))
           = strokeData s @ (case currentStroke s of None \<Rightarrow> [] | Some st \<Rightarrow> [st])"
    and "promptData (final (onUp_p1 s))
           = promptData s @ (case currentPrompt s of None \<Rightarrow> [] | Some pr \<Rightarrow> [pr])"
    and "currentStroke (final (onUp_p1 s)) = None"
    and "currentPrompt (final (onUp_p1 s)) = None"
    and "outbox (final (onUp_p1 s)) = outbox s
     @ (case currentStroke s of None \<Rightarrow> []
        | Some st \<Rightarrow>
            [(''drawing_stroke_complete'',
              CompletedStroke st (activeMode (drawingTool s) = Some ''eraser''
                                  \<or> isEraser (drawingTool s) = Some True)),
             (''annotation_state_update'',
              AnnotationState (Suc (length (strokeData s))) True False)])
     @ (case currentPrompt s of None \<Rightarrow> []
        | Some pr \<Rightarrow> [(''prompt_complete'', Prompts (promptData s @ [pr]))])"
    and "currentStroke s \<noteq> None \<or> currentPrompt s \<noteq> None \<longrightarrow> \<not> isCapturing (final (onUp_p1 s))"
  using assms
  by (auto simp: onUp_p1_def commitStroke_p1_def finishCapture_def postMessage_def
           sendAnnotationStateUpdate_def eraserReadable_def Let_def split: option.splits)

lemma onUp_p1_throws:
  assumes "currentStroke s = Some st" and "\<not> eraserReadable s"
  shows "onUp_p1 s
           = Thrown TypeError (s\<lparr>listeners := listeners s - 1, strokeData := strokeData s @ [st],
                                   sharedStrokes := sharedStrokes s + 1\<rparr>)"
  using assms
  by (simp add: onUp_p1_def commitStroke_p1_def eraserReadable_def Let_def)

lemma mouseUp_ts:
  assumes "listeners s > 0"
  shows "same_capture (onUp_ts s) (step_ts U s MouseUp)"
proof -
  from assms obtain n where n: "listeners s = Suc n" by (cases "listeners s") auto
  have "same_capture (onUp_ts s) ((onUp_ts ^^ n) (onUp_ts s))"
    by (rule funpow_idle) (simp_all add: onUp_ts_idle same_capture_def onUp_ts_result)
  then show ?thesis by (simp add: n funpow_swap1)
qed

lemma mouseUp_p0:
  assumes "listeners s > 0"
  shows "same_capture (onUp_p0 s) (step_p0 U s MouseUp)"
proof -
  from assms obtain n where n: "listeners s = Suc n" by (cases "listeners s") auto
  have "same_capture (onUp_p0 s) ((onUp_p0 ^^ n) (onUp_p0 s))"
    by (rule funpow_idle) (simp_all add: onUp_p0_idle same_capture_def onUp_p0_result)
  then show ?thesis by (simp add: n funpow_swap1)
qed

lemma mouseUp_p1:
  assumes "listeners s > 0" and "eraserReadable s \<or> currentStroke s = None"
  shows "same_capture (final (onUp_p1 s)) (step_p1 U f32 s MouseUp)"
proof -
  from assms obtain n where n: "listeners s = Suc n" by (cases "listeners s") auto
  have "same_capture (final (onUp_p1 s)) (((final \<circ> onUp_p1) ^^ n) (final (onUp_p1 s)))"
    by (rule funpow_idle)
       (simp_all add: onUp_p1_idle same_capture_def onUp_p1_result(3,4)[OF assms(2)])
  then show ?thesis by (simp add: n funpow_swap1)
qed

text \<open>
  What \<open>onUp\<close> does where it runs to its end: while a listener pair is registered, a
  \<open>mouseup\<close> appends the stroke in progress to \<open>strokeData\<close>, clears it and posts
  \<open>drawing_stroke_complete\<close>, and appends the prompt in progress to \<open>promptData\<close>, clears it
  and posts \<open>prompt_complete\<close> with the whole list. For part_001 this needs the eraser flag
  to be readable.
\<close>

lemma mouseup_commits_when_listening:
  assumes "listeners s > 0"
      and "s' = step_ts U s MouseUp \<or> s' = step_p0 U s MouseUp
           \<or> (s' = step_p1 U f32 s MouseUp \<and> (eraserReadable s \<or> currentStroke s = None))"
  shows "(currentStroke s = Some st \<longrightarrow>
            strokeData s' = strokeData s @ [st] \<and> currentStroke s' = None \<and> \<not> isCapturing s'
            \<and> (\<exists>pl. (''drawing_stroke_complete'', pl) \<in> set (newly_posted s s')))
       \<and> (currentPrompt s = Some pr \<longrightarrow>
            promptData s' = promptData s @ [pr] \<and> currentPrompt s' = None \<and> \<not> isCapturing s'
            \<and> (''prompt_complete'', Prompts (promptData s')) \<in> set (newly_posted s s'))"
  using assms(2)
proof (rule disjE)
  assume "s' = step_ts U s MouseUp"
  with mouseUp_ts[OF assms(1), of U] show ?thesis
    by (auto simp: same_capture_def onUp_ts_result newly_posted_def
             simp del: step_ts.simps split: option.splits)
next
  assume "s' = step_p0 U s MouseUp
           \<or> (s' = step_p1 U f32 s MouseUp \<and> (eraserReadable s \<or> currentStroke s = None))"
  then show ?thesis
  proof (rule disjE)
    assume "s' = step_p0 U s MouseUp"
    with mouseUp_p0[OF assms(1), of U] show ?thesis
      by (auto simp: same_capture_def onUp_p0_result newly_posted_def
               simp del: step_p0.simps split: option.splits)
  next
    assume "s' = step_p1 U f32 s MouseUp \<and> (eraserReadable s \<or> currentStroke s = None)"
    then have p1: "s' = step_p1 U f32 s MouseUp" "eraserReadable s \<or> currentStroke s = None"
      by simp_all
    with mouseUp_p1[OF assms(1) p1(2), of U f32] onUp_p1_result[OF p1(2)] show ?thesis
      by (auto simp: same_capture_def newly_posted_def
               simp del: step_p1.simps split: option.splits)
  qed
qed

lemma example_inside:
  "calculatePhysicalSizePerVoxel_ts U viewer_inside = Inr None"
  "calculatePhysicalSizePerVoxel_p1 U viewer_inside = Inr None"
  "sendScaleBarUpdate U viewer_inside s = Done s"
  "containerCoords (press b p) viewer_inside = (Fin 5, Fin 6)"
  "voxelPoint_ts viewer_inside = point_example"
  "voxelPoint_p0 viewer_inside = point_example"
  "isValidPoint point_example"
  "isFinite (px point_example)" "isFinite (py point_example)" "isFinite (pz point_example)"
  by (simp_all add: viewer_inside_def example_sizes example_coords)
     (simp_all add: voxelPoint_ts_def voxelPoint_p0_def firstThree_def js_nth_def viewer_at_def
        point_example_def isValidPoint_def)

lemma point_press:
  "final (onMessage_ts U point_mode_change v (init_state None))
     = (init_state None)\<lparr>drawingTool := init_tool\<lparr>promptMode := Some ''point''\<rparr>\<rparr>"
  "final (onMessage_p0 U point_mode_change v (init_state None))
     = (init_state None)\<lparr>drawingTool := init_tool\<lparr>promptMode := Some ''point''\<rparr>\<rparr>"
  "final (onMessage_p1 U f32 point_mode_change v (init_state None))
     = (init_state None)\<lparr>drawingTool := init_tool\<lparr>promptMode := Some ''point''\<rparr>\<rparr>"
  "final (onMouseDown_ts U (press 0 True) viewer_inside
            ((init_state None)\<lparr>drawingTool := init_tool\<lparr>promptMode := Some ''point''\<rparr>\<rparr>))
     = (press 0 True\<lparr>defaultPrevented := True, propagationStopped := True\<rparr>, state_point_pending)"
  "final (onMouseDown_p0 U (press 0 True) viewer_inside
            ((init_state None)\<lparr>drawingTool := init_tool\<lparr>promptMode := Some ''point''\<rparr>\<rparr>))
     = (press 0 True\<lparr>defaultPrevented := True, propagationStopped := True\<rparr>, state_point_pending)"
  "final (onMouseDown_p1 U (press 0 True) viewer_inside
            ((init_state None)\<lparr>drawingTool := init_tool\<lparr>promptMode := Some ''point''\<rparr>\<rparr>))
     = (press 0 True\<lparr>defaultPrevented := True, propagationStopped := True\<rparr>, state_point_pending)"
  by (simp_all add: onMessage_ts_def onMessage_p0_def onMessage_p1_def point_mode_change_def msg_def
        onMouseDown_ts_def onMouseDown_p0_def onMouseDown_p1_def example_inside example_bounds
        example_panels example_voxelPoints press_button state_point_pending_def init_state_def
        init_tool_def Let_def)

lemma point_click_runs:
  "run_ts U (init_state None) point_click = state_point_pending"
  "run_p0 U (init_state None) point_click = state_point_pending"
  "run_p1 U f32 (init_state None) point_click = state_point_pending"
proof -
  have l: "listeners state_point_pending = 0"
    by (simp add: state_point_pending_def init_state_def)
  have b: "mouseDownBlocker_p1 e v state_point_pending = e" for e v
    by (simp add: mouseDownBlocker_p1_def state_point_pending_def init_state_def)
  show "run_ts U (init_state None) point_click = state_point_pending"
    by (simp add: run_ts_def point_click_def point_press l)
  show "run_p0 U (init_state None) point_click = state_point_pending"
    by (simp add: run_p0_def point_click_def point_press l)
  show "run_p1 U f32 (init_state None) point_click = state_point_pending"
    by (simp add: run_p1_def point_click_def point_press mouseDown_p1_def l)
qed

lemma brush_click_run:
  "run_p1 U f32 (init_state None) brush_click = state_brush_stuck"
proof -
  let ?s1 = "(init_state None)\<lparr>drawingTool := init_tool\<lparr>activeMode := Some ''brush''\<rparr>\<rparr>"
  let ?s2 = "state_brush_stuck\<lparr>strokeData := [], sharedStrokes := 0, listeners := 1\<rparr>"
  have m: "final (onMessage_p1 U f32 (msg ''drawing_mode_change'') viewer_inside (init_state None)) = ?s1"
    by (simp add: onMessage_p1_def msg_def init_state_def init_tool_def Let_def)
  have d: "final (onMouseDown_p1 U (press 0 True) viewer_inside ?s1)
             = (press 0 True\<lparr>defaultPrevented := True, propagationStopped := True\<rparr>, ?s2)"
    by (simp add: onMouseDown_p1_def example_inside example_bounds example_panels
          example_voxelPoints press_button state_brush_stuck_def stroke_example_def
          init_state_def init_tool_def Let_def)
  have l: "listeners ?s2 = Suc 0" by simp
  have c: "currentStroke ?s2 = Some stroke_example" "\<not> eraserReadable ?s2"
    by (simp_all add: state_brush_stuck_def eraserReadable_def init_state_def init_tool_def)
  have u: "final (onUp_p1 ?s2) = state_brush_stuck"
    using onUp_p1_throws[OF c] by (simp add: state_brush_stuck_def init_state_def)
  show ?thesis
    by (simp add: run_p1_def brush_click_def m mouseDown_p1_def d l u del: One_nat_def)
qed

text \<open>
  Claim C3, where the code departs from it. (1) In all three handlers the press of a point
  prompt sets \<open>currentPrompt\<close> and \<open>isCapturing\<close> and returns before the \<open>mousemove\<close> and
  \<open>mouseup\<close> listeners are added, so the release of the click commits nothing: the prompt
  stays in progress, the capture stays active, \<open>promptData\<close> stays empty and no
  \<open>prompt_complete\<close> message is posted. (2) In part_001, with a \<open>DrawingTool\<close> that has no
  \<open>isEraser\<close> property, the release of a brush click appends the stroke to \<open>strokeData\<close> and
  then throws: the current stroke is not cleared, the capture is not ended and no
  \<open>drawing_stroke_complete\<close> message is posted.
\<close>

theorem mouseup_commit_failures:
  "currentPrompt (run_ts units_example (init_state None) point_click)
     = Some (PromptPoint point_example ''positive'')
   \<and> isCapturing (run_ts units_example (init_state None) point_click)
   \<and> promptData (run_ts units_example (init_state None) point_click) = []
   \<and> outbox (run_ts units_example (init_state None) point_click) = []
   \<and> currentPrompt (run_p0 units_example (init_state None) point_click)
     = Some (PromptPoint point_example ''positive'')
   \<and> isCapturing (run_p0 units_example (init_state None) point_click)
   \<and> promptData (run_p0 units_example (init_state None) point_click) = []
   \<and> outbox (run_p0 units_example (init_state None) point_click) = []
   \<and> currentPrompt (run_p1 units_example id (init_state None) point_click)
     = Some (PromptPoint point_example ''positive'')
   \<and> isCapturing (run_p1 units_example id (init_state None) point_click)
   \<and> promptData (run_p1 units_example id (init_state None) point_click) = []
   \<and> outbox (run_p1 units_example id (init_state None) point_click) = []
   \<and> strokeData (run_p1 units_example id (init_state None) brush_click) = [stroke_example]
   \<and> currentStroke (run_p1 units_example id (init_state None) brush_click) = Some stroke_example
   \<and> isCapturing (run_p1 units_example id (init_state None) brush_click)
   \<and> outbox (run_p1 units_example id (init_state None) brush_click) = []"
  by (simp only: point_click_runs brush_click_run)
     (simp add: state_point_pending_def state_brush_stuck_def init_state_def)

subsection \<open>Clearing\<close>

lemma drawLockedRegionIndicator_eq:
  "drawLockedRegionIndicator v bbox s = s\<lparr>canvas := lockIndicator v bbox\<rparr>"
  by (cases bbox) (simp_all add: drawLockedRegionIndicator_def clearCanvas_def lockIndicator_def Let_def)

text \<open>
  Claim C7. Processing a \<open>drawing_clear\<close> message empties \<open>strokeData\<close> and clears the
  overlay canvas, and processing a \<open>prompt_clear\<close> message empties \<open>promptData\<close> and clears
  the overlay canvas; nothing else of the state changes, so the other data list, the active
  mode, the prompt mode, the brush sizes and the stroke colour stay as they are. In
  part_001 the cleared canvas then gets the locked-view indicator redrawn when a view is
  locked; without a locked view it stays empty there too.
\<close>

theorem clear_messages_frame:
  "(m_type m = ''drawing_clear'' \<longrightarrow>
      final (onMessage_ts U m v s) = s\<lparr>canvas := [], strokeData := []\<rparr>
    \<and> final (onMessage_p0 U m v s) = s\<lparr>canvas := [], strokeData := []\<rparr>
    \<and> final (onMessage_p1 U f32 m v s)
        = s\<lparr>canvas := lockIndicator v (lockedBBox s), strokeData := []\<rparr>)
   \<and> (m_type m = ''prompt_clear'' \<longrightarrow>
      final (onMessage_ts U m v s) = s\<lparr>canvas := [], promptData := []\<rparr>
    \<and> final (onMessage_p0 U m v s) = s\<lparr>canvas := [], promptData := []\<rparr>
    \<and> final (onMessage_p1 U f32 m v s)
        = s\<lparr>canvas := lockIndicator v (lockedBBox s), promptData := []\<rparr>)
   \<and> lockIndicator v None = []"
  by (simp add: onMessage_ts_def onMessage_p0_def onMessage_p1_def clearCanvas_def
        drawLockedRegionIndicator_eq lockIndicator_def Let_def)

theorem clear_messages_frame_witness:
  "final (onMessage_ts units_example (msg ''drawing_clear'') viewer_inside
            (state_capturing\<lparr>strokeData := [stroke_example], canvas := [Badge]\<rparr>))
     = state_capturing\<lparr>strokeData := [], canvas := []\<rparr>
   \<and> final (onMessage_p1 units_example id (msg ''prompt_clear'') viewer_inside
            (state_capturing\<lparr>promptData := [PromptPoint point_example ''positive''],
                              canvas := [Badge]\<rparr>))
     = state_capturing\<lparr>promptData := [], canvas := []\<rparr>"
proof -
  have t: "m_type (msg ''drawing_clear'') = ''drawing_clear''"
    "m_type (msg ''prompt_clear'') = ''prompt_clear''"
    by (simp_all add: msg_def)
  have n: "lockedBBox (state_capturing\<lparr>promptData := [PromptPoint point_example ''positive''],
                              canvas := [Badge]\<rparr>) = None"
    by (simp add: state_capturing_def state_brush_def init_state_def)
  from t n
    clear_messages_frame[of "msg ''drawing_clear''" units_example viewer_inside
      "state_capturing\<lparr>strokeData := [stroke_example], canvas := [Badge]\<rparr>" id]
    clear_messages_frame[of "msg ''prompt_clear''" units_example viewer_inside
      "state_capturing\<lparr>promptData := [PromptPoint point_example ''positive''],
                         canvas := [Badge]\<rparr>" id]
  show ?thesis by simp
qed


subsection \<open>Starting a capture\<close>

lemma isInDataBounds_iff:
  "isInDataBounds v \<longleftrightarrow>
     (\<exists>pos b. mousePosition v = Some pos \<and> 3 \<le> length pos
        \<and> Option.bind (coordinateSpace v) bounds = Some b
        \<and> (\<forall>i < 3. isFinite (pos ! i)
               \<and> \<not> js_less (pos ! i) (js_nth (lowerBounds b) i)
               \<and> \<not> js_ge (pos ! i) (js_nth (upperBounds b) i)))"
  by (auto simp: isInDataBounds_def js_nth_def list_all_iff split: option.splits)

lemma sendScaleBarUpdate_shape:
  "(\<exists>err. sendScaleBarUpdate U v s = Thrown err s)
   \<or> (\<exists>l ob. sendScaleBarUpdate U v s = Done (s\<lparr>lastScaleBarLength := l, outbox := ob\<rparr>))"
proof (cases "getScaleBarPhysicalLength U v")
  case (Inl err)
  then show ?thesis by (simp add: sendScaleBarUpdate_def)
next
  case (Inr r)
  have same: "s = s\<lparr>lastScaleBarLength := lastScaleBarLength s, outbox := outbox s\<rparr>" by simp
  show ?thesis
  proof (cases "sendScaleBarUpdate U v s = Done s")
    case True
    with same show ?thesis by metis
  next
    case False
    with Inr obtain x where "sendScaleBarUpdate U v s
        = Done (s\<lparr>lastScaleBarLength := Some x,
                    outbox := outbox s @ [(''scale_bar_update'', ScaleBarLength x)]\<rparr>)"
      by (auto simp: sendScaleBarUpdate_def postMessage_def split: option.splits if_splits)
    then show ?thesis by blast
  qed
qed

lemma sendScaleBarUpdate_cases:
  obtains (throws) err where "sendScaleBarUpdate U v s = Thrown err s"
        | (returns) l ob where "sendScaleBarUpdate U v s = Done (s\<lparr>lastScaleBarLength := l, outbox := ob\<rparr>)"
  using sendScaleBarUpdate_shape[of U v s] by blast

lemma onMouseDown_ts_captures:
  assumes "(truthy_str (activeMode (drawingTool s)) \<or> truthy_str (promptMode (drawingTool s)))
     \<and> button e = 0"
  shows "isCapturing (snd (final (onMouseDown_ts U e v s)))"
proof -
  let ?s1 = "s\<lparr>isCapturing := True, lastScreen := (NaN, NaN),
                drawingTool := (drawingTool s)\<lparr>startX := fst (containerCoords e v),
                   startY := snd (containerCoords e v), isDrawing := True\<rparr>\<rparr>"
  show ?thesis
  proof (cases "calculatePhysicalSizePerVoxel_ts U v")
    case (Inl err)
    with assms show ?thesis by (auto simp add: onMouseDown_ts_def Let_def split: prod.splits)
  next
    case (Inr r)
    show ?thesis
    proof (cases U v ?s1 rule: sendScaleBarUpdate_cases)
      case (throws err)
      with assms Inr show ?thesis by (auto simp add: onMouseDown_ts_def Let_def split: prod.splits)
    next
      case (returns l ob)
      with assms Inr show ?thesis by (auto simp add: onMouseDown_ts_def Let_def split: prod.splits)
    qed
  qed
qed

text \<open>
  Claim C1, as the code has it. In part_000 and part_001, whenever no drawing or prompt
  mode is active, or the pressed button is not the left one, or the target is not inside a
  rendered-data panel, or \<open>isInDataBounds\<close> fails, \<open>onMouseDown\<close> returns with the event
  and the whole state untouched; \<open>isInDataBounds\<close> holds only when the mouse position has
  at least three components and the first three are finite, not below the lower bound and
  below the upper bound. In drawing_tool_handler.ts the handler tests the mode and the
  button only: it returns with event and state untouched when no mode is active or the
  button is not the left one, and otherwise it starts capturing, wherever the target is
  and whatever the mouse position.
\<close>

theorem mousedown_guard:
  "(\<not> ((truthy_str (activeMode (drawingTool s)) \<or> truthy_str (promptMode (drawingTool s)))
        \<and> button e = 0 \<and> isOnDataPanel e \<and> isInDataBounds v)
      \<longrightarrow> onMouseDown_p0 U e v s = Done (e, s) \<and> onMouseDown_p1 U e v s = Done (e, s))
   \<and> (\<not> ((truthy_str (activeMode (drawingTool s)) \<or> truthy_str (promptMode (drawingTool s)))
        \<and> button e = 0)
      \<longrightarrow> onMouseDown_ts U e v s = Done (e, s))
   \<and> ((truthy_str (activeMode (drawingTool s)) \<or> truthy_str (promptMode (drawingTool s)))
        \<and> button e = 0
      \<longrightarrow> isCapturing (snd (final (onMouseDown_ts U e v s))))
   \<and> (isInDataBounds v \<longrightarrow>
        (\<exists>pos b. mousePosition v = Some pos \<and> 3 \<le> length pos
           \<and> Option.bind (coordinateSpace v) bounds = Some b
           \<and> (\<forall>i < 3. isFinite (pos ! i)
                  \<and> \<not> js_less (pos ! i) (js_nth (lowerBounds b) i)
                  \<and> \<not> js_ge (pos ! i) (js_nth (upperBounds b) i))))"
proof (intro conjI impI)
  assume "\<not> ((truthy_str (activeMode (drawingTool s)) \<or> truthy_str (promptMode (drawingTool s)))
        \<and> button e = 0 \<and> isOnDataPanel e \<and> isInDataBounds v)"
  then show "onMouseDown_p0 U e v s = Done (e, s)" "onMouseDown_p1 U e v s = Done (e, s)"
    by (auto simp: onMouseDown_p0_def onMouseDown_p1_def Let_def)
next
  assume "\<not> ((truthy_str (activeMode (drawingTool s)) \<or> truthy_str (promptMode (drawingTool s)))
        \<and> button e = 0)"
  then show "onMouseDown_ts U e v s = Done (e, s)"
    by (auto simp: onMouseDown_ts_def Let_def)
next
  assume "(truthy_str (activeMode (drawingTool s)) \<or> truthy_str (promptMode (drawingTool s)))
        \<and> button e = 0"
  then show "isCapturing (snd (final (onMouseDown_ts U e v s)))"
    by (rule onMouseDown_ts_captures)
next
  assume "isInDataBounds v"
  then show "\<exists>pos b. mousePosition v = Some pos \<and> 3 \<le> length pos
           \<and> Option.bind (coordinateSpace v) bounds = Some b
           \<and> (\<forall>i < 3. isFinite (pos ! i)
                  \<and> \<not> js_less (pos ! i) (js_nth (lowerBounds b) i)
                  \<and> \<not> js_ge (pos ! i) (js_nth (upperBounds b) i))"
    by (simp add: isInDataBounds_iff)
qed

lemma state_brush_mode:
  "truthy_str (activeMode (drawingTool state_brush))" "\<not> isCapturing state_brush"
  "currentStroke state_brush = None" "lockedBBox state_locked \<noteq> None"
  "truthy_str (activeMode (drawingTool state_locked))"
  by (simp_all add: state_brush_def state_locked_def init_state_def init_tool_def)

theorem mousedown_guard_witness:
  "onMouseDown_p0 units_example (press 0 False) viewer_inside state_brush
     = Done (press 0 False, state_brush)
   \<and> onMouseDown_p1 units_example (press 0 True) viewer_outside state_brush
     = Done (press 0 True, state_brush)
   \<and> onMouseDown_ts units_example (press 2 True) viewer_inside state_brush
     = Done (press 2 True, state_brush)
   \<and> isCapturing (snd (final (onMouseDown_ts units_example (press 0 True) viewer_inside state_brush)))"
proof -
  from mousedown_guard[of state_brush "press 0 False" viewer_inside units_example]
  have a: "onMouseDown_p0 units_example (press 0 False) viewer_inside state_brush
     = Done (press 0 False, state_brush)"
    by (simp add: example_panels)
  from mousedown_guard[of state_brush "press 0 True" viewer_outside units_example]
  have b: "onMouseDown_p1 units_example (press 0 True) viewer_outside state_brush
     = Done (press 0 True, state_brush)"
    by (simp add: example_bounds)
  from mousedown_guard[of state_brush "press 2 True" viewer_inside units_example]
  have c: "onMouseDown_ts units_example (press 2 True) viewer_inside state_brush
     = Done (press 2 True, state_brush)"
    by (simp add: press_button)
  from mousedown_guard[of state_brush "press 0 True" viewer_inside units_example]
  have d: "isCapturing (snd (final (onMouseDown_ts units_example (press 0 True) viewer_inside state_brush)))"
    by (simp add: press_button state_brush_mode)
  from a b c d show ?thesis by simp
qed

text \<open>
  Claim C1 as stated fails on drawing_tool_handler.ts: with the brush active, a left press
  whose target is outside every data panel, while the viewer has no mouse position, starts
  a capture and a stroke.
\<close>

theorem mousedown_guard_counterexample:
  "\<not> isOnDataPanel (press 0 False) \<and> \<not> isInDataBounds viewer_nowhere
   \<and> \<not> isCapturing state_brush \<and> currentStroke state_brush = None
   \<and> isCapturing (step_ts units_example state_brush (MouseDown (press 0 False) viewer_nowhere))
   \<and> currentStroke (step_ts units_example state_brush (MouseDown (press 0 False) viewer_nowhere))
       = Some \<lparr>mode = ''brush'', color = ''#ff0000'', physicalSize = Fin 8, voxelSizes = None,
               timestamp = ''2024-01-01T00:00:00.000Z'', points = []\<rparr>"
  by (simp add: viewer_nowhere_def example_nowhere example_coords example_sizes example_panels
        onMouseDown_ts_def nanPoint_def Let_def state_brush_def init_state_def init_tool_def
        press_button)

subsection \<open>The navigation lock\<close>

lemma mouseDownBlocker_p1_cases:
  "lockedBBox s = None \<Longrightarrow> mouseDownBlocker_p1 e v s = e"
  "\<not> isOnSliceViewPanel e v \<Longrightarrow> mouseDownBlocker_p1 e v s = e"
  "lockedBBox s \<noteq> None \<Longrightarrow> isOnSliceViewPanel e v \<Longrightarrow>
   \<not> truthy_str (activeMode (drawingTool s)) \<Longrightarrow> \<not> truthy_str (promptMode (drawingTool s)) \<Longrightarrow>
   mouseDownBlocker_p1 e v s = e\<lparr>defaultPrevented := True, propagationStopped := True\<rparr>"
  "lockedBBox s \<noteq> None \<Longrightarrow> isOnSliceViewPanel e v \<Longrightarrow> button e = 1 \<or> button e = 2 \<Longrightarrow>
   mouseDownBlocker_p1 e v s = e\<lparr>defaultPrevented := True, propagationStopped := True\<rparr>"
  "truthy_str (activeMode (drawingTool s)) \<or> truthy_str (promptMode (drawingTool s)) \<Longrightarrow>
   button e = 0 \<Longrightarrow> mouseDownBlocker_p1 e v s = e"
  by (auto simp: mouseDownBlocker_p1_def)

text \<open>
  Claim C4, where the code departs from it. While a bounding box is locked and a drawing
  or prompt mode is active, a left press on a slice-view panel with the mouse outside the
  data bounds passes both \<open>mousedown\<close> listeners of the container untouched: the blocker
  leaves left presses to the drawing handler, and the drawing handler returns before it
  prevents the default or stops the propagation. The event and the state are unchanged,
  so the press goes on to the viewer's own handling.
\<close>

theorem locked_left_press_not_blocked:
  "lockedBBox s \<noteq> None \<and> isOnSliceViewPanel e v
   \<and> (truthy_str (activeMode (drawingTool s)) \<or> truthy_str (promptMode (drawingTool s)))
   \<and> button e = 0 \<and> \<not> isInDataBounds v
   \<longrightarrow> mouseDown_p1 U e v s = (e, s)"
  by (auto simp: mouseDown_p1_def onMouseDown_p1_def mouseDownBlocker_p1_def Let_def)

theorem locked_left_press_not_blocked_witness:
  "lockedBBox state_locked = Some bbox_example
   \<and> isOnSliceViewPanel (press 0 True) viewer_outside
   \<and> activeMode (drawingTool state_locked) = Some ''brush''
   \<and> \<not> isInDataBounds viewer_outside
   \<and> mouseDown_p1 units_example (press 0 True) viewer_outside state_locked
       = (press 0 True, state_locked)
   \<and> \<not> defaultPrevented (fst (mouseDown_p1 units_example (press 0 True) viewer_outside state_locked))
   \<and> \<not> propagationStopped (fst (mouseDown_p1 units_example (press 0 True) viewer_outside state_locked))"
proof -
  have h: "lockedBBox state_locked = Some bbox_example"
    "activeMode (drawingTool state_locked) = Some ''brush''"
    "isOnSliceViewPanel (press 0 True) viewer_outside"
    by (simp_all add: state_locked_def state_brush_def init_state_def init_tool_def
          example_panels viewer_outside_def)
  from h locked_left_press_not_blocked[of state_locked "press 0 True" viewer_outside units_example]
  have r: "mouseDown_p1 units_example (press 0 True) viewer_outside state_locked
       = (press 0 True, state_locked)"
    by (simp add: example_bounds press_button)
  from h r show ?thesis by (simp add: example_bounds press_def)
qed


subsection \<open>What the handlers leave alone\<close>

lemma settings_kept_refl: "settings_kept s s"
  by (simp add: settings_kept_def)

lemma settings_kept_funpow:
  assumes "\<And>s. settings_kept s (f s)"
  shows "settings_kept s ((f ^^ n) s)"
proof (induction n)
  case 0
  show ?case by (simp add: settings_kept_refl)
next
  case (Suc n)
  from Suc assms[of "(f ^^ n) s"] show ?case by (simp add: settings_kept_def)
qed

lemma onMouseDown_p1_settings: "settings_kept s (snd (final (onMouseDown_p1 U e v s)))"
proof (cases "(\<not> truthy_str (activeMode (drawingTool s)) \<and> \<not> truthy_str (promptMode (drawingTool s)))
     \<or> button e \<noteq> 0 \<or> \<not> isOnDataPanel e \<or> \<not> isInDataBounds v")
  case True
  then show ?thesis by (auto simp: onMouseDown_p1_def Let_def settings_kept_def)
next
  case guard: False
  let ?s1 = "s\<lparr>isCapturing := True, lastScreen := (NaN, NaN),
                drawingTool := (drawingTool s)\<lparr>startX := fst (containerCoords e v),
                   startY := snd (containerCoords e v), isDrawing := True\<rparr>\<rparr>"
  show ?thesis
  proof (cases "calculatePhysicalSizePerVoxel_p1 U v")
    case (Inl err)
    with guard show ?thesis
      by (auto simp add: onMouseDown_p1_def Let_def settings_kept_def split: prod.splits)
  next
    case (Inr r)
    show ?thesis
    proof (cases U v ?s1 rule: sendScaleBarUpdate_cases)
      case (throws err)
      with guard Inr show ?thesis
        by (auto simp add: onMouseDown_p1_def Let_def settings_kept_def split: prod.splits)
    next
      case (returns l ob)
      with guard Inr show ?thesis
        by (auto simp add: onMouseDown_p1_def Let_def settings_kept_def postMessage_def
                 split: prod.splits option.splits)
    qed
  qed
qed

lemma onMouseDown_p0_settings: "settings_kept s (snd (final (onMouseDown_p0 U e v s)))"
proof (cases "(\<not> truthy_str (activeMode (drawingTool s)) \<and> \<not> truthy_str (promptMode (drawingTool s)))
     \<or> button e \<noteq> 0 \<or> \<not> isOnDataPanel e \<or> \<not> isInDataBounds v")
  case True
  then show ?thesis by (auto simp: onMouseDown_p0_def Let_def settings_kept_def)
next
  case guard: False
  let ?s1 = "s\<lparr>isCapturing := True, lastScreen := (NaN, NaN),
                drawingTool := (drawingTool s)\<lparr>startX := fst (containerCoords e v),
                   startY := snd (containerCoords e v), isDrawing := True\<rparr>\<rparr>"
  show ?thesis
  proof (cases "calculatePhysicalSizePerVoxel_p1 U v")
    case (Inl err)
    with guard show ?thesis
      by (auto simp add: onMouseDown_p0_def Let_def settings_kept_def split: prod.splits)
  next
    case (Inr r)
    show ?thesis
    proof (cases U v ?s1 rule: sendScaleBarUpdate_cases)
      case (throws err)
      with guard Inr show ?thesis
        by (auto simp add: onMouseDown_p0_def Let_def settings_kept_def split: prod.splits)
    next
      case (returns l ob)
      with guard Inr show ?thesis
        by (auto simp add: onMouseDown_p0_def Let_def settings_kept_def split: prod.splits)
    qed
  qed
qed

lemma onMouseDown_ts_settings: "settings_kept s (snd (final (onMouseDown_ts U e v s)))"
proof (cases "(\<not> truthy_str (activeMode (drawingTool s)) \<and> \<not> truthy_str (promptMode (drawingTool s)))
     \<or> button e \<noteq> 0")
  case True
  then show ?thesis by (auto simp: onMouseDown_ts_def Let_def settings_kept_def)
next
  case guard: False
  let ?s1 = "s\<lparr>isCapturing := True, lastScreen := (NaN, NaN),
                drawingTool := (drawingTool s)\<lparr>startX := fst (containerCoords e v),
                   startY := snd (containerCoords e v), isDrawing := True\<rparr>\<rparr>"
  show ?thesis
  proof (cases "calculatePhysicalSizePerVoxel_ts U v")
    case (Inl err)
    with guard show ?thesis
      by (auto simp add: onMouseDown_ts_def Let_def settings_kept_def split: prod.splits)
  next
    case (Inr r)
    show ?thesis
    proof (cases U v ?s1 rule: sendScaleBarUpdate_cases)
      case (throws err)
      with guard Inr show ?thesis
        by (auto simp add: onMouseDown_ts_def Let_def settings_kept_def split: prod.splits)
    next
      case (returns l ob)
      with guard Inr show ?thesis
        by (auto simp add: onMouseDown_ts_def Let_def settings_kept_def split: prod.splits)
    qed
  qed
qed

lemma onMove_settings:
  "settings_kept s (onMove_ts e v s)" "settings_kept s (onMove_p0 e v s)"
  "settings_kept s (onMove_p1 e v s)"
  by (auto simp: onMove_ts_def onMove_p0_def onMove_p1_def enqueueDraw_def Let_def settings_kept_def
           split: option.splits Prompt.splits prod.splits)

lemma onUp_settings:
  "settings_kept s (onUp_ts s)" "settings_kept s (onUp_p0 s)"
  "settings_kept s ((final \<circ> onUp_p1) s)"
  by (auto simp: onUp_ts_def onUp_p0_def commitStroke_p0_def onUp_p1_def commitStroke_p1_def
        finishCapture_def postMessage_def sendAnnotationStateUpdate_def Let_def settings_kept_def
        split: option.splits)

lemma keyDown_settings:
  "settings_kept s (snd (onKeyDown_p0 e s))" "settings_kept s (snd (keyDown_p1 e s))"
  by (auto simp: onKeyDown_p0_def keyDown_p1_def onKeyDown_p1_def postMessage_def Let_def
        settings_kept_def split: prod.splits)

lemma drawStep_settings:
  "settings_kept s (final (drawStep_ts U v s))" "settings_kept s (final (drawStep_p1 U v s))"
  by (auto simp: drawStep_ts_def drawStep_p1_def Let_def settings_kept_def getPixelSize_p1_def
           split: prod.splits sum.splits)

lemma snapshotLoaded_settings:
  "settings_kept s (snapshotLoaded_p0 s)" "settings_kept s (snapshotLoaded_p1 v s)"
  by (simp_all add: snapshotLoaded_p0_def snapshotLoaded_p1_def drawLockedRegionIndicator_eq
        clearCanvas_def postMessage_def Let_def settings_kept_def)

lemmas message_defs =
  Let_def drawLockedRegionIndicator_eq clearCanvas_def postMessage_def
  sendAnnotationStateUpdate_def activatePluginBindings_def deactivatePluginBindings_def

lemma onMessage_modes:
  assumes "modes_exclusive s"
  shows "modes_exclusive (final (onMessage_ts U m v s))"
    and "modes_exclusive (final (onMessage_p0 U m v s))"
    and "modes_exclusive (final (onMessage_p1 U f32 m v s))"
  using assms
  by (auto simp: onMessage_ts_def onMessage_p0_def onMessage_p1_def modes_exclusive_def
        message_defs split: sum.splits option.splits)

lemma onMessage_mode_change:
  "m_type m = ''drawing_mode_change'' \<Longrightarrow>
     drawingTool (final (onMessage_ts U m v s))
       = (drawingTool s)\<lparr>activeMode := m_mode m, promptMode := None\<rparr>
     \<and> drawingTool (final (onMessage_p0 U m v s))
       = (drawingTool s)\<lparr>activeMode := m_mode m, promptMode := None\<rparr>
     \<and> drawingTool (final (onMessage_p1 U f32 m v s))
       = (drawingTool s)\<lparr>activeMode := m_mode m, promptMode := None\<rparr>"
  "m_type m = ''prompt_mode_change'' \<Longrightarrow>
     drawingTool (final (onMessage_ts U m v s))
       = (drawingTool s)\<lparr>promptMode := m_mode m, promptPolarity := m_polarity m, activeMode := None\<rparr>
     \<and> drawingTool (final (onMessage_p0 U m v s))
       = (drawingTool s)\<lparr>promptMode := m_mode m, promptPolarity := m_polarity m, activeMode := None\<rparr>
     \<and> drawingTool (final (onMessage_p1 U f32 m v s))
       = (drawingTool s)\<lparr>promptMode := m_mode m, promptPolarity := m_polarity m, activeMode := None\<rparr>"
  by (simp_all add: onMessage_ts_def onMessage_p0_def onMessage_p1_def Let_def)

lemma onMessage_p1_locks:
  "m_type m \<notin> {''view_locked'', ''view_unlocked''}
   \<Longrightarrow> lockedBBox (final (onMessage_p1 U f32 m v s)) = lockedBBox s
     \<and> lockedPosition (final (onMessage_p1 U f32 m v s)) = lockedPosition s
     \<and> lockedZoomFactor (final (onMessage_p1 U f32 m v s)) = lockedZoomFactor s"
  by (auto simp: onMessage_p1_def message_defs split: sum.splits option.splits)

lemma onMessage_p1_unlocked:
  "m_type m \<noteq> ''view_locked'' \<Longrightarrow> lockedPosition s = None \<Longrightarrow> lockedZoomFactor s = None
   \<Longrightarrow> lockedPosition (final (onMessage_p1 U f32 m v s)) = None
     \<and> lockedZoomFactor (final (onMessage_p1 U f32 m v s)) = None"
  by (auto simp: onMessage_p1_def message_defs split: sum.splits option.splits)

lemma step_p1_settings:
  assumes "case ev of Message m v \<Rightarrow> False | _ \<Rightarrow> True"
  shows "settings_kept s (step_p1 U f32 s ev)"
proof (cases ev)
  case (MouseDown e v)
  then show ?thesis
    using onMouseDown_p1_settings[where s=s and U=U and e=e and v=v]
    by (auto simp add: mouseDown_p1_def split: prod.splits)
next
  case (MouseMove e v)
  then show ?thesis using settings_kept_funpow[of "onMove_p1 e v", OF onMove_settings(3)] by simp
next
  case MouseUp
  then show ?thesis
    using settings_kept_funpow[of "final \<circ> onUp_p1", OF onUp_settings(3)] by simp
next
  case (KeyDown e)
  then show ?thesis using keyDown_settings(2) by simp
next
  case (Message m v)
  with assms show ?thesis by simp
next
  case (AnimationFrame v)
  then show ?thesis using drawStep_settings(2) by (simp add: settings_kept_refl)
next
  case (SnapshotLoaded v)
  then show ?thesis using snapshotLoaded_settings(2) by simp
next
  case (Navigate n)
  then show ?thesis by (simp add: settings_kept_def)
qed

lemma step_p0_settings:
  assumes "case ev of Message m v \<Rightarrow> False | _ \<Rightarrow> True"
  shows "settings_kept s (step_p0 U s ev)"
proof (cases ev)
  case (MouseDown e v)
  then show ?thesis using onMouseDown_p0_settings[where s=s and U=U and e=e and v=v] by simp
next
  case (MouseMove e v)
  then show ?thesis using settings_kept_funpow[of "onMove_p0 e v", OF onMove_settings(2)] by simp
next
  case MouseUp
  then show ?thesis using settings_kept_funpow[of onUp_p0, OF onUp_settings(2)] by simp
next
  case (KeyDown e)
  then show ?thesis using keyDown_settings(1) by simp
next
  case (Message m v)
  with assms show ?thesis by simp
next
  case (AnimationFrame v)
  then show ?thesis using drawStep_settings(2) by (simp add: settings_kept_refl)
next
  case (SnapshotLoaded v)
  then show ?thesis using snapshotLoaded_settings(1) by simp
next
  case (Navigate n)
  then show ?thesis by (simp add: settings_kept_def)
qed

lemma step_ts_settings:
  assumes "case ev of Message m v \<Rightarrow> False | _ \<Rightarrow> True"
  shows "settings_kept s (step_ts U s ev)"
proof (cases ev)
  case (MouseDown e v)
  then show ?thesis using onMouseDown_ts_settings[where s=s and U=U and e=e and v=v] by simp
next
  case (MouseMove e v)
  then show ?thesis using settings_kept_funpow[of "onMove_ts e v", OF onMove_settings(1)] by simp
next
  case MouseUp
  then show ?thesis using settings_kept_funpow[of onUp_ts, OF onUp_settings(1)] by simp
next
  case (KeyDown e)
  then show ?thesis by (simp add: settings_kept_refl)
next
  case (Message m v)
  with assms show ?thesis by simp
next
  case (AnimationFrame v)
  then show ?thesis using drawStep_settings(1) by (simp add: settings_kept_refl)
next
  case (SnapshotLoaded v)
  then show ?thesis using snapshotLoaded_settings(1) by simp
next
  case (Navigate n)
  then show ?thesis by (simp add: settings_kept_def)
qed

lemma step_modes:
  assumes "modes_exclusive s"
  shows "modes_exclusive (step_ts U s ev)"
    and "modes_exclusive (step_p0 U s ev)"
    and "modes_exclusive (step_p1 U f32 s ev)"
proof -
  show "modes_exclusive (step_ts U s ev)"
  proof (cases ev)
    case (Message m v)
    then show ?thesis using onMessage_modes(1)[OF assms] by simp
  qed (insert assms step_ts_settings[where ev=ev and s=s and U=U],
       auto simp: settings_kept_def modes_exclusive_def simp del: step_ts.simps)
  show "modes_exclusive (step_p0 U s ev)"
  proof (cases ev)
    case (Message m v)
    then show ?thesis using onMessage_modes(2)[OF assms] by simp
  qed (insert assms step_p0_settings[where ev=ev and s=s and U=U],
       auto simp: settings_kept_def modes_exclusive_def simp del: step_p0.simps)
  show "modes_exclusive (step_p1 U f32 s ev)"
  proof (cases ev)
    case (Message m v)
    then show ?thesis using onMessage_modes(3)[OF assms] by simp
  qed (insert assms step_p1_settings[where ev=ev and s=s and U=U and ?f32.0=f32],
       auto simp: settings_kept_def modes_exclusive_def simp del: step_p1.simps)
qed

lemma run_modes:
  "modes_exclusive s \<Longrightarrow> modes_exclusive (run_ts U s es)"
  "modes_exclusive s \<Longrightarrow> modes_exclusive (run_p0 U s es)"
  "modes_exclusive s \<Longrightarrow> modes_exclusive (run_p1 U f32 s es)"
  unfolding run_ts_def run_p0_def run_p1_def
  by (induction es arbitrary: s)
     (simp_all add: step_modes del: step_ts.simps step_p0.simps step_p1.simps)

subsection \<open>Mode mutual exclusion\<close>

text \<open>
  Claim C9. In each of the three handlers, a \<open>drawing_mode_change\<close> message sets
  \<open>activeMode\<close> to the mode it carries and \<open>promptMode\<close> to \<open>null\<close>, and a
  \<open>prompt_mode_change\<close> message sets \<open>promptMode\<close> to the mode it carries and \<open>activeMode\<close> to
  \<open>null\<close>. Starting from the initial state, in which both are \<open>null\<close>, at most one of the
  two is not \<open>null\<close> after every sequence of events, messages from the parent among them.
\<close>

theorem mode_mutual_exclusion:
  "(m_type m = ''drawing_mode_change'' \<longrightarrow>
      (\<forall>s' \<in> {final (onMessage_ts U m v s), final (onMessage_p0 U m v s),
                final (onMessage_p1 U f32 m v s)}.
         promptMode (drawingTool s') = None \<and> activeMode (drawingTool s') = m_mode m))
   \<and> (m_type m = ''prompt_mode_change'' \<longrightarrow>
      (\<forall>s' \<in> {final (onMessage_ts U m v s), final (onMessage_p0 U m v s),
                final (onMessage_p1 U f32 m v s)}.
         activeMode (drawingTool s') = None \<and> promptMode (drawingTool s') = m_mode m))
   \<and> activeMode (drawingTool (init_state nav)) = None
   \<and> promptMode (drawingTool (init_state nav)) = None
   \<and> modes_exclusive (run_ts U (init_state nav) es)
   \<and> modes_exclusive (run_p0 U (init_state nav) es)
   \<and> modes_exclusive (run_p1 U f32 (init_state nav) es)"
proof -
  have i: "modes_exclusive (init_state nav)"
    by (simp add: modes_exclusive_def init_state_def init_tool_def)
  show ?thesis
    using run_modes[OF i] onMessage_mode_change[of m U v s f32]
    by (simp add: init_state_def init_tool_def)
qed

theorem mode_mutual_exclusion_witness:
  "promptMode (drawingTool (final (onMessage_p1 units_example id (msg ''drawing_mode_change'')
       viewer_inside state_brush))) = None
   \<and> activeMode (drawingTool (final (onMessage_ts units_example (msg ''prompt_mode_change'')
       viewer_inside state_brush))) = None
   \<and> modes_exclusive
       (run_p1 units_example id (init_state None)
          [Message (msg ''drawing_mode_change'') viewer_inside,
           Message (msg ''prompt_mode_change'') viewer_inside])"
proof -
  have t: "m_type (msg t) = t" for t by (simp add: msg_def)
  from mode_mutual_exclusion[of "msg ''drawing_mode_change''" units_example viewer_inside
      state_brush id None "[Message (msg ''drawing_mode_change'') viewer_inside,
           Message (msg ''prompt_mode_change'') viewer_inside]"]
    mode_mutual_exclusion[of "msg ''prompt_mode_change''" units_example viewer_inside
      state_brush id None "[]"]
  show ?thesis by (simp add: t)
qed


subsection \<open>The locked view\<close>

lemma step_p1_locks:
  assumes "case ev of Message m v \<Rightarrow> m_type m \<notin> {''view_locked'', ''view_unlocked''} | _ \<Rightarrow> True"
  shows "lockedBBox (step_p1 U f32 s ev) = lockedBBox s
     \<and> lockedPosition (step_p1 U f32 s ev) = lockedPosition s
     \<and> lockedZoomFactor (step_p1 U f32 s ev) = lockedZoomFactor s"
proof (cases ev)
  case (Message m v)
  with assms show ?thesis
    using onMessage_p1_locks[where m=m and s=s and U=U and ?f32.0=f32 and v=v] by simp
qed (insert step_p1_settings[where ev=ev and s=s and U=U and ?f32.0=f32],
     auto simp: settings_kept_def simp del: step_p1.simps)

lemma step_p1_unlocked:
  assumes "case ev of Message m v \<Rightarrow> m_type m \<noteq> ''view_locked'' | _ \<Rightarrow> True"
      and "lockedPosition s = None \<and> lockedZoomFactor s = None"
  shows "lockedPosition (step_p1 U f32 s ev) = None \<and> lockedZoomFactor (step_p1 U f32 s ev) = None"
proof (cases ev)
  case (Message m v)
  with assms show ?thesis
    using onMessage_p1_unlocked[where m=m and s=s and U=U and ?f32.0=f32 and v=v] by simp
qed (insert assms(2) step_p1_settings[where ev=ev and s=s and U=U and ?f32.0=f32],
     auto simp: settings_kept_def simp del: step_p1.simps)

lemma run_p1_locks:
  "no_message_of [''view_locked'', ''view_unlocked''] es
   \<Longrightarrow> lockedBBox (run_p1 U f32 s es) = lockedBBox s
     \<and> lockedPosition (run_p1 U f32 s es) = lockedPosition s
     \<and> lockedZoomFactor (run_p1 U f32 s es) = lockedZoomFactor s"
  unfolding run_p1_def no_message_of_def
proof (induction es arbitrary: s)
  case Nil
  show ?case by simp
next
  case (Cons ev es)
  from Cons.prems have a: "case ev of Message m v \<Rightarrow> m_type m \<notin> {''view_locked'', ''view_unlocked''}
      | _ \<Rightarrow> True"
    by (simp split: event.splits)
  from Cons.prems have "list_all (\<lambda>ev. case ev of
        Message m v \<Rightarrow> m_type m \<notin> set [''view_locked'', ''view_unlocked''] | _ \<Rightarrow> True) es"
    by simp
  from Cons.IH[OF this, where s="step_p1 U f32 s ev"]
    step_p1_locks[OF a, where U=U and ?f32.0=f32 and s=s]
  show ?case by (simp del: step_p1.simps)
qed

lemma run_p1_unlocked:
  "no_message_of [''view_locked''] es
   \<Longrightarrow> lockedPosition s = None \<and> lockedZoomFactor s = None
   \<Longrightarrow> lockedPosition (run_p1 U f32 s es) = None \<and> lockedZoomFactor (run_p1 U f32 s es) = None"
  unfolding run_p1_def no_message_of_def
proof (induction es arbitrary: s)
  case Nil
  then show ?case by simp
next
  case (Cons ev es)
  from Cons.prems(1) have a: "case ev of Message m v \<Rightarrow> m_type m \<noteq> ''view_locked'' | _ \<Rightarrow> True"
    by (simp split: event.splits)
  from Cons.prems(1) have b: "list_all (\<lambda>ev. case ev of
        Message m v \<Rightarrow> m_type m \<notin> set [''view_locked''] | _ \<Rightarrow> True) es"
    by simp
  from Cons.IH[OF b step_p1_unlocked[OF a Cons.prems(2)]]
  show ?case by (simp del: step_p1.simps)
qed

lemma view_locked_captures:
  assumes "m_type m = ''view_locked''"
      and "navigationState s = Some nav" and "position nav = Some (Some pos)"
      and "zoomFactor nav = Some Z" and "Z \<noteq> Undefined"
  shows "lockedPosition (final (onMessage_p1 U f32 m v s)) = Some (map f32 pos)
       \<and> lockedZoomFactor (final (onMessage_p1 U f32 m v s)) = Some Z
       \<and> lockedBBox (final (onMessage_p1 U f32 m v s)) = m_bbox m"
  using assms
  by (simp add: onMessage_p1_def Let_def drawLockedRegionIndicator_eq nullish_or_def)

lemma reset_restores:
  assumes "m_type m = ''reset_to_locked_view''"
      and "lockedPosition s = Some P" and "lockedZoomFactor s = Some Z"
      and "navigationState s = Some nav" and "position nav \<noteq> None" and "zoomFactor nav \<noteq> None"
  shows "final (onMessage_p1 U f32 m v s)
           = s\<lparr>navigationState := Some (nav\<lparr>position := Some (Some (map f32 P)), zoomFactor := Some Z\<rparr>)\<rparr>"
  using assms
  by (auto simp add: onMessage_p1_def Let_def)

lemma reset_unlocked:
  assumes "m_type m = ''reset_to_locked_view''"
      and "lockedPosition s = None" and "lockedZoomFactor s = None"
  shows "final (onMessage_p1 U f32 m v s) = s"
  using assms
  by (auto simp add: onMessage_p1_def Let_def)

lemma view_unlocked_clears:
  assumes "m_type m = ''view_unlocked''"
  shows "final (onMessage_p1 U f32 m v s)
           = s\<lparr>lockedBBox := None, lockedPosition := None, lockedZoomFactor := None, canvas := []\<rparr>"
  using assms
  by (simp add: onMessage_p1_def Let_def clearCanvas_def)

text \<open>
  Claim C6 (part_001, the only file with a locked view). Let \<open>f32\<close> be the rounding of
  \<open>new Float32Array(...)\<close>; rounding a rounded number changes nothing. If a \<open>view_locked\<close>
  message is processed while the navigation state has a position value \<open>pos\<close> and a
  defined zoom factor \<open>Z\<close>, it captures \<open>P = map f32 pos\<close> (the Float32Array copy, which is
  \<open>pos\<close> itself when \<open>pos\<close> already holds 32-bit floats) and \<open>Z\<close>. After any events that
  contain no \<open>view_locked\<close> and no \<open>view_unlocked\<close> message, whatever they do to the
  navigation state, a \<open>reset_to_locked_view\<close> message sets the position of the navigation
  state to exactly \<open>P\<close> and its zoom factor to exactly \<open>Z\<close>, provided the navigation state
  still has its position and zoom factor objects. A \<open>view_unlocked\<close> message clears the
  stored bounding box, position and zoom factor; after it, and after any events without a
  \<open>view_locked\<close> message, \<open>reset_to_locked_view\<close> changes nothing at all.
\<close>

theorem locked_view_round_trip:
  assumes idem: "\<forall>x. f32 (f32 x) = f32 x"
      and types: "m_type lock = ''view_locked''" "m_type reset = ''reset_to_locked_view''"
                 "m_type unlock = ''view_unlocked''"
  shows "(navigationState s = Some nav \<and> position nav = Some (Some pos)
            \<and> zoomFactor nav = Some Z \<and> Z \<noteq> Undefined
            \<and> no_message_of [''view_locked'', ''view_unlocked''] es
            \<and> navigationState (run_p1 U f32 (final (onMessage_p1 U f32 lock v s)) es) = Some nav'
            \<and> position nav' \<noteq> None \<and> zoomFactor nav' \<noteq> None
          \<longrightarrow> lockedPosition (final (onMessage_p1 U f32 lock v s)) = Some (map f32 pos)
            \<and> lockedZoomFactor (final (onMessage_p1 U f32 lock v s)) = Some Z
            \<and> navigationState
                 (final (onMessage_p1 U f32 reset v'
                           (run_p1 U f32 (final (onMessage_p1 U f32 lock v s)) es)))
               = Some (nav'\<lparr>position := Some (Some (map f32 pos)), zoomFactor := Some Z\<rparr>))
       \<and> lockedBBox (final (onMessage_p1 U f32 unlock v s)) = None
       \<and> lockedPosition (final (onMessage_p1 U f32 unlock v s)) = None
       \<and> lockedZoomFactor (final (onMessage_p1 U f32 unlock v s)) = None
       \<and> (no_message_of [''view_locked''] es'
          \<longrightarrow> final (onMessage_p1 U f32 reset v'
                        (run_p1 U f32 (final (onMessage_p1 U f32 unlock v s)) es'))
              = run_p1 U f32 (final (onMessage_p1 U f32 unlock v s)) es')"
proof (intro conjI impI)
  let ?s1 = "final (onMessage_p1 U f32 lock v s)"
  assume a: "navigationState s = Some nav \<and> position nav = Some (Some pos)
            \<and> zoomFactor nav = Some Z \<and> Z \<noteq> Undefined
            \<and> no_message_of [''view_locked'', ''view_unlocked''] es
            \<and> navigationState (run_p1 U f32 ?s1 es) = Some nav'
            \<and> position nav' \<noteq> None \<and> zoomFactor nav' \<noteq> None"
  then have cap: "lockedPosition ?s1 = Some (map f32 pos) \<and> lockedZoomFactor ?s1 = Some Z"
    using view_locked_captures[OF types(1), where s=s and nav=nav and pos=pos and Z=Z
        and U=U and ?f32.0=f32 and v=v]
    by simp
  then show "lockedPosition ?s1 = Some (map f32 pos)" "lockedZoomFactor ?s1 = Some Z" by simp_all
  from a cap have kept: "lockedPosition (run_p1 U f32 ?s1 es) = Some (map f32 pos)"
      "lockedZoomFactor (run_p1 U f32 ?s1 es) = Some Z"
    using run_p1_locks[where es=es and U=U and ?f32.0=f32 and s="?s1"] by simp_all
  have "map f32 (map f32 pos) = map f32 pos" using idem by simp
  with a show "navigationState (final (onMessage_p1 U f32 reset v' (run_p1 U f32 ?s1 es)))
               = Some (nav'\<lparr>position := Some (Some (map f32 pos)), zoomFactor := Some Z\<rparr>)"
    using reset_restores[OF types(2) kept, where nav=nav' and U=U and v=v'] by simp
next
  show "lockedBBox (final (onMessage_p1 U f32 unlock v s)) = None"
       "lockedPosition (final (onMessage_p1 U f32 unlock v s)) = None"
       "lockedZoomFactor (final (onMessage_p1 U f32 unlock v s)) = None"
    by (simp_all add: view_unlocked_clears[OF types(3)])
next
  let ?s1 = "final (onMessage_p1 U f32 unlock v s)"
  assume "no_message_of [''view_locked''] es'"
  then have "lockedPosition (run_p1 U f32 ?s1 es') = None \<and> lockedZoomFactor (run_p1 U f32 ?s1 es') = None"
    by (rule run_p1_unlocked) (simp add: view_unlocked_clears[OF types(3)])
  then show "final (onMessage_p1 U f32 reset v' (run_p1 U f32 ?s1 es')) = run_p1 U f32 ?s1 es'"
    using reset_unlocked[OF types(2)] by simp
qed

lemma msg_type: "m_type (msg t) = t"
  by (simp add: msg_def)

lemma example_run_navigate:
  "navigationState (run_p1 U f32 s [Navigate n]) = n"
  "no_message_of ts [Navigate n]"
  by (simp_all add: run_p1_def no_message_of_def)

theorem locked_view_round_trip_witness:
  "navigationState
     (final (onMessage_p1 units_example id (msg ''reset_to_locked_view'') viewer_inside
        (run_p1 units_example id
           (final (onMessage_p1 units_example id (msg ''view_locked'') viewer_inside state_brush))
           [Navigate (Some nav_moved)])))
   = Some nav_example
   \<and> lockedPosition (final (onMessage_p1 units_example id (msg ''view_locked'') viewer_inside
        state_brush)) = Some [Fin 1, Fin 2, Fin 3]
   \<and> final (onMessage_p1 units_example id (msg ''reset_to_locked_view'') viewer_inside
        (run_p1 units_example id
           (final (onMessage_p1 units_example id (msg ''view_unlocked'') viewer_inside state_locked))
           [Navigate (Some nav_moved)]))
     = run_p1 units_example id
           (final (onMessage_p1 units_example id (msg ''view_unlocked'') viewer_inside state_locked))
           [Navigate (Some nav_moved)]"
proof -
  have idem: "\<forall>x::jsnum. id (id x) = id x" by simp
  have n: "navigationState state_brush = Some nav_example"
    "position nav_example = Some (Some [Fin 1, Fin 2, Fin 3])"
    "zoomFactor nav_example = Some (Fin 4)" "Fin 4 \<noteq> Undefined"
    "position nav_moved \<noteq> None" "zoomFactor nav_moved \<noteq> None"
    "nav_moved\<lparr>position := Some (Some [Fin 1, Fin 2, Fin 3]), zoomFactor := Some (Fin 4)\<rparr>
       = nav_example"
    by (simp_all add: state_brush_def init_state_def nav_example_def nav_moved_def)
  from locked_view_round_trip[where ?f32.0 = id and s = state_brush and nav = nav_example
        and pos = "[Fin 1, Fin 2, Fin 3]"
        and Z = "Fin 4" and es = "[Navigate (Some nav_moved)]" and nav' = nav_moved
        and U = units_example and v = viewer_inside and v' = viewer_inside
        and es' = "[Navigate (Some nav_moved)]", OF idem msg_type msg_type msg_type]
  have a: "navigationState
     (final (onMessage_p1 units_example id (msg ''reset_to_locked_view'') viewer_inside
        (run_p1 units_example id
           (final (onMessage_p1 units_example id (msg ''view_locked'') viewer_inside state_brush))
           [Navigate (Some nav_moved)])))
   = Some nav_example
   \<and> lockedPosition (final (onMessage_p1 units_example id (msg ''view_locked'') viewer_inside
        state_brush)) = Some [Fin 1, Fin 2, Fin 3]"
    by (simp add: n example_run_navigate)
  from locked_view_round_trip[where ?f32.0 = id and s = state_locked and U = units_example
        and v = viewer_inside and v' = viewer_inside
        and es' = "[Navigate (Some nav_moved)]", OF idem msg_type msg_type msg_type]
  have b: "final (onMessage_p1 units_example id (msg ''reset_to_locked_view'') viewer_inside
        (run_p1 units_example id
           (final (onMessage_p1 units_example id (msg ''view_unlocked'') viewer_inside state_locked))
           [Navigate (Some nav_moved)]))
     = run_p1 units_example id
           (final (onMessage_p1 units_example id (msg ''view_unlocked'') viewer_inside state_locked))
           [Navigate (Some nav_moved)]"
    by (simp add: example_run_navigate)
  from a b show ?thesis by simp
qed

subsection \<open>Recorded points\<close>

lemma adjacent_free_snoc:
  "adjacent_free (xs @ [p]) \<longleftrightarrow> adjacent_free xs \<and> (xs = [] \<or> \<not> same_point (last xs) p)"
  by (induction xs rule: adjacent_free.induct) auto

lemma pushUniquePoint_alt:
  "pushUniquePoint arr p = (if arr = [] \<or> \<not> same_point (last arr) p then arr @ [p] else arr)"
  by (cases arr) (auto simp: pushUniquePoint_def same_point_def Let_def)

lemma pushIfNew_eq: "pushIfNew arr p = pushUniquePoint arr p"
  by (auto simp: pushUniquePoint_alt pushIfNew_def same_point_def)

lemma pushUniquePoint_adjacent_free:
  "adjacent_free arr \<Longrightarrow> adjacent_free (pushUniquePoint arr p)"
  by (simp add: pushUniquePoint_alt adjacent_free_snoc)

lemma pushUniquePoint_set: "set (pushUniquePoint arr p) \<subseteq> insert p (set arr)"
  by (auto simp: pushUniquePoint_alt)

lemma records_refl: "records ps s s"
  by (simp add: records_def)

lemma records_trans: "records ps a b \<Longrightarrow> records ps b c \<Longrightarrow> records ps a c"
  unfolding records_def by blast

lemma records_funpow:
  assumes "\<And>s. records ps s (f s)"
  shows "records ps s ((f ^^ n) s)"
proof (induction n)
  case 0
  show ?case by (simp add: records_refl)
next
  case (Suc n)
  from records_trans[OF Suc assms[of "(f ^^ n) s"]] show ?case by simp
qed

lemma adjacent_free_short: "length xs \<le> 1 \<Longrightarrow> adjacent_free xs"
  by (cases xs rule: adjacent_free.cases) auto

lemma strict_eq_finite: "isFinite a \<Longrightarrow> strict_eq a b \<longleftrightarrow> a = b"
  by (cases a; cases b) simp_all

lemma same_point_finite: "isValidPoint a \<Longrightarrow> same_point a b \<longleftrightarrow> a = b"
  by (auto simp add: same_point_def isValidPoint_def strict_eq_finite intro: StrokePoint.equality)

lemma adjacent_free_finite: "list_all isValidPoint xs \<Longrightarrow> adjacent_free xs \<longleftrightarrow> distinct_adj xs"
  by (induction xs rule: adjacent_free.induct) (simp_all add: same_point_finite)

lemma pushUniquePoint_nan: "pushUniquePoint [nanPoint] nanPoint = [nanPoint, nanPoint]"
  by (simp add: pushUniquePoint_def nanPoint_def)

lemma records_start:
  assumes "strokeData s' = strokeData s" "promptData s' = promptData s"
    "case currentStroke s' of None \<Rightarrow> currentStroke s = None
     | Some st \<Rightarrow> currentStroke s = Some st \<or> (length (points st) \<le> 1 \<and> set (points st) \<subseteq> set ps)"
    "case currentPrompt s' of None \<Rightarrow> currentPrompt s = None
     | Some pr \<Rightarrow> currentPrompt s = Some pr
         \<or> (length (prompt_points pr) \<le> 1 \<and> set (prompt_points pr) \<subseteq> set ps)"
  shows "records ps s s'"
proof -
  have a: "points_ok s \<Longrightarrow> points_ok s'"
    using assms by (auto simp add: points_ok_def adjacent_free_short split: option.splits)
  have b: "set (recorded_points s') \<subseteq> set (recorded_points s) \<union> set ps"
    using assms by (auto simp add: recorded_points_def split: option.splits)
  from a b show ?thesis by (simp add: records_def)
qed

lemma records_keep:
  assumes sd: "set (strokeData s') \<subseteq> set (strokeData s) \<union> set_option (currentStroke s)"
    and pd: "set (promptData s') \<subseteq> set (promptData s) \<union> set_option (currentPrompt s)"
    and cs: "set_option (currentStroke s') \<subseteq> set_option (currentStroke s)"
    and cp: "set_option (currentPrompt s') \<subseteq> set_option (currentPrompt s)"
  shows "records ps s s'"
proof -
  have a: "points_ok s'" if ok: "points_ok s"
  proof -
    from ok have 1: "\<forall>st \<in> set (strokeData s) \<union> set_option (currentStroke s). adjacent_free (points st)"
      by (auto simp add: points_ok_def list_all_iff split: option.splits)
    from ok have 2: "\<forall>pr \<in> set (promptData s) \<union> set_option (currentPrompt s). adjacent_free (prompt_points pr)"
      by (auto simp add: points_ok_def list_all_iff split: option.splits)
    from 1 sd cs have 3: "\<forall>st \<in> set (strokeData s') \<union> set_option (currentStroke s'). adjacent_free (points st)"
      by blast
    from 2 pd cp have 4: "\<forall>pr \<in> set (promptData s') \<union> set_option (currentPrompt s'). adjacent_free (prompt_points pr)"
      by blast
    from 3 4 show ?thesis
      by (auto simp add: points_ok_def list_all_iff split: option.splits)
  qed
  have r: "set (recorded_points t)
      = (\<Union>st \<in> set (strokeData t) \<union> set_option (currentStroke t). set (points st))
        \<union> (\<Union>pr \<in> set (promptData t) \<union> set_option (currentPrompt t). set (prompt_points pr))" for t
    by (auto simp add: recorded_points_def split: option.splits)
  have b: "set (recorded_points s') \<subseteq> set (recorded_points s)"
    unfolding r using sd pd cs cp by blast
  from a b show ?thesis by (auto simp add: records_def)
qed

lemma pushShared_ok:
  "list_all (\<lambda>st. adjacent_free (points st)) sd
   \<Longrightarrow> list_all (\<lambda>st. adjacent_free (points st)) (pushShared k p sd)"
  by (auto simp add: pushShared_def list_all_iff pushUniquePoint_adjacent_free
           dest: in_set_takeD in_set_dropD)

lemma pushShared_points:
  "set (concat (map points (pushShared k p sd))) \<subseteq> insert p (set (concat (map points sd)))"
proof -
  have "set (concat (map points (xs @ map (\<lambda>st. st\<lparr>points := pushUniquePoint (points st) p\<rparr>) ys)))
        \<subseteq> insert p (set (concat (map points (xs @ ys))))" for xs ys
    using pushUniquePoint_set[where p=p] by fastforce
  from this[of "take (length sd - k) sd" "drop (length sd - k) sd"]
  show ?thesis by (simp add: pushShared_def)
qed

lemma option_push:
  fixes f :: "'a \<Rightarrow> StrokePoint list"
  assumes "map_option f a' = map_option f a
     \<or> map_option f a' = map_option (\<lambda>x. pushUniquePoint (f x) p) a"
  shows "(case a of None \<Rightarrow> True | Some x \<Rightarrow> adjacent_free (f x))
         \<Longrightarrow> (case a' of None \<Rightarrow> True | Some x \<Rightarrow> adjacent_free (f x))"
    and "set (case a' of None \<Rightarrow> [] | Some x \<Rightarrow> f x)
         \<subseteq> insert p (set (case a of None \<Rightarrow> [] | Some x \<Rightarrow> f x))"
proof -
  show "(case a of None \<Rightarrow> True | Some x \<Rightarrow> adjacent_free (f x))
         \<Longrightarrow> (case a' of None \<Rightarrow> True | Some x \<Rightarrow> adjacent_free (f x))"
    using assms by (cases a; cases a') (auto simp add: pushUniquePoint_adjacent_free)
  show "set (case a' of None \<Rightarrow> [] | Some x \<Rightarrow> f x)
         \<subseteq> insert p (set (case a of None \<Rightarrow> [] | Some x \<Rightarrow> f x))"
  proof (cases a)
    case None
    with assms show ?thesis by (cases a') auto
  next
    case (Some x)
    with assms obtain y where y: "a' = Some y" "f y = f x \<or> f y = pushUniquePoint (f x) p"
      by (cases a') auto
    with Some pushUniquePoint_set[of "f x" p] show ?thesis by auto
  qed
qed

lemma records_move:
  assumes pd: "promptData s' = promptData s"
    and sd: "strokeData s' = strokeData s \<or> strokeData s' = pushShared k p (strokeData s)"
    and cs: "map_option points (currentStroke s') = map_option points (currentStroke s)
       \<or> map_option points (currentStroke s')
          = map_option (\<lambda>st. pushUniquePoint (points st) p) (currentStroke s)"
    and cp: "map_option prompt_points (currentPrompt s') = map_option prompt_points (currentPrompt s)
       \<or> map_option prompt_points (currentPrompt s')
          = map_option (\<lambda>pr. pushUniquePoint (prompt_points pr) p) (currentPrompt s)"
  shows "records [p] s s'"
proof -
  have sd1: "list_all (\<lambda>st. adjacent_free (points st)) (strokeData s)
    \<Longrightarrow> list_all (\<lambda>st. adjacent_free (points st)) (strokeData s')"
    using sd pushShared_ok by auto
  have sd2: "set (concat (map points (strokeData s')))
     \<subseteq> insert p (set (concat (map points (strokeData s))))"
  proof (cases "strokeData s' = strokeData s")
    case True
    then show ?thesis by auto
  next
    case False
    with sd have "strokeData s' = pushShared k p (strokeData s)" by simp
    then show ?thesis using pushShared_points[of k p "strokeData s"] by simp
  qed
  note cs1 = option_push(1)[OF cs] and cs2 = option_push(2)[OF cs]
  note cp1 = option_push(1)[OF cp] and cp2 = option_push(2)[OF cp]
  have a: "points_ok s \<Longrightarrow> points_ok s'"
    using sd1 cs1 cp1 pd by (simp add: points_ok_def)
  have b: "set (recorded_points s') \<subseteq> set (recorded_points s) \<union> set [p]"
    using sd2 cs2 cp2 pd unfolding recorded_points_def set_append by auto
  from a b show ?thesis by (simp add: records_def)
qed

lemma enqueueDraw_capture:
  "strokeData (enqueueDraw x y s) = strokeData s" "promptData (enqueueDraw x y s) = promptData s"
  "currentStroke (enqueueDraw x y s) = currentStroke s"
  "currentPrompt (enqueueDraw x y s) = currentPrompt s"
  by (simp_all add: enqueueDraw_def Let_def)

lemma onMouseDown_p1_records:
  "records (if isInDataBounds v then [voxelPoint_p1 v] else []) s (snd (final (onMouseDown_p1 U e v s)))"
proof (cases "(\<not> truthy_str (activeMode (drawingTool s)) \<and> \<not> truthy_str (promptMode (drawingTool s)))
     \<or> button e \<noteq> 0 \<or> \<not> isOnDataPanel e \<or> \<not> isInDataBounds v")
  case True
  then have "snd (final (onMouseDown_p1 U e v s)) = s"
    by (auto simp: onMouseDown_p1_def Let_def)
  then show ?thesis by (simp add: records_refl)
next
  case guard: False
  let ?s1 = "s\<lparr>isCapturing := True, lastScreen := (NaN, NaN),
                drawingTool := (drawingTool s)\<lparr>startX := fst (containerCoords e v),
                   startY := snd (containerCoords e v), isDrawing := True\<rparr>\<rparr>"
  let ?s' = "snd (final (onMouseDown_p1 U e v s))"
  let ?am = "activeMode (drawingTool s)"
  let ?pm = "promptMode (drawingTool s)"
  have "records [voxelPoint_p1 v] s ?s'"
  proof (cases "calculatePhysicalSizePerVoxel_p1 U v")
    case (Inl err)
    with guard show ?thesis
      by (intro records_keep) (simp_all add: onMouseDown_p1_def Let_def case_prod_beta)
  next
    case (Inr r)
    show ?thesis
    proof (cases U v ?s1 rule: sendScaleBarUpdate_cases)
      case (throws err)
      with guard Inr show ?thesis
        by (intro records_keep) (simp_all add: onMouseDown_p1_def Let_def case_prod_beta)
    next
      case (returns l ob)
      note R = guard Inr returns
      consider (brush) "?am = Some ''brush'' \<or> ?am = Some ''eraser''"
        | (point) "\<not> (?am = Some ''brush'' \<or> ?am = Some ''eraser'')" "?pm = Some ''point''"
        | (bbox) "\<not> (?am = Some ''brush'' \<or> ?am = Some ''eraser'')" "?pm = Some ''bbox''"
        | (scribble) "\<not> (?am = Some ''brush'' \<or> ?am = Some ''eraser'')" "?pm = Some ''scribble''"
        | (lasso) "\<not> (?am = Some ''brush'' \<or> ?am = Some ''eraser'')" "?pm = Some ''lasso''"
        | (other) "\<not> (?am = Some ''brush'' \<or> ?am = Some ''eraser'')" "?pm \<noteq> Some ''point''"
            "?pm \<noteq> Some ''bbox''" "?pm \<noteq> Some ''scribble''" "?pm \<noteq> Some ''lasso''"
        by blast
      then show ?thesis
      proof cases
        case brush
        with R show ?thesis
          by (intro records_start)
             (simp_all add: onMouseDown_p1_def Let_def postMessage_def case_prod_beta
                 split: option.splits)
      next
        case point
        with R show ?thesis
          by (intro records_start)
             (simp_all add: onMouseDown_p1_def Let_def postMessage_def case_prod_beta
                 split: option.splits)
      next
        case bbox
        with R show ?thesis
          by (intro records_start)
             (simp_all add: onMouseDown_p1_def Let_def postMessage_def case_prod_beta
                 split: option.splits)
      next
        case scribble
        with R show ?thesis
          by (intro records_start)
             (simp_all add: onMouseDown_p1_def Let_def postMessage_def case_prod_beta
                 split: option.splits)
      next
        case lasso
        with R show ?thesis
          by (intro records_start)
             (simp_all add: onMouseDown_p1_def Let_def postMessage_def case_prod_beta
                 split: option.splits)
      next
        case other
        with R show ?thesis
          by (intro records_start)
             (simp_all add: onMouseDown_p1_def Let_def postMessage_def case_prod_beta
                 split: option.splits)
      qed
    qed
  qed
  with guard show ?thesis by simp
qed

lemma onMouseDown_p0_records:
  "records (if isInDataBounds v then [voxelPoint_p0 v] else []) s (snd (final (onMouseDown_p0 U e v s)))"
proof (cases "(\<not> truthy_str (activeMode (drawingTool s)) \<and> \<not> truthy_str (promptMode (drawingTool s)))
     \<or> button e \<noteq> 0 \<or> \<not> isOnDataPanel e \<or> \<not> isInDataBounds v")
  case True
  then have "snd (final (onMouseDown_p0 U e v s)) = s"
    by (auto simp: onMouseDown_p0_def Let_def)
  then show ?thesis by (simp add: records_refl)
next
  case guard: False
  let ?s1 = "s\<lparr>isCapturing := True, lastScreen := (NaN, NaN),
                drawingTool := (drawingTool s)\<lparr>startX := fst (containerCoords e v),
                   startY := snd (containerCoords e v), isDrawing := True\<rparr>\<rparr>"
  let ?s' = "snd (final (onMouseDown_p0 U e v s))"
  let ?am = "activeMode (drawingTool s)"
  let ?pm = "promptMode (drawingTool s)"
  have "records [voxelPoint_p0 v] s ?s'"
  proof (cases "calculatePhysicalSizePerVoxel_p1 U v")
    case (Inl err)
    with guard show ?thesis
      by (intro records_keep) (simp_all add: onMouseDown_p0_def Let_def case_prod_beta)
  next
    case (Inr r)
    show ?thesis
    proof (cases U v ?s1 rule: sendScaleBarUpdate_cases)
      case (throws err)
      with guard Inr show ?thesis
        by (intro records_keep) (simp_all add: onMouseDown_p0_def Let_def case_prod_beta)
    next
      case (returns l ob)
      note R = guard Inr returns
      consider (brush) "?am = Some ''brush''"
        | (point) "?am \<noteq> Some ''brush''" "?pm = Some ''point''"
        | (bbox) "?am \<noteq> Some ''brush''" "?pm = Some ''bbox''"
        | (scribble) "?am \<noteq> Some ''brush''" "?pm = Some ''scribble''"
        | (lasso) "?am \<noteq> Some ''brush''" "?pm = Some ''lasso''"
        | (other) "?am \<noteq> Some ''brush''" "?pm \<noteq> Some ''point''"
            "?pm \<noteq> Some ''bbox''" "?pm \<noteq> Some ''scribble''" "?pm \<noteq> Some ''lasso''"
        by blast
      then show ?thesis
      proof cases
        case brush
        with R show ?thesis
          by (intro records_start)
             (simp_all add: onMouseDown_p0_def Let_def case_prod_beta split: option.splits)
      next
        case point
        with R show ?thesis
          by (intro records_start)
             (simp_all add: onMouseDown_p0_def Let_def case_prod_beta split: option.splits)
      next
        case bbox
        with R show ?thesis
          by (intro records_start)
             (simp_all add: onMouseDown_p0_def Let_def case_prod_beta split: option.splits)
      next
        case scribble
        with R show ?thesis
          by (intro records_start)
             (simp_all add: onMouseDown_p0_def Let_def case_prod_beta split: option.splits)
      next
        case lasso
        with R show ?thesis
          by (intro records_start)
             (simp_all add: onMouseDown_p0_def Let_def case_prod_beta split: option.splits)
      next
        case other
        with R show ?thesis
          by (intro records_start)
             (simp_all add: onMouseDown_p0_def Let_def case_prod_beta split: option.splits)
      qed
    qed
  qed
  with guard show ?thesis by simp
qed

lemma onMouseDown_ts_records:
  "records (if isValidPoint (voxelPoint_ts v) then [voxelPoint_ts v] else []) s
     (snd (final (onMouseDown_ts U e v s)))"
proof (cases "(\<not> truthy_str (activeMode (drawingTool s)) \<and> \<not> truthy_str (promptMode (drawingTool s)))
     \<or> button e \<noteq> 0")
  case True
  then have "snd (final (onMouseDown_ts U e v s)) = s"
    by (auto simp: onMouseDown_ts_def Let_def)
  then show ?thesis by (simp add: records_refl)
next
  case guard: False
  let ?s1 = "s\<lparr>isCapturing := True, lastScreen := (NaN, NaN),
                drawingTool := (drawingTool s)\<lparr>startX := fst (containerCoords e v),
                   startY := snd (containerCoords e v), isDrawing := True\<rparr>\<rparr>"
  let ?am = "activeMode (drawingTool s)"
  let ?pm = "promptMode (drawingTool s)"
  show ?thesis
  proof (cases "calculatePhysicalSizePerVoxel_ts U v")
    case (Inl err)
    with guard show ?thesis
      by (intro records_keep) (simp_all add: onMouseDown_ts_def Let_def case_prod_beta)
  next
    case (Inr r)
    show ?thesis
    proof (cases U v ?s1 rule: sendScaleBarUpdate_cases)
      case (throws err)
      with guard Inr show ?thesis
        by (intro records_keep) (simp_all add: onMouseDown_ts_def Let_def case_prod_beta)
    next
      case (returns l ob)
      note R = guard Inr returns
      consider (brush) "?am = Some ''brush''" | (eraser) "?am = Some ''eraser''"
        | (point) "\<not> (?am = Some ''brush'' \<or> ?am = Some ''eraser'')" "?pm = Some ''point''"
        | (bbox) "\<not> (?am = Some ''brush'' \<or> ?am = Some ''eraser'')" "?pm = Some ''bbox''"
        | (scribble) "\<not> (?am = Some ''brush'' \<or> ?am = Some ''eraser'')" "?pm = Some ''scribble''"
        | (lasso) "\<not> (?am = Some ''brush'' \<or> ?am = Some ''eraser'')" "?pm = Some ''lasso''"
        | (other) "\<not> (?am = Some ''brush'' \<or> ?am = Some ''eraser'')" "?pm \<noteq> Some ''point''"
            "?pm \<noteq> Some ''bbox''" "?pm \<noteq> Some ''scribble''" "?pm \<noteq> Some ''lasso''"
        by blast
      then show ?thesis
      proof cases
        case brush
        with R show ?thesis
          by (intro records_start)
             (simp_all add: onMouseDown_ts_def Let_def case_prod_beta isValidPoint_def
                split: option.splits)
      next
        case eraser
        with R show ?thesis
          by (intro records_start)
             (simp_all add: onMouseDown_ts_def Let_def case_prod_beta isValidPoint_def
                split: option.splits)
      next
        case point
        with R show ?thesis
          by (intro records_start)
             (simp_all add: onMouseDown_ts_def Let_def case_prod_beta isValidPoint_def
                split: option.splits)
      next
        case bbox
        with R show ?thesis
          by (intro records_start)
             (simp_all add: onMouseDown_ts_def Let_def case_prod_beta isValidPoint_def
                split: option.splits)
      next
        case scribble
        with R show ?thesis
          by (intro records_start)
             (simp_all add: onMouseDown_ts_def Let_def case_prod_beta isValidPoint_def
                split: option.splits)
      next
        case lasso
        with R show ?thesis
          by (intro records_start)
             (simp_all add: onMouseDown_ts_def Let_def case_prod_beta isValidPoint_def
                split: option.splits)
      next
        case other
        with R show ?thesis
          by (intro records_start)
             (simp_all add: onMouseDown_ts_def Let_def case_prod_beta isValidPoint_def
                split: option.splits)
      qed
    qed
  qed
qed

lemma onMove_p1_records:
  "records (if isInDataBounds v then [voxelPoint_p1 v] else []) s (onMove_p1 ev v s)"
proof (cases "\<not> isCapturing s \<or> (currentStroke s = None \<and> currentPrompt s = None)
     \<or> \<not> isOnDataPanel ev \<or> \<not> isInDataBounds v")
  case True
  then show ?thesis
    by (intro records_keep) (auto simp add: onMove_p1_def)
next
  case guard: False
  have "records [voxelPoint_p1 v] s (onMove_p1 ev v s)"
  proof (cases "currentStroke s")
    case (Some st)
    with guard show ?thesis
      by (intro records_move[where k="sharedStrokes s"])
         (simp_all add: onMove_p1_def Let_def case_prod_beta enqueueDraw_capture)
  next
    case None
    with guard obtain pr where pr: "currentPrompt s = Some pr" by auto
    show ?thesis
      using guard None pr
      by (cases pr; intro records_move[where k="sharedStrokes s"])
         (simp_all add: onMove_p1_def Let_def case_prod_beta enqueueDraw_capture)
  qed
  with guard show ?thesis by simp
qed

lemma onMove_p0_records:
  "records (if isInDataBounds v then [voxelPoint_p0 v] else []) s (onMove_p0 ev v s)"
proof (cases "\<not> isCapturing s \<or> (currentStroke s = None \<and> currentPrompt s = None)
     \<or> \<not> isOnDataPanel ev \<or> \<not> isInDataBounds v")
  case True
  then show ?thesis
    by (intro records_keep) (auto simp add: onMove_p0_def)
next
  case guard: False
  have "records [voxelPoint_p0 v] s (onMove_p0 ev v s)"
  proof (cases "currentStroke s")
    case (Some st)
    with guard show ?thesis
      by (intro records_move[where k=0])
         (simp_all add: onMove_p0_def Let_def case_prod_beta enqueueDraw_capture)
  next
    case None
    with guard obtain pr where pr: "currentPrompt s = Some pr" by auto
    show ?thesis
      using guard None pr
      by (cases pr; intro records_move[where k=0])
         (simp_all add: onMove_p0_def Let_def case_prod_beta enqueueDraw_capture)
  qed
  with guard show ?thesis by simp
qed

lemma onMove_ts_records:
  "records (if isValidPoint (voxelPoint_ts v) then [voxelPoint_ts v] else []) s (onMove_ts ev v s)"
proof (cases "\<not> isCapturing s \<or> (currentStroke s = None \<and> currentPrompt s = None)
     \<or> \<not> isValidPoint (voxelPoint_ts v)")
  case True
  then show ?thesis
    by (intro records_keep)
       (auto simp add: onMove_ts_def Let_def case_prod_beta enqueueDraw_capture isValidPoint_def)
next
  case guard: False
  have "records [voxelPoint_ts v] s (onMove_ts ev v s)"
  proof (cases "currentStroke s")
    case (Some st)
    with guard show ?thesis
      by (intro records_move[where k=0])
         (simp_all add: onMove_ts_def Let_def case_prod_beta enqueueDraw_capture isValidPoint_def
            pushIfNew_eq)
  next
    case None
    with guard obtain pr where pr: "currentPrompt s = Some pr" by auto
    show ?thesis
      using guard None pr
      by (cases pr; intro records_move[where k=0])
         (simp_all add: onMove_ts_def Let_def case_prod_beta enqueueDraw_capture isValidPoint_def
            pushIfNew_eq)
  qed
  with guard show ?thesis by simp
qed

lemma onUp_records:
  "records ps s (onUp_ts s)" "records ps s (onUp_p0 s)" "records ps s ((final \<circ> onUp_p1) s)"
proof -
  show "records ps s (onUp_ts s)"
    by (intro records_keep)
       (auto simp add: onUp_ts_def postMessage_def Let_def split: option.splits)
  show "records ps s (onUp_p0 s)"
    by (intro records_keep)
       (auto simp add: onUp_p0_def commitStroke_p0_def finishCapture_def postMessage_def Let_def
          split: option.splits)
  show "records ps s ((final \<circ> onUp_p1) s)"
    by (intro records_keep)
       (auto simp add: onUp_p1_def commitStroke_p1_def finishCapture_def postMessage_def
          sendAnnotationStateUpdate_def Let_def split: option.splits)
qed

lemma onMessage_records:
  "records ps s (final (onMessage_ts U m v s))" "records ps s (final (onMessage_p0 U m v s))"
  "records ps s (final (onMessage_p1 U f32 m v s))"
proof -
  show "records ps s (final (onMessage_ts U m v s))"
    by (intro records_keep)
       (auto simp add: onMessage_ts_def message_defs split: sum.splits option.splits)
  show "records ps s (final (onMessage_p0 U m v s))"
    by (intro records_keep)
       (auto simp add: onMessage_p0_def message_defs split: sum.splits option.splits)
  show "records ps s (final (onMessage_p1 U f32 m v s))"
    by (intro records_keep)
       (auto simp add: onMessage_p1_def message_defs split: sum.splits option.splits)
qed

lemma other_records:
  "records ps s (snd (keyDown_p1 e s))" "records ps s (snd (onKeyDown_p0 e s))"
  "records ps s (final (drawStep_p1 U v s))" "records ps s (final (drawStep_ts U v s))"
  "records ps s (snapshotLoaded_p1 v s)" "records ps s (snapshotLoaded_p0 s)"
  "records ps s (s\<lparr>navigationState := nav\<rparr>)"
proof -
  show "records ps s (snd (keyDown_p1 e s))"
    by (intro records_keep)
       (auto simp add: keyDown_p1_def onKeyDown_p1_def postMessage_def Let_def split: prod.splits)
  show "records ps s (snd (onKeyDown_p0 e s))"
    by (intro records_keep) (auto simp add: onKeyDown_p0_def postMessage_def Let_def)
  show "records ps s (final (drawStep_p1 U v s))"
    by (intro records_keep)
       (auto simp add: drawStep_p1_def Let_def getPixelSize_p1_def split: prod.splits sum.splits)
  show "records ps s (final (drawStep_ts U v s))"
    by (intro records_keep)
       (auto simp add: drawStep_ts_def Let_def split: prod.splits sum.splits)
  show "records ps s (snapshotLoaded_p1 v s)"
    by (intro records_keep)
       (simp_all add: snapshotLoaded_p1_def drawLockedRegionIndicator_eq clearCanvas_def
          postMessage_def Let_def)
  show "records ps s (snapshotLoaded_p0 s)"
    by (intro records_keep)
       (simp_all add: snapshotLoaded_p0_def clearCanvas_def postMessage_def Let_def)
  show "records ps s (s\<lparr>navigationState := nav\<rparr>)"
    by (intro records_keep) simp_all
qed

lemma step_p1_records:
  "records (accepted_points voxelPoint_p1 isInDataBounds ev) s (step_p1 U f32 s ev)"
proof (cases ev)
  case (MouseDown e v)
  then show ?thesis
    using onMouseDown_p1_records[where s=s and U=U and e=e and v=v]
    by (simp add: mouseDown_p1_def case_prod_beta)
next
  case (MouseMove e v)
  then show ?thesis
    using records_funpow[of _ "onMove_p1 e v", OF onMove_p1_records] by simp
next
  case MouseUp
  then show ?thesis
    using records_funpow[of _ "final \<circ> onUp_p1", OF onUp_records(3)] by simp
qed (simp_all add: other_records onMessage_records records_refl)

lemma step_p0_records:
  "records (accepted_points voxelPoint_p0 isInDataBounds ev) s (step_p0 U s ev)"
proof (cases ev)
  case (MouseDown e v)
  then show ?thesis
    using onMouseDown_p0_records[where s=s and U=U and e=e and v=v] by simp
next
  case (MouseMove e v)
  then show ?thesis
    using records_funpow[of _ "onMove_p0 e v", OF onMove_p0_records] by simp
next
  case MouseUp
  then show ?thesis
    using records_funpow[of _ onUp_p0, OF onUp_records(2)] by simp
qed (simp_all add: other_records onMessage_records records_refl)

lemma step_ts_records:
  "records (accepted_points voxelPoint_ts (\<lambda>v. isValidPoint (voxelPoint_ts v)) ev) s (step_ts U s ev)"
proof (cases ev)
  case (MouseDown e v)
  then show ?thesis
    using onMouseDown_ts_records[where s=s and U=U and e=e and v=v] by simp
next
  case (MouseMove e v)
  then show ?thesis
    using records_funpow[of _ "onMove_ts e v", OF onMove_ts_records] by simp
next
  case MouseUp
  then show ?thesis
    using records_funpow[of _ onUp_ts, OF onUp_records(1)] by simp
qed (simp_all add: other_records onMessage_records records_refl)

lemma run_points_ok:
  "points_ok s \<Longrightarrow> points_ok (run_ts U s es)"
  "points_ok s \<Longrightarrow> points_ok (run_p0 U s es)"
  "points_ok s \<Longrightarrow> points_ok (run_p1 U f32 s es)"
proof -
  have ts: "points_ok s \<Longrightarrow> points_ok (step_ts U s ev)" for s ev
    using step_ts_records[of ev s U] by (simp add: records_def)
  have p0: "points_ok s \<Longrightarrow> points_ok (step_p0 U s ev)" for s ev
    using step_p0_records[of ev s U] by (simp add: records_def)
  have p1: "points_ok s \<Longrightarrow> points_ok (step_p1 U f32 s ev)" for s ev
    using step_p1_records[of ev s U f32] by (simp add: records_def)
  show "points_ok s \<Longrightarrow> points_ok (run_ts U s es)"
    unfolding run_ts_def by (induction es arbitrary: s) (simp_all add: ts del: step_ts.simps)
  show "points_ok s \<Longrightarrow> points_ok (run_p0 U s es)"
    unfolding run_p0_def by (induction es arbitrary: s) (simp_all add: p0 del: step_p0.simps)
  show "points_ok s \<Longrightarrow> points_ok (run_p1 U f32 s es)"
    unfolding run_p1_def by (induction es arbitrary: s) (simp_all add: p1 del: step_p1.simps)
qed

lemma init_points_ok: "points_ok (init_state nav)"
  by (simp add: points_ok_def init_state_def)

text \<open>
  Claim C8. Equality of two points is what the code tests: \<open>===\<close> on each of x, y and z
  (\<open>same_point\<close>), under which a coordinate that is NaN is equal to nothing (lemma
  \<open>pushUniquePoint_nan\<close>); on points with finite coordinates it is equality of the points
  (lemma \<open>adjacent_free_finite\<close>). Appending
  through \<open>pushUniquePoint\<close> (part_000, part_001) or through the inline test of \<open>onMove\<close>
  (drawing_tool_handler.ts) keeps a list free of adjacent duplicates. Every event keeps all
  point lists of the state free of them: those of the stroke and the prompt in progress and
  those of the committed strokes and prompts. So they are free of them after every sequence
  of events from the initial state.
\<close>

theorem adjacent_duplicate_freedom:
  "(adjacent_free arr \<longrightarrow> adjacent_free (pushUniquePoint arr p) \<and> adjacent_free (pushIfNew arr p))
   \<and> (points_ok s \<longrightarrow>
        points_ok (step_ts U s ev) \<and> points_ok (step_p0 U s ev) \<and> points_ok (step_p1 U f32 s ev))
   \<and> points_ok (run_ts U (init_state nav) es)
   \<and> points_ok (run_p0 U (init_state nav) es)
   \<and> points_ok (run_p1 U f32 (init_state nav) es)"
proof -
  have a: "adjacent_free arr \<longrightarrow> adjacent_free (pushUniquePoint arr p) \<and> adjacent_free (pushIfNew arr p)"
    by (simp add: pushIfNew_eq pushUniquePoint_adjacent_free)
  have b: "points_ok s \<longrightarrow>
        points_ok (step_ts U s ev) \<and> points_ok (step_p0 U s ev) \<and> points_ok (step_p1 U f32 s ev)"
    using step_ts_records[of ev s U] step_p0_records[of ev s U] step_p1_records[of ev s U f32]
    by (simp add: records_def)
  from a b run_points_ok[OF init_points_ok] show ?thesis by simp
qed

theorem adjacent_duplicate_freedom_witness:
  "adjacent_free [point_example]
   \<and> adjacent_free (pushUniquePoint [point_example] point_example)
   \<and> points_ok state_capturing
   \<and> points_ok (step_ts units_example state_capturing (MouseMove (press 0 True) viewer_inside))
   \<and> points_ok (step_p0 units_example state_capturing (MouseMove (press 0 True) viewer_inside))
   \<and> points_ok (step_p1 units_example id state_capturing (MouseMove (press 0 True) viewer_inside))
   \<and> points_ok (run_p1 units_example id (init_state None) brush_click)"
proof -
  have ok: "points_ok state_capturing"
    by (simp add: points_ok_def state_capturing_def state_brush_def init_state_def
          stroke_example_def)
  from adjacent_duplicate_freedom[of "[point_example]" point_example state_capturing
      units_example "MouseMove (press 0 True) viewer_inside" id None brush_click] ok
  show ?thesis by (simp del: step_ts.simps step_p0.simps step_p1.simps)
qed

lemma indexOf_dimension: "indexOf ns a = (if a \<in> set ns then Some (dimension ns a) else None)"
  by (induction ns) (auto simp add: dimension_def)

lemma three_names:
  assumes "''x'' \<in> set ns" "''y'' \<in> set ns" "''z'' \<in> set ns"
  shows "3 \<le> length ns"
proof -
  from assms have "{''x'', ''y'', ''z''} \<subseteq> set ns" by simp
  then have "card {''x'', ''y'', ''z''} \<le> card (set ns)" by (intro card_mono) simp_all
  also have "card (set ns) \<le> length ns" by (rule card_length)
  finally show ?thesis by simp
qed

lemma voxelPoint_named: "voxelPoint_p1 v = named_point v"
proof (cases "Option.bind (coordinateSpace v) names")
  case None
  then show ?thesis by (simp add: voxelPoint_p1_def named_point_def split: option.splits)
next
  case (Some ns)
  show ?thesis
  proof (cases "''x'' \<in> set ns \<and> ''y'' \<in> set ns \<and> ''z'' \<in> set ns")
    case True
    with three_names[of ns] have "3 \<le> length ns" by simp
    with Some True show ?thesis
      by (simp add: voxelPoint_p1_def named_point_def indexOf_dimension split: option.splits)
  next
    case False
    with Some show ?thesis
      by (auto simp add: voxelPoint_p1_def named_point_def indexOf_dimension split: option.splits)
  qed
qed

lemma no_position_points:
  assumes "no_position v"
  shows "named_point v = nanPoint" "positional_point v = nanPoint" "\<not> isInDataBounds v"
    "\<not> isValidPoint nanPoint"
  using assms
  by (auto simp add: no_position_def named_point_def positional_point_def isInDataBounds_def
        isValidPoint_def nanPoint_def split: option.splits)

text \<open>
  Claim C2, as the code has it. A point is recorded by a \<open>mousedown\<close> or a \<open>mousemove\<close> only,
  and it is the voxel point of the viewer's mouse position at that event. In part_001 the
  voxel point is taken by dimension names: the components at the dimensions named x, y and
  z when all three names are present, the first three components otherwise. In part_000
  and drawing_tool_handler.ts it is the first three components whatever the names are.
  When the position is missing or has fewer than three components, the voxel point is
  (NaN, NaN, NaN) and neither a \<open>mousedown\<close> nor a \<open>mousemove\<close> records a point.
\<close>

theorem recorded_points_are_voxel_points:
  "voxelPoint_p1 v = named_point v
   \<and> voxelPoint_p0 v = positional_point v
   \<and> voxelPoint_ts v = positional_point v
   \<and> set (recorded_points (step_p1 U f32 s ev))
       \<subseteq> set (recorded_points s) \<union> set (accepted_points named_point isInDataBounds ev)
   \<and> set (recorded_points (step_p0 U s ev))
       \<subseteq> set (recorded_points s) \<union> set (accepted_points positional_point isInDataBounds ev)
   \<and> set (recorded_points (step_ts U s ev))
       \<subseteq> set (recorded_points s)
         \<union> set (accepted_points positional_point (\<lambda>v. isValidPoint (positional_point v)) ev)
   \<and> (no_position v \<longrightarrow>
        named_point v = nanPoint \<and> positional_point v = nanPoint
        \<and> set (recorded_points (step_p1 U f32 s (MouseDown e v))) \<subseteq> set (recorded_points s)
        \<and> set (recorded_points (step_p1 U f32 s (MouseMove e v))) \<subseteq> set (recorded_points s)
        \<and> set (recorded_points (step_p0 U s (MouseDown e v))) \<subseteq> set (recorded_points s)
        \<and> set (recorded_points (step_p0 U s (MouseMove e v))) \<subseteq> set (recorded_points s)
        \<and> set (recorded_points (step_ts U s (MouseDown e v))) \<subseteq> set (recorded_points s)
        \<and> set (recorded_points (step_ts U s (MouseMove e v))) \<subseteq> set (recorded_points s))"
proof -
  have p1: "voxelPoint_p1 = named_point" by (rule ext) (rule voxelPoint_named)
  have p0: "voxelPoint_p0 = positional_point"
    by (rule ext) (simp add: voxelPoint_p0_def positional_point_def)
  have ts: "voxelPoint_ts = positional_point"
    by (rule ext) (simp add: voxelPoint_ts_def positional_point_def)
  have s1: "set (recorded_points (step_p1 U f32 s ev))
       \<subseteq> set (recorded_points s) \<union> set (accepted_points named_point isInDataBounds ev)" for ev
    using step_p1_records[of ev s U f32] by (simp add: records_def p1)
  have s0: "set (recorded_points (step_p0 U s ev))
       \<subseteq> set (recorded_points s) \<union> set (accepted_points positional_point isInDataBounds ev)" for ev
    using step_p0_records[of ev s U] by (simp add: records_def p0)
  have st: "set (recorded_points (step_ts U s ev))
       \<subseteq> set (recorded_points s)
         \<union> set (accepted_points positional_point (\<lambda>v. isValidPoint (positional_point v)) ev)" for ev
    using step_ts_records[of ev s U] by (simp add: records_def ts)
  have n: "set (recorded_points (step_p1 U f32 s (MouseDown e v))) \<subseteq> set (recorded_points s)
        \<and> set (recorded_points (step_p1 U f32 s (MouseMove e v))) \<subseteq> set (recorded_points s)
        \<and> set (recorded_points (step_p0 U s (MouseDown e v))) \<subseteq> set (recorded_points s)
        \<and> set (recorded_points (step_p0 U s (MouseMove e v))) \<subseteq> set (recorded_points s)
        \<and> set (recorded_points (step_ts U s (MouseDown e v))) \<subseteq> set (recorded_points s)
        \<and> set (recorded_points (step_ts U s (MouseMove e v))) \<subseteq> set (recorded_points s)"
    if "no_position v"
    using s1[of "MouseDown e v"] s1[of "MouseMove e v"] s0[of "MouseDown e v"]
      s0[of "MouseMove e v"] st[of "MouseDown e v"] st[of "MouseMove e v"]
      no_position_points[OF that]
    by (simp del: step_ts.simps step_p0.simps step_p1.simps)
  from p1 p0 ts s1[of ev] s0[of ev] st[of ev] n no_position_points(1,2) show ?thesis
    by (simp del: step_ts.simps step_p0.simps step_p1.simps)
qed

theorem recorded_points_are_voxel_points_witness:
  "no_position viewer_nowhere
   \<and> voxelPoint_p1 viewer_nowhere = nanPoint
   \<and> voxelPoint_ts viewer_nowhere = nanPoint
   \<and> set (recorded_points (step_p1 units_example id state_capturing
                             (MouseMove (press 0 True) viewer_nowhere))) \<subseteq> {point_example}
   \<and> set (recorded_points (step_ts units_example state_capturing
                             (MouseDown (press 0 True) viewer_nowhere))) \<subseteq> {point_example}
   \<and> set (recorded_points (step_p1 units_example id state_capturing
                             (MouseMove (press 0 True) viewer_zyx)))
       \<subseteq> {point_example, \<lparr>px = Fin 3, py = Fin 2, pz = Fin 1\<rparr>}"
proof -
  have n: "no_position viewer_nowhere"
    by (simp add: no_position_def viewer_nowhere_def viewer_at_def)
  have r: "set (recorded_points state_capturing) = {point_example}"
    by (simp add: recorded_points_def state_capturing_def state_brush_def init_state_def
          stroke_example_def)
  have z: "named_point viewer_zyx = \<lparr>px = Fin 3, py = Fin 2, pz = Fin 1\<rparr>"
    using voxelPoint_named[of viewer_zyx] by (simp add: example_voxelPoints)
  from recorded_points_are_voxel_points[of viewer_nowhere units_example id state_capturing
      "MouseMove (press 0 True) viewer_zyx" "press 0 True"] n r z example_bounds(4)
  show ?thesis
    by (simp del: step_ts.simps step_p0.simps step_p1.simps) blast
qed

text \<open>
  Claim C2 as it is worded fails in drawing_tool_handler.ts and part_000: with the dimensions
  named z, y, x and the mouse at (1, 2, 3), a brush press records x = 1, the component at the
  dimension named z, where the component at the dimension named x is 3.
\<close>

theorem recorded_points_counterexample:
  "Option.bind (coordinateSpace viewer_zyx) names = Some [''z'', ''y'', ''x'']
   \<and> mousePosition viewer_zyx = Some [Fin 1, Fin 2, Fin 3]
   \<and> named_point viewer_zyx = \<lparr>px = Fin 3, py = Fin 2, pz = Fin 1\<rparr>
   \<and> recorded_points (step_ts units_example state_brush (MouseDown (press 0 True) viewer_zyx))
       = [\<lparr>px = Fin 1, py = Fin 2, pz = Fin 3\<rparr>]
   \<and> recorded_points (step_p0 units_example state_brush (MouseDown (press 0 True) viewer_zyx))
       = [\<lparr>px = Fin 1, py = Fin 2, pz = Fin 3\<rparr>]
   \<and> recorded_points (step_p1 units_example id state_brush (MouseDown (press 0 True) viewer_zyx))
       = [\<lparr>px = Fin 3, py = Fin 2, pz = Fin 1\<rparr>]"
proof -
  have v: "voxelPoint_p0 viewer_zyx = \<lparr>px = Fin 1, py = Fin 2, pz = Fin 3\<rparr>"
    by (simp add: voxelPoint_p0_def firstThree_def js_nth_def viewer_zyx_def viewer_at_def)
  have z: "named_point viewer_zyx = \<lparr>px = Fin 3, py = Fin 2, pz = Fin 1\<rparr>"
    using voxelPoint_named[of viewer_zyx] by (simp add: example_voxelPoints)
  have m: "activeMode (drawingTool state_brush) = Some ''brush''"
    "promptMode (drawingTool state_brush) = None"
    "lockedBBox state_brush = None" "currentPrompt state_brush = None"
    "strokeData state_brush = []" "promptData state_brush = []"
    by (simp_all add: state_brush_def init_state_def init_tool_def)
  have e: "calculatePhysicalSizePerVoxel_ts U viewer_zyx = Inr None"
    "calculatePhysicalSizePerVoxel_p1 U viewer_zyx = Inr None"
    "sendScaleBarUpdate U viewer_zyx t = Done t"
    "containerCoords (press 0 True) viewer_zyx = (Fin 5, Fin 6)" for U t
    by (simp_all add: viewer_zyx_def example_sizes example_coords)
  have ts: "recorded_points (step_ts units_example state_brush (MouseDown (press 0 True) viewer_zyx))
       = [\<lparr>px = Fin 1, py = Fin 2, pz = Fin 3\<rparr>]"
    by (simp add: onMouseDown_ts_def Let_def m e example_voxelPoints press_button
          recorded_points_def)
  have p0: "recorded_points (step_p0 units_example state_brush (MouseDown (press 0 True) viewer_zyx))
       = [\<lparr>px = Fin 1, py = Fin 2, pz = Fin 3\<rparr>]"
    by (simp add: onMouseDown_p0_def Let_def m e example_bounds example_panels v press_button
          isValidPoint_def recorded_points_def)
  have p1: "recorded_points (step_p1 units_example id state_brush (MouseDown (press 0 True) viewer_zyx))
       = [\<lparr>px = Fin 3, py = Fin 2, pz = Fin 1\<rparr>]"
    by (simp add: mouseDown_p1_def onMouseDown_p1_def Let_def m e example_bounds example_panels
          example_voxelPoints press_button isValidPoint_def recorded_points_def)
  from z ts p0 p1 show ?thesis by (simp add: viewer_zyx_def viewer_at_def)
qed

end
